theory Spec2Isabelle
  imports Main
begin

section \<open>Python exceptions, outcomes and the interaction history\<close>

text \<open>
  The samples of this repository are short scripts around calls into cloud client
  libraries. The libraries, the file system and the clock are outside the repository, so
  they are parameters of the model: an environment answers every call, and its answer may
  depend on everything that happened before (the history). A call either returns a value
  or raises; both are values of a sum type. Every function of a sample is a state
  transformer on the history, which it extends by one event per call.
\<close>

datatype exn =
    Exception string
  | ValueError string
  | TypeError
  | AttributeError
  | UnboundLocalError
  | OSError string
  | GoogleAPICallError string
  | DefaultCredentialsError string
  | ModuleNotFoundError string

text \<open>
  A run returns a value, raises, or is still inside a polling loop when the bound on the
  number of polls (the fuel of the loops below) is used up.
\<close>

datatype 'a outcome = Returns 'a | Raises exn | StillRunning

subsection \<open>Objects of the client libraries\<close>

text \<open>
  A Dataproc cluster as the sample reads it: \<open>cluster.cluster_name\<close>,
  \<open>cluster.cluster_uuid\<close>, \<open>cluster.status.state\<close>, \<open>cluster.status.detail\<close> and
  \<open>cluster.config.config_bucket\<close>. The state is the number of a value of the enum
  \<open>ClusterStatus.State\<close>; the service may send a number for which the installed
  library has no name.
\<close>

record cluster =
  cluster_name :: string
  cluster_uuid :: string
  status_state :: int
  status_detail :: string
  config_bucket :: string

text \<open>
  A Dataproc job: \<open>job.reference.job_id\<close>, \<open>job.status.state\<close> (the number of a
  value of the enum \<open>JobStatus.State\<close>) and \<open>job.status.details\<close>.
\<close>

record job =
  reference_job_id :: string
  job_status_state :: int
  job_status_details :: string

record instance_group_config =
  num_instances :: int
  machine_type_uri :: string

record cluster_config =
  gce_cluster_config_zone_uri :: string
  master_config :: instance_group_config
  worker_config :: instance_group_config

record cluster_data =
  cd_project_id :: string
  cd_cluster_name :: string
  cd_config :: cluster_config

record job_details =
  placement_cluster_name :: string
  pyspark_job_main_python_file_uri :: string

datatype file_obj = FileObj nat

datatype bucket_obj = Bucket string

datatype long_running = LongRunning string

text \<open>
  Objects that the constructors of the client libraries return: a Cloud Storage client, a
  gRPC transport and an API client. The argument that \<open>main\<close> passes to the constructor
  of a Dataproc client is the empty string (the default, global endpoint) or a transport
  object.
\<close>

datatype storage_obj = Storage string

datatype transport_obj = Transport string

datatype client_obj = Client string

datatype transport_arg = EmptyString | TransportObject transport_obj

text \<open>
  The values that \<open>histogram_sample.py\<close> builds and passes on: None, strings,
  booleans, lists, dictionaries (in insertion order) and the service object of the
  discovery client.
\<close>

datatype json =
    JNone
  | JStr string
  | JBool bool
  | JList "json list"
  | JDict "(string \<times> json) list"
  | JService client_obj

text \<open>
  Service Directory resources (\<open>servicedirectory_v1beta1.Namespace\<close>, \<open>Service\<close>,
  \<open>Endpoint\<close>) and a long-running operation as \<open>poll_operation_sample\<close> reads it.
\<close>

record namespace =
  namespace_name :: string

record service =
  service_name :: string

record endpoint =
  endpoint_name :: string
  endpoint_address :: string
  endpoint_port :: int

record operation =
  op_name :: string
  operation_done :: bool

subsection \<open>Calls, responses and histories\<close>

text \<open>
  Every call of a method carries the object it is issued on: the Storage client, the
  Dataproc cluster or job client, the registration client. The constructors of the
  libraries are calls too: they read credentials and open channels, and they can raise.
\<close>

datatype call =
    OpenFile string
  | CloseFile file_obj
  | StorageClient string
  | GetBucket storage_obj string
  | UploadFromFile bucket_obj string file_obj
  | DownloadAsString bucket_obj string
  | ClusterControllerGrpcTransport string
  | JobControllerGrpcTransport string
  | ClusterControllerClient transport_arg
  | JobControllerClient transport_arg
  | CreateCluster client_obj string string cluster_data
  | ListClusters client_obj string string
  | SubmitJob client_obj string string job_details
  | GetJob client_obj string string string
  | DeleteCluster client_obj string string string
  | RegistrationServiceClient
  | CreateNamespace client_obj string namespace string
  | CreateService client_obj string service string
  | CreateEndpoint client_obj string endpoint string
  | GetOperation string
  | PrintOperation operation
  | Print string
  | Sleep nat
  | Import string
  | ModuleCall string string "json list"
  | JobsSearch client_obj json
  | PrintJson json

datatype response =
    RNone "exn + unit"
  | RFile "exn + file_obj"
  | RStorage "exn + storage_obj"
  | RTransport "exn + transport_obj"
  | RClient "exn + client_obj"
  | RBucket "exn + bucket_obj"
  | RBytes "exn + string"
  | RLongRunning "exn + long_running"
  | RClusters "exn + cluster list"
  | RJob "exn + job"
  | RNamespace "exn + namespace"
  | RService "exn + service"
  | REndpoint "exn + endpoint"
  | ROperation "exn + operation"
  | RJson "exn + json"

type_synonym event = "call \<times> response"

type_synonym history = "event list"

type_synonym 'a prog = "history \<Rightarrow> 'a outcome \<times> history"

definition returns :: "'a \<Rightarrow> 'a prog" where
  "returns x h = (Returns x, h)"

definition raises :: "exn \<Rightarrow> 'a prog" where
  "raises e h = (Raises e, h)"

text \<open>Sequencing: an exception, or a loop that is still running, ends the sequence.\<close>

definition and_then :: "'a prog \<Rightarrow> ('a \<Rightarrow> 'b prog) \<Rightarrow> 'b prog" where
  "and_then m k h =
     (case m h of
        (Returns x, h') \<Rightarrow> k x h'
      | (Raises e, h') \<Rightarrow> (Raises e, h')
      | (StillRunning, h') \<Rightarrow> (StillRunning, h'))"

text \<open>
  Python's \<open>try: body finally: cleanup\<close>. The cleanup runs when the body returned or
  raised; when the cleanup itself raises, that exception replaces the body's outcome.
\<close>

definition try_finally :: "'a prog \<Rightarrow> unit prog \<Rightarrow> 'a prog" where
  "try_finally body cleanup h =
     (case body h of
        (StillRunning, h') \<Rightarrow> (StillRunning, h')
      | (r, h') \<Rightarrow>
          (case cleanup h' of
             (Returns u, h'') \<Rightarrow> (r, h'')
           | (Raises e, h'') \<Rightarrow> (Raises e, h'')
           | (StillRunning, h'') \<Rightarrow> (StillRunning, h'')))"

text \<open>
  One call into the environment: the answer \<open>rpc h\<close> is logged with the call and becomes
  the outcome.
\<close>

definition invoke :: "(history \<Rightarrow> exn + 'a) \<Rightarrow> call \<Rightarrow> (exn + 'a \<Rightarrow> response) \<Rightarrow> 'a prog" where
  "invoke rpc c tag h =
     (case rpc h of
        Inl e \<Rightarrow> (Raises e, h @ [(c, tag (Inl e))])
      | Inr x \<Rightarrow> (Returns x, h @ [(c, tag (Inr x))]))"

text \<open>\<open>print\<close>, \<open>time.sleep\<close> and \<open>close\<close> on a file opened for reading do not fail.\<close>

definition perform :: "call \<Rightarrow> unit prog" where
  "perform c h = (Returns (), h @ [(c, RNone (Inr ()))])"

text \<open>A computation without a call: it returns its value or raises its exception.\<close>

definition of_result :: "exn + 'a \<Rightarrow> 'a prog" where
  "of_result r = (case r of Inl e \<Rightarrow> raises e | Inr x \<Rightarrow> returns x)"

subsection \<open>Python values and their formatting\<close>

text \<open>
  An argument that the caller may pass as any Python value: a string, an integer or None.
  \<open>format_value\<close> is what \<open>'{}'.format(v)\<close> writes for it, with \<open>str_int\<close> the
  decimal notation of an integer.
\<close>

datatype pyval = PyStr string | PyInt int | PyNone

fun str_nat :: "nat \<Rightarrow> string" where
  "str_nat n =
     (if n < 10 then [''0123456789'' ! n]
      else str_nat (n div 10) @ [''0123456789'' ! (n mod 10)])"

declare str_nat.simps [simp del]

definition str_int :: "int \<Rightarrow> string" where
  "str_int i = (if i < 0 then CHR ''-'' # str_nat (nat (- i)) else str_nat (nat i))"

definition format_value :: "pyval \<Rightarrow> string" where
  "format_value v = (case v of PyStr s \<Rightarrow> s | PyInt i \<Rightarrow> str_int i | PyNone \<Rightarrow> ''None'')"

section \<open>dataproc/submit_job_to_cluster.py\<close>

text \<open>
  The environment of the Dataproc sample: the directory of the script, the file system
  (\<open>open\<close>), Cloud Storage (\<open>storage.Client\<close>, \<open>get_bucket\<close>, \<open>upload_from_file\<close>,
  \<open>download_as_string\<close>), the constructors of the gRPC transports and of the two
  Dataproc clients, and the methods of these clients. The tables of the two \<open>State\<close>
  enums belong to the installed library as well: \<open>cluster_state_name\<close> and
  \<open>job_state_name\<close> are \<open>State.Name\<close>, which returns the name of a number or raises
  (a ValueError for a number without a name). Writes to standard output are not part of
  this model of the Dataproc sample: they neither raise nor influence a call.
\<close>

record dataproc_env =
  current_dir :: string
  cluster_state_name :: "int \<Rightarrow> exn + string"
  job_state_name :: "int \<Rightarrow> exn + string"
  open_rb :: "history \<Rightarrow> string \<Rightarrow> exn + file_obj"
  storage_client_new :: "history \<Rightarrow> string \<Rightarrow> exn + storage_obj"
  get_bucket_rpc :: "history \<Rightarrow> storage_obj \<Rightarrow> string \<Rightarrow> exn + bucket_obj"
  upload_from_file_rpc :: "history \<Rightarrow> bucket_obj \<Rightarrow> string \<Rightarrow> file_obj \<Rightarrow> exn + unit"
  download_as_string_rpc :: "history \<Rightarrow> bucket_obj \<Rightarrow> string \<Rightarrow> exn + string"
  cluster_transport_new :: "history \<Rightarrow> string \<Rightarrow> exn + transport_obj"
  job_transport_new :: "history \<Rightarrow> string \<Rightarrow> exn + transport_obj"
  cluster_client_new :: "history \<Rightarrow> transport_arg \<Rightarrow> exn + client_obj"
  job_client_new :: "history \<Rightarrow> transport_arg \<Rightarrow> exn + client_obj"
  create_cluster_rpc :: "history \<Rightarrow> client_obj \<Rightarrow> string \<Rightarrow> string \<Rightarrow> cluster_data \<Rightarrow> exn + long_running"
  list_clusters_rpc :: "history \<Rightarrow> client_obj \<Rightarrow> string \<Rightarrow> string \<Rightarrow> exn + cluster list"
  submit_job_rpc :: "history \<Rightarrow> client_obj \<Rightarrow> string \<Rightarrow> string \<Rightarrow> job_details \<Rightarrow> exn + job"
  get_job_rpc :: "history \<Rightarrow> client_obj \<Rightarrow> string \<Rightarrow> string \<Rightarrow> string \<Rightarrow> exn + job"
  delete_cluster_rpc :: "history \<Rightarrow> client_obj \<Rightarrow> string \<Rightarrow> string \<Rightarrow> string \<Rightarrow> exn + long_running"

definition DEFAULT_FILENAME :: string where
  "DEFAULT_FILENAME = ''pyspark_sort.py''"

text \<open>\<open>os.path.join\<close> of two components and \<open>os.path.basename\<close> (posixpath).\<close>

definition path_join :: "string \<Rightarrow> string \<Rightarrow> string" where
  "path_join a b =
     (if b \<noteq> [] \<and> hd b = CHR ''/'' then b
      else if a = [] \<or> last a = CHR ''/'' then a @ b
      else a @ ''/'' @ b)"

definition path_basename :: "string \<Rightarrow> string" where
  "path_basename p = rev (takeWhile (\<lambda>c. c \<noteq> CHR ''/'') (rev p))"

definition get_default_pyspark_file :: "dataproc_env \<Rightarrow> (file_obj \<times> string) prog" where
  "get_default_pyspark_file env =
     and_then
       (invoke (\<lambda>h. open_rb env h (path_join (current_dir env) DEFAULT_FILENAME))
          (OpenFile (path_join (current_dir env) DEFAULT_FILENAME)) RFile)
       (\<lambda>f. returns (f, DEFAULT_FILENAME))"

definition get_pyspark_file :: "dataproc_env \<Rightarrow> string \<Rightarrow> (file_obj \<times> string) prog" where
  "get_pyspark_file env filename =
     and_then (invoke (\<lambda>h. open_rb env h filename) (OpenFile filename) RFile)
       (\<lambda>f. returns (f, path_basename filename))"

subsection \<open>get_region_from_zone\<close>

text \<open>
  The argument is any Python value; only a string has a \<open>split\<close> method, anything else
  raises AttributeError at \<open>zone.split\<close>, which the function catches and turns into
  its ValueError. \<open>split_on\<close> is \<open>str.split(sep)\<close> for a one-character separator,
  \<open>join_with\<close> is \<open>sep.join(parts)\<close>, and \<open>parts[:-1]\<close> is \<open>butlast\<close>.
\<close>

fun split_on :: "char \<Rightarrow> string \<Rightarrow> string list" where
  "split_on sep [] = [[]]"
| "split_on sep (c # cs) =
     (if c = sep then [] # split_on sep cs
      else (case split_on sep cs of
              [] \<Rightarrow> [[c]]
            | p # ps \<Rightarrow> (c # p) # ps))"

fun join_with :: "string \<Rightarrow> string list \<Rightarrow> string" where
  "join_with sep [] = []"
| "join_with sep [p] = p"
| "join_with sep (p # q # ps) = p @ sep @ join_with sep (q # ps)"

definition zone_split :: "pyval \<Rightarrow> exn + string list" where
  "zone_split zone =
     (case zone of
        PyStr s \<Rightarrow> Inr (split_on CHR ''-'' s)
      | _ \<Rightarrow> Inl AttributeError)"

definition get_region_from_zone :: "pyval \<Rightarrow> exn + string" where
  "get_region_from_zone zone =
     (case zone_split zone of
        Inr parts \<Rightarrow> Inr (join_with ''-'' (butlast parts))
      | Inl AttributeError \<Rightarrow> Inl (ValueError ''Invalid zone provided, please check your input.'')
      | Inl (ValueError m) \<Rightarrow> Inl (ValueError ''Invalid zone provided, please check your input.'')
      | Inl e \<Rightarrow> Inl e)"

subsection \<open>Storage and cluster helpers\<close>

definition upload_pyspark_file :: "dataproc_env \<Rightarrow> string \<Rightarrow> string \<Rightarrow> string \<Rightarrow> file_obj \<Rightarrow> unit prog" where
  "upload_pyspark_file env project bucket_name filename spark_file =
     and_then (invoke (\<lambda>h. storage_client_new env h project) (StorageClient project) RStorage)
       (\<lambda>client.
     and_then (invoke (\<lambda>h. get_bucket_rpc env h client bucket_name) (GetBucket client bucket_name) RBucket)
       (\<lambda>bucket. invoke (\<lambda>h. upload_from_file_rpc env h bucket filename spark_file)
          (UploadFromFile bucket filename spark_file) RNone))"

definition download_output :: "dataproc_env \<Rightarrow> string \<Rightarrow> string \<Rightarrow> string \<Rightarrow> string \<Rightarrow> string prog" where
  "download_output env project cluster_id output_bucket job_id =
     and_then (invoke (\<lambda>h. storage_client_new env h project) (StorageClient project) RStorage)
       (\<lambda>client.
     and_then (invoke (\<lambda>h. get_bucket_rpc env h client output_bucket) (GetBucket client output_bucket) RBucket)
       (\<lambda>bucket.
          (let output_blob = ''google-cloud-dataproc-metainfo/'' @ cluster_id @ ''/jobs/'' @ job_id
                 @ ''/driveroutput.000000000''
           in invoke (\<lambda>h. download_as_string_rpc env h bucket output_blob)
                (DownloadAsString bucket output_blob) RBytes)))"

text \<open>
  \<open>zone\<close> is the argument of \<open>main\<close> as the caller passed it; it is formatted into the
  zone URI.
\<close>

definition create_cluster :: "dataproc_env \<Rightarrow> client_obj \<Rightarrow> string \<Rightarrow> pyval \<Rightarrow> string \<Rightarrow> string \<Rightarrow> long_running prog" where
  "create_cluster env dataproc project zone region name =
     (let zone_uri = ''https://www.googleapis.com/compute/v1/projects/'' @ project @ ''/zones/''
                       @ format_value zone;
          data = \<lparr>cd_project_id = project, cd_cluster_name = name,
                  cd_config = \<lparr>gce_cluster_config_zone_uri = zone_uri,
                    master_config = \<lparr>num_instances = 1, machine_type_uri = ''n1-standard-1''\<rparr>,
                    worker_config = \<lparr>num_instances = 2, machine_type_uri = ''n1-standard-1''\<rparr>\<rparr>\<rparr>
      in invoke (\<lambda>h. create_cluster_rpc env h dataproc project region data)
           (CreateCluster dataproc project region data) RLongRunning)"

definition list_clusters :: "dataproc_env \<Rightarrow> client_obj \<Rightarrow> string \<Rightarrow> string \<Rightarrow> cluster list prog" where
  "list_clusters env dataproc project region =
     invoke (\<lambda>h. list_clusters_rpc env h dataproc project region) (ListClusters dataproc project region) RClusters"

text \<open>
  The \<open>for\<close> loop of \<open>wait_for_cluster_creation\<close> over one listing: \<open>Inl\<close> is the
  exception it raises, \<open>Inr wait\<close> the value of the flag \<open>wait\<close> after the loop. Each
  of the two tests of a cluster with the given name calls \<open>State.Name\<close>, which may raise.
\<close>

fun scan_clusters :: "dataproc_env \<Rightarrow> string \<Rightarrow> cluster list \<Rightarrow> exn + bool" where
  "scan_clusters env name [] = Inr True"
| "scan_clusters env name (c # cs) =
     (if cluster_name c = name then
        (case cluster_state_name env (status_state c) of
           Inl e \<Rightarrow> Inl e
         | Inr s \<Rightarrow>
             if s = ''ERROR'' then Inl (Exception (status_detail c))
             else (case cluster_state_name env (status_state c) of
                     Inl e \<Rightarrow> Inl e
                   | Inr s' \<Rightarrow>
                       if s' = ''RUNNING'' then Inr False
                       else scan_clusters env name cs))
      else scan_clusters env name cs)"

fun wait_for_cluster_creation :: "nat \<Rightarrow> dataproc_env \<Rightarrow> client_obj \<Rightarrow> string \<Rightarrow> string \<Rightarrow> string \<Rightarrow> unit prog" where
  "wait_for_cluster_creation 0 env dataproc project region name h = (StillRunning, h)"
| "wait_for_cluster_creation (Suc fuel) env dataproc project region name h =
     (case list_clusters env dataproc project region h of
        (Returns clusters, h') \<Rightarrow>
          (case scan_clusters env name clusters of
             Inl e \<Rightarrow> (Raises e, h')
           | Inr wait \<Rightarrow>
               if wait then wait_for_cluster_creation fuel env dataproc project region name h'
               else (Returns (), h'))
      | (Raises e, h') \<Rightarrow> (Raises e, h')
      | (StillRunning, h') \<Rightarrow> (StillRunning, h'))"

text \<open>
  The \<open>for\<close> loop of \<open>list_clusters_with_details\<close>: the lines it writes, one per
  cluster, unless \<open>State.Name\<close> raises for one of the clusters.
\<close>

fun cluster_lines :: "dataproc_env \<Rightarrow> cluster list \<Rightarrow> exn + string list" where
  "cluster_lines env [] = Inr []"
| "cluster_lines env (c # cs) =
     (case cluster_state_name env (status_state c) of
        Inl e \<Rightarrow> Inl e
      | Inr s \<Rightarrow>
          (case cluster_lines env cs of
             Inl e \<Rightarrow> Inl e
           | Inr lines \<Rightarrow> Inr ((cluster_name c @ '' - '' @ s) # lines)))"

definition list_clusters_with_details :: "dataproc_env \<Rightarrow> client_obj \<Rightarrow> string \<Rightarrow> string \<Rightarrow> unit prog" where
  "list_clusters_with_details env dataproc project region =
     and_then (list_clusters env dataproc project region)
       (\<lambda>clusters. and_then (of_result (cluster_lines env clusters)) (\<lambda>lines. returns ()))"

text \<open>The \<open>for\<close> loop of \<open>get_cluster_id_by_name\<close>; falling off the end returns None.\<close>

fun first_cluster_named :: "string \<Rightarrow> cluster list \<Rightarrow> (string \<times> string) option" where
  "first_cluster_named name [] = None"
| "first_cluster_named name (c # cs) =
     (if cluster_name c = name then Some (cluster_uuid c, config_bucket c)
      else first_cluster_named name cs)"

definition get_cluster_id_by_name :: "dataproc_env \<Rightarrow> client_obj \<Rightarrow> string \<Rightarrow> string \<Rightarrow> string \<Rightarrow> (string \<times> string) option prog" where
  "get_cluster_id_by_name env dataproc project_id region name =
     and_then (list_clusters env dataproc project_id region)
       (\<lambda>clusters. returns (first_cluster_named name clusters))"

definition submit_pyspark_job :: "dataproc_env \<Rightarrow> client_obj \<Rightarrow> string \<Rightarrow> string \<Rightarrow> string \<Rightarrow> string \<Rightarrow> string \<Rightarrow> string prog" where
  "submit_pyspark_job env dataproc project region name bucket_name filename =
     (let details = \<lparr>placement_cluster_name = name,
                     pyspark_job_main_python_file_uri = ''gs://'' @ bucket_name @ ''/'' @ filename\<rparr>
      in and_then (invoke (\<lambda>h. submit_job_rpc env h dataproc project region details)
                     (SubmitJob dataproc project region details) RJob)
           (\<lambda>result. returns (reference_job_id result)))"

definition delete_cluster :: "dataproc_env \<Rightarrow> client_obj \<Rightarrow> string \<Rightarrow> string \<Rightarrow> string \<Rightarrow> long_running prog" where
  "delete_cluster env dataproc project region name =
     invoke (\<lambda>h. delete_cluster_rpc env h dataproc project region name)
       (DeleteCluster dataproc project region name) RLongRunning"

definition get_job :: "dataproc_env \<Rightarrow> client_obj \<Rightarrow> string \<Rightarrow> string \<Rightarrow> string \<Rightarrow> job prog" where
  "get_job env dataproc project region job_id =
     invoke (\<lambda>h. get_job_rpc env h dataproc project region job_id) (GetJob dataproc project region job_id) RJob"

fun wait_for_job :: "nat \<Rightarrow> dataproc_env \<Rightarrow> client_obj \<Rightarrow> string \<Rightarrow> string \<Rightarrow> string \<Rightarrow> job prog" where
  "wait_for_job 0 env dataproc project region job_id h = (StillRunning, h)"
| "wait_for_job (Suc fuel) env dataproc project region job_id h =
     (case get_job env dataproc project region job_id h of
        (Returns j, h') \<Rightarrow>
          (case job_state_name env (job_status_state j) of
             Inl e \<Rightarrow> (Raises e, h')
           | Inr s \<Rightarrow>
               if s = ''ERROR'' then (Raises (Exception (job_status_details j)), h')
               else (case job_state_name env (job_status_state j) of
                       Inl e \<Rightarrow> (Raises e, h')
                     | Inr s' \<Rightarrow>
                         if s' = ''DONE'' then (Returns j, h')
                         else wait_for_job fuel env dataproc project region job_id h'))
      | (Raises e, h') \<Rightarrow> (Raises e, h')
      | (StillRunning, h') \<Rightarrow> (StillRunning, h'))"

subsection \<open>main\<close>

text \<open>
  The body of the \<open>try\<close> block after the PySpark file has been opened. The tuple
  assignment from \<open>get_cluster_id_by_name\<close> raises TypeError when the function
  returned None.
\<close>

definition main_body :: "nat \<Rightarrow> dataproc_env \<Rightarrow> client_obj \<Rightarrow> client_obj \<Rightarrow> string \<Rightarrow> pyval \<Rightarrow> string \<Rightarrow> string \<Rightarrow> string \<Rightarrow> bool \<Rightarrow> file_obj \<Rightarrow> string \<Rightarrow> string prog" where
  "main_body fuel env dataproc_cluster_client dataproc_job_client project_id zone region name bucket_name
       create_new_cluster spark_file spark_filename =
     and_then
       (if create_new_cluster then
          and_then (create_cluster env dataproc_cluster_client project_id zone region name)
            (\<lambda>created. wait_for_cluster_creation fuel env dataproc_cluster_client project_id region name)
        else returns ())
    (\<lambda>u. and_then (upload_pyspark_file env project_id bucket_name spark_filename spark_file)
    (\<lambda>u. and_then (list_clusters_with_details env dataproc_cluster_client project_id region)
    (\<lambda>u. and_then (get_cluster_id_by_name env dataproc_cluster_client project_id region name)
    (\<lambda>found.
       case found of
         None \<Rightarrow> raises TypeError
       | Some (cluster_id, output_bucket) \<Rightarrow>
           and_then (submit_pyspark_job env dataproc_job_client project_id region name bucket_name spark_filename)
           (\<lambda>job_id. and_then (wait_for_job fuel env dataproc_job_client project_id region job_id)
           (\<lambda>finished. download_output env project_id cluster_id output_bucket job_id))))))"

text \<open>
  The \<open>finally\<close> block. \<open>spark_file\<close> is None when the \<open>open\<close> of the \<open>try\<close> block
  raised before the variable was bound; reading it then raises UnboundLocalError.
\<close>

definition main_finally :: "dataproc_env \<Rightarrow> client_obj \<Rightarrow> string \<Rightarrow> string \<Rightarrow> string \<Rightarrow> bool \<Rightarrow> file_obj option \<Rightarrow> unit prog" where
  "main_finally env dataproc_cluster_client project_id region name create_new_cluster spark_file =
     (if create_new_cluster then
        and_then (delete_cluster env dataproc_cluster_client project_id region name)
          (\<lambda>deleted. case spark_file of
                        None \<Rightarrow> raises UnboundLocalError
                      | Some f \<Rightarrow> perform (CloseFile f))
      else returns ())"

text \<open>
  The first statement of the \<open>try\<close> block: \<open>pyspark_file\<close> is None or a file name,
  and the empty name is as false as None in \<open>if pyspark_file\<close>.
\<close>

definition open_pyspark_file :: "dataproc_env \<Rightarrow> string option \<Rightarrow> (file_obj \<times> string) prog" where
  "open_pyspark_file env pyspark_file =
     (case pyspark_file of
        Some filename \<Rightarrow>
          if filename \<noteq> [] then get_pyspark_file env filename
          else get_default_pyspark_file env
      | None \<Rightarrow> get_default_pyspark_file env)"

text \<open>The \<open>try \<dots> finally\<close> statement of \<open>main\<close>, once the two clients exist.\<close>

definition main_try :: "nat \<Rightarrow> dataproc_env \<Rightarrow> client_obj \<Rightarrow> client_obj \<Rightarrow> string \<Rightarrow> pyval \<Rightarrow> string \<Rightarrow> string \<Rightarrow> string \<Rightarrow> string option \<Rightarrow> bool \<Rightarrow> string prog" where
  "main_try fuel env dataproc_cluster_client dataproc_job_client project_id zone region name bucket_name
       pyspark_file create_new_cluster h =
     (case open_pyspark_file env pyspark_file h of
        (Returns (spark_file, spark_filename), h1) \<Rightarrow>
          try_finally
            (main_body fuel env dataproc_cluster_client dataproc_job_client project_id zone region name
               bucket_name create_new_cluster spark_file spark_filename)
            (main_finally env dataproc_cluster_client project_id region name create_new_cluster (Some spark_file))
            h1
      | (Raises e, h1) \<Rightarrow>
          try_finally (raises e)
            (main_finally env dataproc_cluster_client project_id region name create_new_cluster None)
            h1
      | (StillRunning, h1) \<Rightarrow> (StillRunning, h1))"

text \<open>
  The statements of \<open>main\<close> before the \<open>try\<close> block (the region
  \<open>dataproc_get_client\<close> of the source): the region, the two transports and the two
  clients. For the global endpoint both transports are the empty string; for a regional
  endpoint \<open>get_region_from_zone\<close> and the two transport constructors run first.
\<close>

definition dataproc_get_client :: "dataproc_env \<Rightarrow> pyval \<Rightarrow> bool \<Rightarrow> (string \<times> client_obj \<times> client_obj) prog" where
  "dataproc_get_client env zone global_region =
     and_then
       (if global_region then returns (''global'', EmptyString, EmptyString)
        else
          and_then (of_result (get_region_from_zone zone))
          (\<lambda>region.
          and_then
            (invoke (\<lambda>h. cluster_transport_new env h (region @ ''-dataproc.googleapis.com:443''))
               (ClusterControllerGrpcTransport (region @ ''-dataproc.googleapis.com:443'')) RTransport)
          (\<lambda>client_transport.
          and_then
            (invoke (\<lambda>h. job_transport_new env h (region @ ''-dataproc.googleapis.com:443''))
               (JobControllerGrpcTransport (region @ ''-dataproc.googleapis.com:443'')) RTransport)
          (\<lambda>job_transport.
             returns (region, TransportObject client_transport, TransportObject job_transport)))))
       (\<lambda>(region, client_transport, job_transport).
          and_then
            (invoke (\<lambda>h. cluster_client_new env h client_transport)
               (ClusterControllerClient client_transport) RClient)
          (\<lambda>dataproc_cluster_client.
          and_then
            (invoke (\<lambda>h. job_client_new env h job_transport)
               (JobControllerClient job_transport) RClient)
          (\<lambda>dataproc_job_client.
             returns (region, dataproc_cluster_client, dataproc_job_client))))"

text \<open>
  \<open>main\<close>: \<open>fuel\<close> bounds the number of polls of each of the two loops, \<open>zone\<close> is
  any Python value. The region and the two clients are obtained before the \<open>try\<close>
  block, so an exception of \<open>get_region_from_zone\<close> or of a constructor leaves
  \<open>main\<close> without any cleanup.
\<close>

definition main :: "nat \<Rightarrow> dataproc_env \<Rightarrow> string \<Rightarrow> pyval \<Rightarrow> string \<Rightarrow> string \<Rightarrow> string option \<Rightarrow> bool \<Rightarrow> bool \<Rightarrow> string prog" where
  "main fuel env project_id zone name bucket_name pyspark_file create_new_cluster global_region =
     and_then (dataproc_get_client env zone global_region)
       (\<lambda>(region, dataproc_cluster_client, dataproc_job_client).
          main_try fuel env dataproc_cluster_client dataproc_job_client project_id zone region name
            bucket_name pyspark_file create_new_cluster)"

subsection \<open>The sequence of polls of a loop\<close>

text \<open>
  \<open>job_history \<dots> h n\<close> is the history after \<open>n\<close> calls of \<open>get_job\<close> issued from
  \<open>h\<close> with nothing between them, and \<open>job_poll \<dots> h n\<close> the answer to the next call;
  likewise for \<open>list_clusters\<close>.
\<close>

fun job_history :: "dataproc_env \<Rightarrow> client_obj \<Rightarrow> string \<Rightarrow> string \<Rightarrow> string \<Rightarrow> history \<Rightarrow> nat \<Rightarrow> history" where
  "job_history env dataproc project region job_id h 0 = h"
| "job_history env dataproc project region job_id h (Suc n) =
     job_history env dataproc project region job_id (snd (get_job env dataproc project region job_id h)) n"

definition job_poll :: "dataproc_env \<Rightarrow> client_obj \<Rightarrow> string \<Rightarrow> string \<Rightarrow> string \<Rightarrow> history \<Rightarrow> nat \<Rightarrow> exn + job" where
  "job_poll env dataproc project region job_id h n =
     get_job_rpc env (job_history env dataproc project region job_id h n) dataproc project region job_id"

fun cluster_history :: "dataproc_env \<Rightarrow> client_obj \<Rightarrow> string \<Rightarrow> string \<Rightarrow> history \<Rightarrow> nat \<Rightarrow> history" where
  "cluster_history env dataproc project region h 0 = h"
| "cluster_history env dataproc project region h (Suc n) =
     cluster_history env dataproc project region (snd (list_clusters env dataproc project region h)) n"

definition cluster_poll :: "dataproc_env \<Rightarrow> client_obj \<Rightarrow> string \<Rightarrow> string \<Rightarrow> history \<Rightarrow> nat \<Rightarrow> exn + cluster list" where
  "cluster_poll env dataproc project region h n =
     list_clusters_rpc env (cluster_history env dataproc project region h n) dataproc project region"

text \<open>
  A polled job or listing reports a final state (DONE or ERROR for the job, RUNNING or
  ERROR for a cluster of the given name), or it carries a state number for which
  \<open>State.Name\<close> raises; a poll is pending when the call returned and the loop goes
  round again.
\<close>

definition job_reports :: "dataproc_env \<Rightarrow> exn + job \<Rightarrow> bool" where
  "job_reports env r =
     (case r of
        Inl e \<Rightarrow> False
      | Inr j \<Rightarrow> job_state_name env (job_status_state j) = Inr ''DONE''
                 \<or> job_state_name env (job_status_state j) = Inr ''ERROR'')"

definition job_unnamed :: "dataproc_env \<Rightarrow> exn + job \<Rightarrow> bool" where
  "job_unnamed env r =
     (case r of
        Inl e \<Rightarrow> False
      | Inr j \<Rightarrow> isl (job_state_name env (job_status_state j)))"

definition job_pending :: "dataproc_env \<Rightarrow> exn + job \<Rightarrow> bool" where
  "job_pending env r =
     (case r of
        Inl e \<Rightarrow> False
      | Inr j \<Rightarrow>
          (case job_state_name env (job_status_state j) of
             Inl e \<Rightarrow> False
           | Inr s \<Rightarrow> s \<noteq> ''ERROR'' \<and> s \<noteq> ''DONE''))"

definition cluster_reports :: "dataproc_env \<Rightarrow> string \<Rightarrow> exn + cluster list \<Rightarrow> bool" where
  "cluster_reports env name r =
     (case r of
        Inl e \<Rightarrow> False
      | Inr clusters \<Rightarrow>
          list_ex (\<lambda>c. cluster_name c = name
                        \<and> (cluster_state_name env (status_state c) = Inr ''RUNNING''
                           \<or> cluster_state_name env (status_state c) = Inr ''ERROR'')) clusters)"

definition cluster_unnamed :: "dataproc_env \<Rightarrow> string \<Rightarrow> exn + cluster list \<Rightarrow> bool" where
  "cluster_unnamed env name r =
     (case r of
        Inl e \<Rightarrow> False
      | Inr clusters \<Rightarrow>
          list_ex (\<lambda>c. cluster_name c = name \<and> isl (cluster_state_name env (status_state c))) clusters)"

definition cluster_pending :: "dataproc_env \<Rightarrow> string \<Rightarrow> exn + cluster list \<Rightarrow> bool" where
  "cluster_pending env name r =
     (case r of
        Inl e \<Rightarrow> False
      | Inr clusters \<Rightarrow> scan_clusters env name clusters = Inr True)"

subsection \<open>An example environment\<close>

text \<open>
  The two enums as the Dataproc v1 API declares them, and \<open>State.Name\<close> over such a
  table: the name of the number, or the ValueError of the protocol buffer library.
\<close>

definition ClusterStatus_State :: "(int \<times> string) list" where
  "ClusterStatus_State =
     [(0, ''UNKNOWN''), (1, ''CREATING''), (2, ''RUNNING''), (3, ''ERROR''), (4, ''DELETING''),
      (5, ''UPDATING'')]"

definition JobStatus_State :: "(int \<times> string) list" where
  "JobStatus_State =
     [(0, ''STATE_UNSPECIFIED''), (1, ''PENDING''), (8, ''SETUP_DONE''), (2, ''RUNNING''),
      (3, ''CANCEL_PENDING''), (7, ''CANCEL_STARTED''), (4, ''CANCELLED''), (5, ''DONE''),
      (6, ''ERROR''), (9, ''ATTEMPT_FAILURE'')]"

definition enum_name :: "(int \<times> string) list \<Rightarrow> int \<Rightarrow> exn + string" where
  "enum_name table number =
     (case map_of table number of
        Some s \<Rightarrow> Inr s
      | None \<Rightarrow> Inl (ValueError (''Enum State has no value defined for number '' @ str_int number)))"

text \<open>
  An environment to run the sample on concrete inputs: the answers to \<open>open\<close>,
  \<open>create_cluster\<close> and \<open>delete_cluster\<close> are fixed, the \<open>k\<close>-th \<open>list_clusters\<close>
  call is answered by \<open>listings k\<close> and the \<open>k\<close>-th \<open>get_job\<close> call by \<open>jobs k\<close>;
  every constructor returns an object.
\<close>

fun is_ListClusters :: "call \<Rightarrow> bool" where
  "is_ListClusters (ListClusters d p r) = True"
| "is_ListClusters c = False"

fun is_GetJob :: "call \<Rightarrow> bool" where
  "is_GetJob (GetJob d p r i) = True"
| "is_GetJob c = False"

definition count_calls :: "(call \<Rightarrow> bool) \<Rightarrow> history \<Rightarrow> nat" where
  "count_calls P h = length (filter P (map fst h))"

definition example_env :: "(exn + file_obj) \<Rightarrow> (exn + long_running) \<Rightarrow> (nat \<Rightarrow> exn + cluster list) \<Rightarrow> (nat \<Rightarrow> exn + job) \<Rightarrow> (exn + long_running) \<Rightarrow> dataproc_env" where
  "example_env opened created listings jobs deleted =
     \<lparr>current_dir = ''/samples/dataproc'',
      cluster_state_name = enum_name ClusterStatus_State,
      job_state_name = enum_name JobStatus_State,
      open_rb = (\<lambda>h path. opened),
      storage_client_new = (\<lambda>h project. Inr (Storage project)),
      get_bucket_rpc = (\<lambda>h client bucket_name. Inr (Bucket bucket_name)),
      upload_from_file_rpc = (\<lambda>h bucket filename f. Inr ()),
      download_as_string_rpc = (\<lambda>h bucket blob. Inr ''sorted''),
      cluster_transport_new = (\<lambda>h address. Inr (Transport address)),
      job_transport_new = (\<lambda>h address. Inr (Transport address)),
      cluster_client_new = (\<lambda>h transport. Inr (Client ''cluster'')),
      job_client_new = (\<lambda>h transport. Inr (Client ''job'')),
      create_cluster_rpc = (\<lambda>h d p r data. created),
      list_clusters_rpc = (\<lambda>h d p r. listings (count_calls is_ListClusters h)),
      submit_job_rpc = (\<lambda>h d p r details.
         Inr \<lparr>reference_job_id = ''job-1'', job_status_state = 1, job_status_details = []\<rparr>),
      get_job_rpc = (\<lambda>h d p r i. jobs (count_calls is_GetJob h)),
      delete_cluster_rpc = (\<lambda>h d p r n. deleted)\<rparr>"

definition example_cluster :: "int \<Rightarrow> cluster" where
  "example_cluster state =
     \<lparr>cluster_name = ''c1'', cluster_uuid = ''uuid-1'', status_state = state,
      status_detail = ''quota exceeded'', config_bucket = ''staging''\<rparr>"

definition example_job :: "int \<Rightarrow> job" where
  "example_job state =
     \<lparr>reference_job_id = ''job-1'', job_status_state = state, job_status_details = ''driver failed''\<rparr>"

text \<open>
  Runs used below: in \<open>env_ok\<close> the cluster is CREATING (1) at the first listing and
  RUNNING (2) from the second one on, and the job is RUNNING (2) until it is DONE (5) at
  the third poll; in \<open>env_job_error\<close> the job is in state ERROR (6) at the third poll;
  in \<open>env_unavailable\<close> the service answers no \<open>list_clusters\<close> and no \<open>get_job\<close>
  call; in \<open>env_unnamed\<close> the service reports, for the cluster and for the job, the
  state number 999, which the enums of the library do not name.
\<close>

definition env_ok :: dataproc_env where
  "env_ok =
     example_env (Inr (FileObj 3)) (Inr (LongRunning ''create''))
       (\<lambda>k. if k = 0 then Inr [example_cluster 1] else Inr [example_cluster 2])
       (\<lambda>k. if k < 2 then Inr (example_job 2) else Inr (example_job 5))
       (Inr (LongRunning ''delete''))"

definition env_job_error :: dataproc_env where
  "env_job_error =
     example_env (Inr (FileObj 3)) (Inr (LongRunning ''create''))
       (\<lambda>k. Inr [example_cluster 2])
       (\<lambda>k. if k < 2 then Inr (example_job 2) else Inr (example_job 6))
       (Inr (LongRunning ''delete''))"

definition env_unavailable :: dataproc_env where
  "env_unavailable =
     example_env (Inr (FileObj 3)) (Inr (LongRunning ''create''))
       (\<lambda>k. Inl (GoogleAPICallError ''503 unavailable''))
       (\<lambda>k. Inl (GoogleAPICallError ''503 unavailable''))
       (Inr (LongRunning ''delete''))"

definition env_unnamed :: dataproc_env where
  "env_unnamed =
     example_env (Inr (FileObj 3)) (Inr (LongRunning ''create''))
       (\<lambda>k. Inr [example_cluster 999])
       (\<lambda>k. Inr (example_job 999))
       (Inr (LongRunning ''delete''))"

subsection \<open>Calls a function can issue\<close>

text \<open>
  \<open>emits S m\<close>: from every history, \<open>m\<close> only appends events, and every call it
  appends is in \<open>S\<close>.
\<close>

definition emits :: "call set \<Rightarrow> 'a prog \<Rightarrow> bool" where
  "emits S m = (\<forall>h. \<exists>es. snd (m h) = h @ es \<and> fst ` set es \<subseteq> S)"

fun is_DeleteCluster :: "call \<Rightarrow> bool" where
  "is_DeleteCluster (DeleteCluster d p r n) = True"
| "is_DeleteCluster c = False"

fun is_CloseFile :: "call \<Rightarrow> bool" where
  "is_CloseFile (CloseFile f) = True"
| "is_CloseFile c = False"

definition body_calls :: "call set" where
  "body_calls = {c. \<not> is_DeleteCluster c \<and> \<not> is_CloseFile c}"

text \<open>In \<open>env_no_file\<close> the PySpark file cannot be opened.\<close>

definition env_no_file :: dataproc_env where
  "env_no_file =
     example_env (Inl (OSError ''No such file or directory'')) (Inr (LongRunning ''create''))
       (\<lambda>k. Inr [example_cluster 2])
       (\<lambda>k. Inr (example_job 5))
       (Inr (LongRunning ''delete''))"

text \<open>In \<open>env_unauthenticated\<close> the constructor of the cluster client raises.\<close>

definition env_unauthenticated :: dataproc_env where
  "env_unauthenticated =
     env_ok
       \<lparr>cluster_client_new :=
          (\<lambda>h transport. Inl (DefaultCredentialsError ''Could not automatically determine credentials.''))\<rparr>"

text \<open>In \<open>env_absent\<close> the region lists one cluster, and its name is not \<open>c1\<close>.\<close>

definition env_absent :: dataproc_env where
  "env_absent =
     example_env (Inr (FileObj 3)) (Inr (LongRunning ''create''))
       (\<lambda>k. Inr [(example_cluster 2)\<lparr>cluster_name := ''other''\<rparr>])
       (\<lambda>k. Inr (example_job 5))
       (Inr (LongRunning ''delete''))"

section \<open>servicedirectory/snippets.py\<close>

text \<open>
  The environment of the snippets: the constructor of the registration client, and one
  function per RPC the snippets use, with the client and the keyword arguments
  \<open>parent\<close>, the resource and its id.
\<close>

record servicedirectory_env =
  registration_client_new :: "history \<Rightarrow> exn + client_obj"
  create_namespace_rpc :: "history \<Rightarrow> client_obj \<Rightarrow> string \<Rightarrow> namespace \<Rightarrow> string \<Rightarrow> exn + namespace"
  create_service_rpc :: "history \<Rightarrow> client_obj \<Rightarrow> string \<Rightarrow> service \<Rightarrow> string \<Rightarrow> exn + service"
  create_endpoint_rpc :: "history \<Rightarrow> client_obj \<Rightarrow> string \<Rightarrow> endpoint \<Rightarrow> string \<Rightarrow> exn + endpoint"

text \<open>
  The constructor \<open>servicedirectory_v1beta1.Endpoint(name=\<dots>, address=\<dots>, port=\<dots>)\<close>.
  The field \<open>port\<close> of the message is an \<open>int32\<close>: the constructor raises a ValueError
  for a Python integer outside that range.
\<close>

definition Endpoint :: "string \<Rightarrow> string \<Rightarrow> int \<Rightarrow> exn + endpoint" where
  "Endpoint name address port =
     (if - 2147483648 \<le> port \<and> port \<le> 2147483647
      then Inr \<lparr>endpoint_name = name, endpoint_address = address, endpoint_port = port\<rparr>
      else Inl (ValueError (''Value out of range: '' @ str_int port)))"

definition create_namespace :: "servicedirectory_env \<Rightarrow> string \<Rightarrow> string \<Rightarrow> string \<Rightarrow> namespace prog" where
  "create_namespace env project_id location_id namespace_id =
     and_then (invoke (\<lambda>h. registration_client_new env h) RegistrationServiceClient RClient)
       (\<lambda>client.
          (let ns = \<lparr>namespace_name = ''projects/'' @ project_id @ ''/locations/'' @ location_id
                        @ ''/namespaces/'' @ namespace_id\<rparr>;
               parent = ''projects/'' @ project_id @ ''/locations/'' @ location_id
           in and_then
                (invoke (\<lambda>h. create_namespace_rpc env h client parent ns namespace_id)
                   (CreateNamespace client parent ns namespace_id) RNamespace)
                (\<lambda>response.
                   and_then (perform (Print (''Created namespace '' @ namespace_name response @ ''.'')))
                     (\<lambda>u. returns response))))"

definition create_service :: "servicedirectory_env \<Rightarrow> string \<Rightarrow> string \<Rightarrow> string \<Rightarrow> string \<Rightarrow> service prog" where
  "create_service env project_id location_id namespace_id service_id =
     and_then (invoke (\<lambda>h. registration_client_new env h) RegistrationServiceClient RClient)
       (\<lambda>client.
          (let svc = \<lparr>service_name = ''projects/'' @ project_id @ ''/locations/'' @ location_id
                        @ ''/namespaces/'' @ namespace_id @ ''/services/'' @ service_id\<rparr>;
               parent = ''projects/'' @ project_id @ ''/locations/'' @ location_id
                        @ ''/namespaces/'' @ namespace_id
           in and_then
                (invoke (\<lambda>h. create_service_rpc env h client parent svc service_id)
                   (CreateService client parent svc service_id) RService)
                (\<lambda>response.
                   and_then (perform (Print (''Created service '' @ service_name response @ ''.'')))
                     (\<lambda>u. returns response))))"

definition create_endpoint :: "servicedirectory_env \<Rightarrow> string \<Rightarrow> string \<Rightarrow> string \<Rightarrow> string \<Rightarrow> string \<Rightarrow> string \<Rightarrow> int \<Rightarrow> endpoint prog" where
  "create_endpoint env project_id location_id namespace_id service_id endpoint_id address port =
     and_then (invoke (\<lambda>h. registration_client_new env h) RegistrationServiceClient RClient)
       (\<lambda>client.
     and_then
       (of_result
          (Endpoint (''projects/'' @ project_id @ ''/locations/'' @ location_id
                       @ ''/namespaces/'' @ namespace_id @ ''/services/'' @ service_id
                       @ ''/endpoints/'' @ endpoint_id) address port))
       (\<lambda>ep.
          (let parent = ''projects/'' @ project_id @ ''/locations/'' @ location_id
                        @ ''/namespaces/'' @ namespace_id @ ''/services/'' @ service_id
           in and_then
                (invoke (\<lambda>h. create_endpoint_rpc env h client parent ep endpoint_id)
                   (CreateEndpoint client parent ep endpoint_id) REndpoint)
                (\<lambda>response.
                   and_then (perform (Print (''Created endpoint '' @ endpoint_name response @ ''.'')))
                     (\<lambda>u. returns response)))))"

text \<open>The events of a history that are not writes to standard output.\<close>

fun is_Print :: "call \<Rightarrow> bool" where
  "is_Print (Print s) = True"
| "is_Print (PrintOperation operation) = True"
| "is_Print (PrintJson response) = True"
| "is_Print c = False"

definition sdk_events :: "history \<Rightarrow> history" where
  "sdk_events h = filter (\<lambda>ev. \<not> is_Print (fst ev)) h"

section \<open>genappbuilder/poll_operation_sample.py\<close>

record discoveryengine_env =
  get_operation_rpc :: "history \<Rightarrow> string \<Rightarrow> exn + operation"


text \<open>
  One round of the loop on an operation that is not done, the history after \<open>n\<close> such
  rounds, and the answer to the poll that follows them.
\<close>

definition poll_round :: "string \<Rightarrow> operation \<Rightarrow> history" where
  "poll_round name operation =
     [(GetOperation name, ROperation (Inr operation)),
      (PrintOperation operation, RNone (Inr ())),
      (Sleep 10, RNone (Inr ()))]"

fun operation_history :: "discoveryengine_env \<Rightarrow> string \<Rightarrow> history \<Rightarrow> nat \<Rightarrow> history" where
  "operation_history client name h 0 = h"
| "operation_history client name h (Suc n) =
     (case get_operation_rpc client h name of
        Inr operation \<Rightarrow> operation_history client name (h @ poll_round name operation) n
      | Inl e \<Rightarrow> h @ [(GetOperation name, ROperation (Inl e))])"





definition env_registration :: servicedirectory_env where
  "env_registration =
     \<lparr>registration_client_new = (\<lambda>h. Inr (Client ''registration'')),
      create_namespace_rpc = (\<lambda>h client parent ns namespace_id. Inr ns),
      create_service_rpc = (\<lambda>h client parent svc service_id. Inl (GoogleAPICallError ''409 already exists'')),
      create_endpoint_rpc = (\<lambda>h client parent ep endpoint_id. Inr ep)\<rparr>"

text \<open>In \<open>env_no_credentials\<close> the constructor of the registration client raises.\<close>

definition env_no_credentials :: servicedirectory_env where
  "env_no_credentials =
     env_registration
       \<lparr>registration_client_new :=
          (\<lambda>h. Inl (DefaultCredentialsError ''Could not automatically determine credentials.''))\<rparr>"

section \<open>jobs/cjd_sample/histogram_sample.py\<close>










section \<open>The files of the repository\<close>










subsection \<open>The sequence of steps as the specification words it\<close>

text \<open>
  The specification names six steps for \<open>main\<close>: \<open>create_cluster\<close>,
  \<open>wait_for_cluster_creation\<close>, \<open>upload_pyspark_file\<close>, \<open>submit_pyspark_job\<close>,
  \<open>wait_for_job\<close> and \<open>download_output\<close>. \<open>specified_sequence\<close> follows these words,
  not the source: it runs exactly these steps, given the file, the cluster id and the
  output bucket that the steps need. It is compared with \<open>main\<close> below.
\<close>

definition specified_sequence :: "nat \<Rightarrow> dataproc_env \<Rightarrow> client_obj \<Rightarrow> client_obj \<Rightarrow> string \<Rightarrow> pyval \<Rightarrow> string \<Rightarrow> string \<Rightarrow> string \<Rightarrow> bool \<Rightarrow> file_obj \<Rightarrow> string \<Rightarrow> string \<Rightarrow> string \<Rightarrow> string prog" where
  "specified_sequence fuel env dataproc_cluster_client dataproc_job_client project_id zone region name
       bucket_name create_new_cluster spark_file spark_filename cluster_id output_bucket =
     and_then
       (if create_new_cluster then
          and_then (create_cluster env dataproc_cluster_client project_id zone region name)
            (\<lambda>created. wait_for_cluster_creation fuel env dataproc_cluster_client project_id region name)
        else returns ())
    (\<lambda>u. and_then (upload_pyspark_file env project_id bucket_name spark_filename spark_file)
    (\<lambda>u. and_then (submit_pyspark_job env dataproc_job_client project_id region name bucket_name spark_filename)
    (\<lambda>job_id. and_then (wait_for_job fuel env dataproc_job_client project_id region job_id)
    (\<lambda>finished. download_output env project_id cluster_id output_bucket job_id))))"

subsection \<open>Two runs against two environments\<close>







section \<open>Properties of the Dataproc sample\<close>

subsection \<open>The polling loops\<close>

lemma get_job_run:
  "get_job env d p r i h =
     ((case get_job_rpc env h d p r i of Inl e \<Rightarrow> Raises e | Inr j \<Rightarrow> Returns j),
      h @ [(GetJob d p r i, RJob (get_job_rpc env h d p r i))])"
  by (simp add: get_job_def invoke_def split: sum.splits)

lemma job_poll_shift:
  "job_poll env d p r i (snd (get_job env d p r i h)) k = job_poll env d p r i h (Suc k)"
  by (simp add: job_poll_def)

lemma job_history_Suc:
  "job_history env d p r i h (Suc n) =
     job_history env d p r i h n @ [(GetJob d p r i, RJob (job_poll env d p r i h n))]"
proof (induction n arbitrary: h)
  case 0
  show ?case by (simp add: job_poll_def get_job_run)
next
  case (Suc n)
  have "job_history env d p r i h (Suc (Suc n)) =
        job_history env d p r i (snd (get_job env d p r i h)) (Suc n)"
    by simp
  also have "\<dots> = job_history env d p r i (snd (get_job env d p r i h)) n @
        [(GetJob d p r i, RJob (job_poll env d p r i (snd (get_job env d p r i h)) n))]"
    by (rule Suc.IH)
  also have "\<dots> = job_history env d p r i h (Suc n) @
        [(GetJob d p r i, RJob (job_poll env d p r i h (Suc n)))]"
    by (simp add: job_poll_shift)
  finally show ?case .
qed

lemma job_history_calls:
  "map fst (job_history env d p r i h n) = map fst h @ replicate n (GetJob d p r i)"
  by (induction n) (simp_all add: job_history_Suc replicate_append_same del: job_history.simps(2))

lemma wait_for_job_skip:
  "(\<And>k. k < n \<Longrightarrow> job_pending env (job_poll env d p r i h k)) \<Longrightarrow>
   wait_for_job (n + m) env d p r i h = wait_for_job m env d p r i (job_history env d p r i h n)"
proof (induction n arbitrary: h)
  case 0
  show ?case by simp
next
  case (Suc n)
  have first: "job_pending env (get_job_rpc env h d p r i)"
    using Suc.prems [of 0] by (simp add: job_poll_def)
  have rest: "\<And>k. k < n \<Longrightarrow> job_pending env (job_poll env d p r i (snd (get_job env d p r i h)) k)"
    using Suc.prems by (simp add: job_poll_shift)
  have "wait_for_job (Suc n + m) env d p r i h =
        wait_for_job (n + m) env d p r i (snd (get_job env d p r i h))"
    using first by (auto simp: get_job_run job_pending_def split: sum.splits)
  also have "\<dots> = wait_for_job m env d p r i (job_history env d p r i (snd (get_job env d p r i h)) n)"
    by (rule Suc.IH) (rule rest)
  finally show ?case by simp
qed

lemma wait_for_job_poll:
  "get_job_rpc env h d p r i = Inr j \<Longrightarrow>
   wait_for_job (Suc m) env d p r i h =
     (case job_state_name env (job_status_state j) of
        Inl e \<Rightarrow> (Raises e, h @ [(GetJob d p r i, RJob (Inr j))])
      | Inr s \<Rightarrow>
          if s = ''ERROR''
            then (Raises (Exception (job_status_details j)), h @ [(GetJob d p r i, RJob (Inr j))])
          else if s = ''DONE''
            then (Returns j, h @ [(GetJob d p r i, RJob (Inr j))])
          else wait_for_job m env d p r i (h @ [(GetJob d p r i, RJob (Inr j))]))"
  by (simp add: get_job_run split: sum.splits)

lemma job_pending_iff:
  "job_pending env r \<longleftrightarrow> \<not> isl r \<and> \<not> job_unnamed env r \<and> \<not> job_reports env r"
  by (auto simp: job_pending_def job_reports_def job_unnamed_def split: sum.splits)

lemma wait_for_job_stops:
  "\<not> job_pending env (get_job_rpc env h d p r i) \<Longrightarrow> fst (wait_for_job (Suc m) env d p r i h) \<noteq> StillRunning"
  by (auto simp: get_job_run job_pending_def split: sum.splits)

lemma wait_for_job_terminates_if:
  assumes "\<not> job_pending env (job_poll env d p r i h n)"
  shows "\<exists>fuel. fst (wait_for_job fuel env d p r i h) \<noteq> StillRunning"
proof -
  define k where "k = (LEAST k. \<not> job_pending env (job_poll env d p r i h k))"
  have stop: "\<not> job_pending env (job_poll env d p r i h k)"
    unfolding k_def using assms by (rule LeastI)
  have before: "\<And>l. l < k \<Longrightarrow> job_pending env (job_poll env d p r i h l)"
    unfolding k_def using not_less_Least by blast
  have "wait_for_job (k + Suc 0) env d p r i h = wait_for_job (Suc 0) env d p r i (job_history env d p r i h k)"
    by (rule wait_for_job_skip) (rule before)
  moreover have "fst (wait_for_job (Suc 0) env d p r i (job_history env d p r i h k)) \<noteq> StillRunning"
    using stop unfolding job_poll_def by (rule wait_for_job_stops)
  ultimately show ?thesis by metis
qed

lemma wait_for_job_terminates_only_if:
  "fst (wait_for_job fuel env d p r i h) \<noteq> StillRunning \<Longrightarrow>
   \<exists>n. \<not> job_pending env (job_poll env d p r i h n)"
proof (induction fuel arbitrary: h)
  case 0
  then show ?case by simp
next
  case (Suc fuel)
  show ?case
  proof (cases "job_pending env (get_job_rpc env h d p r i)")
    case False
    then have "\<not> job_pending env (job_poll env d p r i h 0)" by (simp add: job_poll_def)
    then show ?thesis ..
  next
    case True
    then have "wait_for_job (Suc fuel) env d p r i h =
               wait_for_job fuel env d p r i (snd (get_job env d p r i h))"
      by (auto simp: get_job_run job_pending_def split: sum.splits)
    with Suc.prems have "fst (wait_for_job fuel env d p r i (snd (get_job env d p r i h))) \<noteq> StillRunning"
      by simp
    then obtain n where "\<not> job_pending env (job_poll env d p r i (snd (get_job env d p r i h)) n)"
      using Suc.IH by blast
    then have "\<not> job_pending env (job_poll env d p r i h (Suc n))" by (simp add: job_poll_shift)
    then show ?thesis ..
  qed
qed

lemma wait_for_job_running:
  assumes "\<And>k. k < n \<Longrightarrow> job_pending env (job_poll env d p r i h k)"
  shows "wait_for_job n env d p r i h = (StillRunning, job_history env d p r i h n)"
  using wait_for_job_skip [where m = 0, OF assms] by simp

lemma list_clusters_run:
  "list_clusters env d p r h =
     ((case list_clusters_rpc env h d p r of Inl e \<Rightarrow> Raises e | Inr cs \<Rightarrow> Returns cs),
      h @ [(ListClusters d p r, RClusters (list_clusters_rpc env h d p r))])"
  by (simp add: list_clusters_def invoke_def split: sum.splits)

lemma scan_clusters_waiting:
  "scan_clusters env name cs = Inr True \<longleftrightarrow>
   \<not> (\<exists>c \<in> set cs. cluster_name c = name
          \<and> (isl (cluster_state_name env (status_state c))
             \<or> cluster_state_name env (status_state c) = Inr ''RUNNING''
             \<or> cluster_state_name env (status_state c) = Inr ''ERROR''))"
  by (induction cs) (auto split: sum.splits)

lemma cluster_pending_iff:
  "cluster_pending env name r \<longleftrightarrow>
   \<not> isl r \<and> \<not> cluster_unnamed env name r \<and> \<not> cluster_reports env name r"
  by (cases r)
     (auto simp: cluster_pending_def cluster_reports_def cluster_unnamed_def scan_clusters_waiting
        list_ex_iff)

lemma cluster_poll_shift:
  "cluster_poll env d p r (snd (list_clusters env d p r h)) k = cluster_poll env d p r h (Suc k)"
  by (simp add: cluster_poll_def)

lemma cluster_history_Suc:
  "cluster_history env d p r h (Suc n) =
     cluster_history env d p r h n @ [(ListClusters d p r, RClusters (cluster_poll env d p r h n))]"
proof (induction n arbitrary: h)
  case 0
  show ?case by (simp add: cluster_poll_def list_clusters_run)
next
  case (Suc n)
  have "cluster_history env d p r h (Suc (Suc n)) =
        cluster_history env d p r (snd (list_clusters env d p r h)) (Suc n)"
    by simp
  also have "\<dots> = cluster_history env d p r (snd (list_clusters env d p r h)) n @
        [(ListClusters d p r, RClusters (cluster_poll env d p r (snd (list_clusters env d p r h)) n))]"
    by (rule Suc.IH)
  also have "\<dots> = cluster_history env d p r h (Suc n) @
        [(ListClusters d p r, RClusters (cluster_poll env d p r h (Suc n)))]"
    by (simp add: cluster_poll_shift)
  finally show ?case .
qed

lemma cluster_history_calls:
  "map fst (cluster_history env d p r h n) = map fst h @ replicate n (ListClusters d p r)"
  by (induction n) (simp_all add: cluster_history_Suc replicate_append_same del: cluster_history.simps(2))

lemma wait_for_cluster_creation_step:
  "cluster_pending env name (list_clusters_rpc env h d p r) \<Longrightarrow>
   wait_for_cluster_creation (Suc fuel) env d p r name h =
   wait_for_cluster_creation fuel env d p r name (snd (list_clusters env d p r h))"
  by (auto simp: list_clusters_run cluster_pending_def split: sum.splits)

lemma wait_for_cluster_creation_stops:
  "\<not> cluster_pending env name (list_clusters_rpc env h d p r) \<Longrightarrow>
   fst (wait_for_cluster_creation (Suc m) env d p r name h) \<noteq> StillRunning"
  by (auto simp: list_clusters_run cluster_pending_def split: sum.splits)

lemma wait_for_cluster_creation_skip:
  "(\<And>k. k < n \<Longrightarrow> cluster_pending env name (cluster_poll env d p r h k)) \<Longrightarrow>
   wait_for_cluster_creation (n + m) env d p r name h =
   wait_for_cluster_creation m env d p r name (cluster_history env d p r h n)"
proof (induction n arbitrary: h)
  case 0
  show ?case by simp
next
  case (Suc n)
  have first: "cluster_pending env name (list_clusters_rpc env h d p r)"
    using Suc.prems [of 0] by (simp add: cluster_poll_def)
  have rest: "\<And>k. k < n \<Longrightarrow> cluster_pending env name (cluster_poll env d p r (snd (list_clusters env d p r h)) k)"
    using Suc.prems by (simp add: cluster_poll_shift)
  have "wait_for_cluster_creation (Suc n + m) env d p r name h =
        wait_for_cluster_creation (n + m) env d p r name (snd (list_clusters env d p r h))"
    using first by (simp add: wait_for_cluster_creation_step del: wait_for_cluster_creation.simps)
  also have "\<dots> = wait_for_cluster_creation m env d p r name
        (cluster_history env d p r (snd (list_clusters env d p r h)) n)"
    by (rule Suc.IH) (rule rest)
  finally show ?case by simp
qed

lemma wait_for_cluster_creation_terminates_if:
  assumes "\<not> cluster_pending env name (cluster_poll env d p r h n)"
  shows "\<exists>fuel. fst (wait_for_cluster_creation fuel env d p r name h) \<noteq> StillRunning"
proof -
  define k where "k = (LEAST k. \<not> cluster_pending env name (cluster_poll env d p r h k))"
  have stop: "\<not> cluster_pending env name (cluster_poll env d p r h k)"
    unfolding k_def using assms by (rule LeastI)
  have before: "\<And>l. l < k \<Longrightarrow> cluster_pending env name (cluster_poll env d p r h l)"
    unfolding k_def using not_less_Least by blast
  have "wait_for_cluster_creation (k + Suc 0) env d p r name h =
        wait_for_cluster_creation (Suc 0) env d p r name (cluster_history env d p r h k)"
    by (rule wait_for_cluster_creation_skip) (rule before)
  moreover have "fst (wait_for_cluster_creation (Suc 0) env d p r name (cluster_history env d p r h k)) \<noteq> StillRunning"
    using stop unfolding cluster_poll_def by (rule wait_for_cluster_creation_stops)
  ultimately show ?thesis by metis
qed

lemma wait_for_cluster_creation_terminates_only_if:
  "fst (wait_for_cluster_creation fuel env d p r name h) \<noteq> StillRunning \<Longrightarrow>
   \<exists>n. \<not> cluster_pending env name (cluster_poll env d p r h n)"
proof (induction fuel arbitrary: h)
  case 0
  then show ?case by simp
next
  case (Suc fuel)
  show ?case
  proof (cases "cluster_pending env name (list_clusters_rpc env h d p r)")
    case False
    then have "\<not> cluster_pending env name (cluster_poll env d p r h 0)" by (simp add: cluster_poll_def)
    then show ?thesis ..
  next
    case True
    with Suc.prems have "fst (wait_for_cluster_creation fuel env d p r name (snd (list_clusters env d p r h))) \<noteq> StillRunning"
      by (simp add: wait_for_cluster_creation_step del: wait_for_cluster_creation.simps)
    then obtain n where "\<not> cluster_pending env name (cluster_poll env d p r (snd (list_clusters env d p r h)) n)"
      using Suc.IH by blast
    then have "\<not> cluster_pending env name (cluster_poll env d p r h (Suc n))" by (simp add: cluster_poll_shift)
    then show ?thesis ..
  qed
qed

lemma wait_for_cluster_creation_running:
  assumes "\<And>k. k < n \<Longrightarrow> cluster_pending env name (cluster_poll env d p r h k)"
  shows "wait_for_cluster_creation n env d p r name h = (StillRunning, cluster_history env d p r h n)"
  using wait_for_cluster_creation_skip [where m = 0, OF assms] by simp

text \<open>
  C1 (as amended). \<open>wait_for_job\<close> polls \<open>get_job\<close> in a loop and classifies nothing
  beyond a generic exception. For every polled job (the answer to poll \<open>n\<close>, after \<open>n\<close>
  polls that left the loop running) whose state number has a name: in state ERROR the
  loop raises the bare \<open>Exception\<close> carrying \<open>job.status.details\<close>; in state DONE it
  returns that job; in any other named state it goes on as the same loop from the
  extended history. When \<open>State.Name\<close> raises for the state number, that exception
  leaves the loop. The history up to and including that poll consists of the \<open>get_job\<close>
  calls alone, so the next poll follows immediately. The claim as stated has the loop
  poll again in every state other than ERROR and DONE: for a state number without a name
  it does not.
\<close>

theorem wait_for_job_polled_job:
  assumes pending: "\<forall>k<n. job_pending env (job_poll env d p r i h k)"
      and polled: "job_poll env d p r i h n = Inr j"
  shows "wait_for_job (Suc n + m) env d p r i h =
           (case job_state_name env (job_status_state j) of
              Inl e \<Rightarrow> (Raises e, job_history env d p r i h (Suc n))
            | Inr s \<Rightarrow>
                if s = ''ERROR''
                  then (Raises (Exception (job_status_details j)), job_history env d p r i h (Suc n))
                else if s = ''DONE''
                  then (Returns j, job_history env d p r i h (Suc n))
                else wait_for_job m env d p r i (job_history env d p r i h (Suc n)))
         \<and> job_history env d p r i h (Suc n) = job_history env d p r i h n @ [(GetJob d p r i, RJob (Inr j))]
         \<and> map fst (job_history env d p r i h (Suc n)) = map fst h @ replicate (Suc n) (GetJob d p r i)"
proof -
  have rpc: "get_job_rpc env (job_history env d p r i h n) d p r i = Inr j"
    using polled by (simp add: job_poll_def)
  have hist: "job_history env d p r i h (Suc n) = job_history env d p r i h n @ [(GetJob d p r i, RJob (Inr j))]"
    using polled by (simp only: job_history_Suc)
  have "wait_for_job (Suc n + m) env d p r i h = wait_for_job (n + Suc m) env d p r i h"
    by simp
  also have "\<dots> = wait_for_job (Suc m) env d p r i (job_history env d p r i h n)"
    by (rule wait_for_job_skip) (simp add: pending)
  also have "\<dots> =
           (case job_state_name env (job_status_state j) of
              Inl e \<Rightarrow> (Raises e, job_history env d p r i h (Suc n))
            | Inr s \<Rightarrow>
                if s = ''ERROR''
                  then (Raises (Exception (job_status_details j)), job_history env d p r i h (Suc n))
                else if s = ''DONE''
                  then (Returns j, job_history env d p r i h (Suc n))
                else wait_for_job m env d p r i (job_history env d p r i h (Suc n)))"
    by (simp only: wait_for_job_poll [OF rpc] hist)
  finally show ?thesis
    using hist job_history_calls [of env d p r i h "Suc n"] by blast
qed

lemma enum_name_999:
  "enum_name JobStatus_State 999 = Inl (ValueError ''Enum State has no value defined for number 999'')"
  "enum_name ClusterStatus_State 999 = Inl (ValueError ''Enum State has no value defined for number 999'')"
  by (simp_all add: enum_name_def JobStatus_State_def ClusterStatus_State_def str_int_def str_nat.simps)

lemma enum_name_job:
  "enum_name JobStatus_State 1 = Inr ''PENDING''"
  "enum_name JobStatus_State 2 = Inr ''RUNNING''"
  "enum_name JobStatus_State 5 = Inr ''DONE''"
  "enum_name JobStatus_State 6 = Inr ''ERROR''"
  by (simp_all add: enum_name_def JobStatus_State_def)

lemma enum_name_cluster:
  "enum_name ClusterStatus_State 1 = Inr ''CREATING''"
  "enum_name ClusterStatus_State 2 = Inr ''RUNNING''"
  "enum_name ClusterStatus_State 3 = Inr ''ERROR''"
  by (simp_all add: enum_name_def ClusterStatus_State_def)

lemmas enum_names = enum_name_999 enum_name_job enum_name_cluster

theorem wait_for_job_polled_job_witness:
  "job_pending env_job_error (job_poll env_job_error (Client ''job'') ''proj'' ''global'' ''job-1'' [] 0)
   \<and> job_pending env_job_error (job_poll env_job_error (Client ''job'') ''proj'' ''global'' ''job-1'' [] 1)
   \<and> job_poll env_job_error (Client ''job'') ''proj'' ''global'' ''job-1'' [] 2 = Inr (example_job 6)
   \<and> job_state_name env_job_error (job_status_state (example_job 6)) = Inr ''ERROR''
   \<and> fst (wait_for_job 3 env_job_error (Client ''job'') ''proj'' ''global'' ''job-1'' []) =
       Raises (Exception ''driver failed'')
   \<and> map fst (snd (wait_for_job 3 env_job_error (Client ''job'') ''proj'' ''global'' ''job-1'' [])) =
       [GetJob (Client ''job'') ''proj'' ''global'' ''job-1'', GetJob (Client ''job'') ''proj'' ''global'' ''job-1'',
        GetJob (Client ''job'') ''proj'' ''global'' ''job-1'']"
proof -
  let ?c = "Client ''job''"
  have p0: "job_pending env_job_error (job_poll env_job_error ?c ''proj'' ''global'' ''job-1'' [] 0)"
    by (simp add: job_pending_def job_poll_def env_job_error_def example_env_def example_job_def
        count_calls_def enum_names)
  have p1: "job_pending env_job_error (job_poll env_job_error ?c ''proj'' ''global'' ''job-1'' [] 1)"
    by (simp add: job_pending_def job_poll_def get_job_run env_job_error_def example_env_def
        example_job_def count_calls_def enum_names)
  have p2: "job_poll env_job_error ?c ''proj'' ''global'' ''job-1'' [] 2 = Inr (example_job 6)"
    by (simp add: job_poll_def get_job_run env_job_error_def example_env_def example_job_def
        count_calls_def numeral_2_eq_2)
  have nm: "job_state_name env_job_error (job_status_state (example_job 6)) = Inr ''ERROR''"
    by (simp add: env_job_error_def example_env_def example_job_def enum_names)
  have pend: "\<forall>k<2. job_pending env_job_error (job_poll env_job_error ?c ''proj'' ''global'' ''job-1'' [] k)"
    using p0 p1 by (auto simp: less_Suc_eq numeral_2_eq_2)
  have three: "replicate 3 c = [c, c, c]" for c :: call
    by (simp add: numeral_3_eq_3)
  note polled = wait_for_job_polled_job [OF pend p2, of 0]
  have "wait_for_job 3 env_job_error ?c ''proj'' ''global'' ''job-1'' [] =
          (Raises (Exception ''driver failed''), job_history env_job_error ?c ''proj'' ''global'' ''job-1'' [] 3)"
    using polled [THEN conjunct1] by (simp add: nm) (simp add: example_job_def)
  moreover have "map fst (job_history env_job_error ?c ''proj'' ''global'' ''job-1'' [] 3) =
          replicate 3 (GetJob ?c ''proj'' ''global'' ''job-1'')"
    using polled [THEN conjunct2, THEN conjunct2] by simp
  ultimately show ?thesis
    using p0 p1 p2 nm by (simp add: three)
qed

theorem wait_for_job_unnamed_state_counterexample:
  "get_job_rpc env_unnamed [] (Client ''job'') ''proj'' ''global'' ''job-1'' = Inr (example_job 999)
   \<and> job_state_name env_unnamed (job_status_state (example_job 999)) \<noteq> Inr ''ERROR''
   \<and> job_state_name env_unnamed (job_status_state (example_job 999)) \<noteq> Inr ''DONE''
   \<and> wait_for_job 3 env_unnamed (Client ''job'') ''proj'' ''global'' ''job-1'' [] =
       (Raises (ValueError ''Enum State has no value defined for number 999''),
        [(GetJob (Client ''job'') ''proj'' ''global'' ''job-1'', RJob (Inr (example_job 999)))])"
  by (simp add: get_job_run env_unnamed_def example_env_def example_job_def count_calls_def
      enum_names numeral_3_eq_3)

text \<open>
  C2 (as amended). Both loops poll without a bound on the number of iterations and with
  nothing between two polls: after \<open>n\<close> polls that returned without a final state the
  loop is still running and the history holds exactly \<open>n\<close> further \<open>list_clusters\<close>
  (\<open>get_job\<close>) calls. A loop terminates, normally or by raising, if and only if some
  poll raises in the client library, or reports for the named cluster (the job) a state
  number for which \<open>State.Name\<close> raises, or reports the named cluster RUNNING or ERROR
  (the job DONE or ERROR). The claim as stated leaves out the first two alternatives: a
  poll that raises, or a state number without a name, ends the loop although no such
  state was ever reported.
\<close>

theorem polling_loops_terminate_iff:
  "((\<exists>fuel. fst (wait_for_cluster_creation fuel env d p r name h) \<noteq> StillRunning) \<longleftrightarrow>
      (\<exists>n. isl (cluster_poll env d p r h n) \<or> cluster_unnamed env name (cluster_poll env d p r h n)
           \<or> cluster_reports env name (cluster_poll env d p r h n)))
   \<and> ((\<exists>fuel. fst (wait_for_job fuel env d p r i h) \<noteq> StillRunning) \<longleftrightarrow>
      (\<exists>n. isl (job_poll env d p r i h n) \<or> job_unnamed env (job_poll env d p r i h n)
           \<or> job_reports env (job_poll env d p r i h n)))
   \<and> ((\<forall>k<n. \<not> isl (cluster_poll env d p r h k) \<and> \<not> cluster_unnamed env name (cluster_poll env d p r h k)
              \<and> \<not> cluster_reports env name (cluster_poll env d p r h k)) \<longrightarrow>
        wait_for_cluster_creation n env d p r name h = (StillRunning, cluster_history env d p r h n))
   \<and> ((\<forall>k<n. \<not> isl (job_poll env d p r i h k) \<and> \<not> job_unnamed env (job_poll env d p r i h k)
              \<and> \<not> job_reports env (job_poll env d p r i h k)) \<longrightarrow>
        wait_for_job n env d p r i h = (StillRunning, job_history env d p r i h n))
   \<and> map fst (cluster_history env d p r h n) = map fst h @ replicate n (ListClusters d p r)
   \<and> map fst (job_history env d p r i h n) = map fst h @ replicate n (GetJob d p r i)"
proof -
  have c: "(\<exists>fuel. fst (wait_for_cluster_creation fuel env d p r name h) \<noteq> StillRunning) \<longleftrightarrow>
      (\<exists>n. isl (cluster_poll env d p r h n) \<or> cluster_unnamed env name (cluster_poll env d p r h n)
           \<or> cluster_reports env name (cluster_poll env d p r h n))"
    using wait_for_cluster_creation_terminates_if [of env name d p r h]
      wait_for_cluster_creation_terminates_only_if [of _ env d p r name h]
    unfolding cluster_pending_iff by blast
  have j: "(\<exists>fuel. fst (wait_for_job fuel env d p r i h) \<noteq> StillRunning) \<longleftrightarrow>
      (\<exists>n. isl (job_poll env d p r i h n) \<or> job_unnamed env (job_poll env d p r i h n)
           \<or> job_reports env (job_poll env d p r i h n))"
    using wait_for_job_terminates_if [of env d p r i h]
      wait_for_job_terminates_only_if [of _ env d p r i h]
    unfolding job_pending_iff by blast
  have cr: "(\<forall>k<n. \<not> isl (cluster_poll env d p r h k) \<and> \<not> cluster_unnamed env name (cluster_poll env d p r h k)
              \<and> \<not> cluster_reports env name (cluster_poll env d p r h k)) \<longrightarrow>
        wait_for_cluster_creation n env d p r name h = (StillRunning, cluster_history env d p r h n)"
    using wait_for_cluster_creation_running [of n env name d p r h]
    unfolding cluster_pending_iff by blast
  have jr: "(\<forall>k<n. \<not> isl (job_poll env d p r i h k) \<and> \<not> job_unnamed env (job_poll env d p r i h k)
              \<and> \<not> job_reports env (job_poll env d p r i h k)) \<longrightarrow>
        wait_for_job n env d p r i h = (StillRunning, job_history env d p r i h n)"
    using wait_for_job_running [of n env d p r i h]
    unfolding job_pending_iff by blast
  show ?thesis
    using c j cr jr cluster_history_calls [of env d p r h n] job_history_calls [of env d p r i h n]
    by blast
qed

theorem polling_loops_terminate_iff_witness:
  "\<not> isl (cluster_poll env_ok (Client ''cluster'') ''proj'' ''global'' [] 0)
   \<and> \<not> cluster_unnamed env_ok ''c1'' (cluster_poll env_ok (Client ''cluster'') ''proj'' ''global'' [] 0)
   \<and> \<not> cluster_reports env_ok ''c1'' (cluster_poll env_ok (Client ''cluster'') ''proj'' ''global'' [] 0)
   \<and> cluster_reports env_ok ''c1'' (cluster_poll env_ok (Client ''cluster'') ''proj'' ''global'' [] 1)
   \<and> wait_for_cluster_creation 1 env_ok (Client ''cluster'') ''proj'' ''global'' ''c1'' [] =
       (StillRunning, [(ListClusters (Client ''cluster'') ''proj'' ''global'', RClusters (Inr [example_cluster 1]))])
   \<and> (\<exists>fuel. fst (wait_for_cluster_creation fuel env_ok (Client ''cluster'') ''proj'' ''global'' ''c1'' []) \<noteq> StillRunning)
   \<and> \<not> isl (job_poll env_ok (Client ''job'') ''proj'' ''global'' ''job-1'' [] 0)
   \<and> \<not> job_unnamed env_ok (job_poll env_ok (Client ''job'') ''proj'' ''global'' ''job-1'' [] 0)
   \<and> \<not> job_reports env_ok (job_poll env_ok (Client ''job'') ''proj'' ''global'' ''job-1'' [] 0)
   \<and> wait_for_job 1 env_ok (Client ''job'') ''proj'' ''global'' ''job-1'' [] =
       (StillRunning, [(GetJob (Client ''job'') ''proj'' ''global'' ''job-1'', RJob (Inr (example_job 2)))])"
proof -
  let ?cc = "Client ''cluster''"
  let ?jc = "Client ''job''"
  have c0: "cluster_poll env_ok ?cc ''proj'' ''global'' [] 0 = Inr [example_cluster 1]"
    by (simp add: cluster_poll_def env_ok_def example_env_def count_calls_def)
  have c1: "cluster_poll env_ok ?cc ''proj'' ''global'' [] 1 = Inr [example_cluster 2]"
    by (simp add: cluster_poll_def list_clusters_run env_ok_def example_env_def count_calls_def)
  have j0: "job_poll env_ok ?jc ''proj'' ''global'' ''job-1'' [] 0 = Inr (example_job 2)"
    by (simp add: job_poll_def env_ok_def example_env_def count_calls_def)
  have ch: "cluster_history env_ok ?cc ''proj'' ''global'' [] 1 =
      [(ListClusters ?cc ''proj'' ''global'', RClusters (Inr [example_cluster 1]))]"
    using cluster_history_Suc [of env_ok ?cc "''proj''" "''global''" "[]" 0] c0 by simp
  have jh: "job_history env_ok ?jc ''proj'' ''global'' ''job-1'' [] 1 =
      [(GetJob ?jc ''proj'' ''global'' ''job-1'', RJob (Inr (example_job 2)))]"
    using job_history_Suc [of env_ok ?jc "''proj''" "''global''" "''job-1''" "[]" 0] j0 by simp
  have a: "\<not> isl (cluster_poll env_ok ?cc ''proj'' ''global'' [] 0)
      \<and> \<not> cluster_unnamed env_ok ''c1'' (cluster_poll env_ok ?cc ''proj'' ''global'' [] 0)
      \<and> \<not> cluster_reports env_ok ''c1'' (cluster_poll env_ok ?cc ''proj'' ''global'' [] 0)"
    unfolding c0
    by (simp add: cluster_reports_def cluster_unnamed_def example_cluster_def env_ok_def
        example_env_def enum_names)
  have b: "cluster_reports env_ok ''c1'' (cluster_poll env_ok ?cc ''proj'' ''global'' [] 1)"
    unfolding c1
    by (simp add: cluster_reports_def example_cluster_def env_ok_def example_env_def enum_names)
  have e: "\<not> isl (job_poll env_ok ?jc ''proj'' ''global'' ''job-1'' [] 0)
      \<and> \<not> job_unnamed env_ok (job_poll env_ok ?jc ''proj'' ''global'' ''job-1'' [] 0)
      \<and> \<not> job_reports env_ok (job_poll env_ok ?jc ''proj'' ''global'' ''job-1'' [] 0)"
    unfolding j0
    by (simp add: job_reports_def job_unnamed_def example_job_def env_ok_def example_env_def
        enum_names)
  note t = polling_loops_terminate_iff [of env_ok ?cc "''proj''" "''global''" "''c1''" "[]" "''job-1''" 1]
  note u = polling_loops_terminate_iff [of env_ok ?jc "''proj''" "''global''" "''c1''" "[]" "''job-1''" 1]
  have "\<exists>fuel. fst (wait_for_cluster_creation fuel env_ok ?cc ''proj'' ''global'' ''c1'' []) \<noteq> StillRunning"
    using t [THEN conjunct1] b by blast
  moreover have "wait_for_cluster_creation 1 env_ok ?cc ''proj'' ''global'' ''c1'' [] =
       (StillRunning, cluster_history env_ok ?cc ''proj'' ''global'' [] 1)"
    using t [THEN conjunct2, THEN conjunct2, THEN conjunct1] a by simp
  moreover have "wait_for_job 1 env_ok ?jc ''proj'' ''global'' ''job-1'' [] =
       (StillRunning, job_history env_ok ?jc ''proj'' ''global'' ''job-1'' [] 1)"
    using u [THEN conjunct2, THEN conjunct2, THEN conjunct2, THEN conjunct1] e by simp
  ultimately show ?thesis
    using a b e by (simp only: ch jh) blast
qed

theorem polling_loops_sdk_failure_counterexample:
  "fst (wait_for_job 1 env_unavailable (Client ''job'') ''proj'' ''global'' ''job-1'' []) =
       Raises (GoogleAPICallError ''503 unavailable'')
   \<and> (\<forall>n. \<not> job_reports env_unavailable (job_poll env_unavailable (Client ''job'') ''proj'' ''global'' ''job-1'' [] n))
   \<and> fst (wait_for_cluster_creation 1 env_unavailable (Client ''cluster'') ''proj'' ''global'' ''c1'' []) =
       Raises (GoogleAPICallError ''503 unavailable'')
   \<and> (\<forall>n. \<not> cluster_reports env_unavailable ''c1''
              (cluster_poll env_unavailable (Client ''cluster'') ''proj'' ''global'' [] n))
   \<and> fst (wait_for_job 1 env_unnamed (Client ''job'') ''proj'' ''global'' ''job-1'' []) =
       Raises (ValueError ''Enum State has no value defined for number 999'')
   \<and> (\<forall>n. \<not> job_reports env_unnamed (job_poll env_unnamed (Client ''job'') ''proj'' ''global'' ''job-1'' [] n))
   \<and> fst (wait_for_cluster_creation 1 env_unnamed (Client ''cluster'') ''proj'' ''global'' ''c1'' []) =
       Raises (ValueError ''Enum State has no value defined for number 999'')
   \<and> (\<forall>n. \<not> cluster_reports env_unnamed ''c1''
              (cluster_poll env_unnamed (Client ''cluster'') ''proj'' ''global'' [] n))"
  by (simp add: job_poll_def cluster_poll_def job_reports_def cluster_reports_def get_job_run
      list_clusters_run env_unavailable_def env_unnamed_def example_env_def example_cluster_def
      example_job_def enum_names)

subsection \<open>get_region_from_zone\<close>

lemma split_on_nonempty: "split_on sep s \<noteq> []"
  by (induction s) (auto split: list.splits)

lemma split_on_no_sep: "sep \<notin> set s \<Longrightarrow> split_on sep s = [s]"
  by (induction s) auto

lemma split_on_append:
  "split_on sep (r @ sep # s) = split_on sep r @ split_on sep s"
proof (induction r)
  case Nil
  show ?case by simp
next
  case (Cons c r)
  show ?case
  proof (cases "c = sep")
    case True
    with Cons show ?thesis by simp
  next
    case False
    obtain p ps where ps: "split_on sep r = p # ps"
      using split_on_nonempty [of sep r] by (cases "split_on sep r") auto
    with False Cons show ?thesis by simp
  qed
qed

lemma join_with_Cons:
  "ps \<noteq> [] \<Longrightarrow> join_with sep (p # ps) = p @ sep @ join_with sep ps"
  by (cases ps) auto

lemma join_split: "join_with [sep] (split_on sep s) = s"
proof (induction s)
  case Nil
  show ?case by simp
next
  case (Cons c s)
  obtain p ps where ps: "split_on sep s = p # ps"
    using split_on_nonempty [of sep s] by (cases "split_on sep s") auto
  show ?case
  proof (cases "c = sep")
    case True
    then show ?thesis using Cons by (simp add: join_with_Cons split_on_nonempty)
  next
    case False
    then show ?thesis using Cons ps by (cases ps) auto
  qed
qed

text \<open>
C8. For every string \<open>zone\<close>, \<open>get_region_from_zone\<close> returns the hyphen-join of
  all hyphen-separated components of \<open>zone\<close> but the last and never raises: a zone with
  no hyphen gives the empty string, and a zone \<open>region-part\<close> whose last component
  \<open>part\<close> has no hyphen gives \<open>region\<close>. The ValueError
  \<open>Invalid zone provided\<close> is raised only for an argument that is not a string, through
  the AttributeError of \<open>zone.split\<close> that the function catches, and for every such
  argument.
\<close>

theorem get_region_from_zone_string:
  "get_region_from_zone (PyStr zone) = Inr (join_with ''-'' (butlast (split_on CHR ''-'' zone)))
   \<and> (CHR ''-'' \<notin> set zone \<longrightarrow> get_region_from_zone (PyStr zone) = Inr [])
   \<and> (CHR ''-'' \<notin> set part \<longrightarrow> get_region_from_zone (PyStr (region @ ''-'' @ part)) = Inr region)
   \<and> (get_region_from_zone z = Inl e \<longrightarrow>
        (\<forall>s. z \<noteq> PyStr s) \<and> zone_split z = Inl AttributeError
        \<and> e = ValueError ''Invalid zone provided, please check your input.'')
   \<and> ((\<forall>s. z \<noteq> PyStr s) \<longrightarrow>
        get_region_from_zone z = Inl (ValueError ''Invalid zone provided, please check your input.''))"
proof -
  have a: "get_region_from_zone (PyStr s) = Inr (join_with ''-'' (butlast (split_on CHR ''-'' s)))" for s
    by (simp add: get_region_from_zone_def zone_split_def)
  have b: "CHR ''-'' \<notin> set zone \<longrightarrow> get_region_from_zone (PyStr zone) = Inr []"
    by (simp add: a split_on_no_sep)
  have c: "CHR ''-'' \<notin> set part \<longrightarrow> get_region_from_zone (PyStr (region @ ''-'' @ part)) = Inr region"
    using join_split [of "CHR ''-''" region]
    by (simp add: a split_on_append split_on_no_sep)
  have d: "get_region_from_zone z = Inl e \<longrightarrow>
        (\<forall>s. z \<noteq> PyStr s) \<and> zone_split z = Inl AttributeError
        \<and> e = ValueError ''Invalid zone provided, please check your input.''"
    by (cases z) (auto simp: get_region_from_zone_def zone_split_def)
  have e: "(\<forall>s. z \<noteq> PyStr s) \<longrightarrow>
        get_region_from_zone z = Inl (ValueError ''Invalid zone provided, please check your input.'')"
    by (cases z) (auto simp: get_region_from_zone_def zone_split_def)
  from a [of zone] b c d e show ?thesis by blast
qed

theorem get_region_from_zone_string_witness:
  "get_region_from_zone (PyStr ''us-central1-a'') = Inr ''us-central1''
   \<and> CHR ''-'' \<notin> set ''nohyphen''
   \<and> get_region_from_zone (PyStr ''nohyphen'') = Inr []
   \<and> get_region_from_zone PyNone = Inl (ValueError ''Invalid zone provided, please check your input.'')
   \<and> zone_split PyNone = Inl AttributeError"
proof -
  note t = get_region_from_zone_string [of "''nohyphen''" "''a''" "''us-central1''" PyNone
      "ValueError ''Invalid zone provided, please check your input.''"]
  have n: "CHR ''-'' \<notin> set ''nohyphen''" by simp
  have p: "CHR ''-'' \<notin> set ''a''" by simp
  have z: "\<forall>s. PyNone \<noteq> PyStr s" by simp
  have "get_region_from_zone (PyStr ''nohyphen'') = Inr []"
    using t [THEN conjunct2, THEN conjunct1] n by blast
  moreover have "get_region_from_zone (PyStr (''us-central1'' @ ''-'' @ ''a'')) = Inr ''us-central1''"
    using t [THEN conjunct2, THEN conjunct2, THEN conjunct1] p by blast
  moreover have l: "get_region_from_zone PyNone = Inl (ValueError ''Invalid zone provided, please check your input.'')"
    using t [THEN conjunct2, THEN conjunct2, THEN conjunct2, THEN conjunct2] z by blast
  moreover have "zone_split PyNone = Inl AttributeError"
    using t [THEN conjunct2, THEN conjunct2, THEN conjunct2, THEN conjunct1] l by blast
  ultimately show ?thesis using n by simp
qed

subsection \<open>Calls issued by the helpers\<close>

lemma emitsI: "(\<And>h. \<exists>es. snd (m h) = h @ es \<and> fst ` set es \<subseteq> S) \<Longrightarrow> emits S m"
  by (simp add: emits_def)

lemma emitsD: "emits S m \<Longrightarrow> \<exists>es. snd (m h) = h @ es \<and> fst ` set es \<subseteq> S"
  by (simp add: emits_def)

lemma emits_returns: "emits S (returns x)"
  by (simp add: emits_def returns_def)

lemma emits_raises: "emits S (raises e)"
  by (simp add: emits_def raises_def)

lemma emits_invoke: "c \<in> S \<Longrightarrow> emits S (invoke rpc c tag)"
  by (auto simp: emits_def invoke_def split: sum.splits)

lemma emits_perform: "c \<in> S \<Longrightarrow> emits S (perform c)"
  by (simp add: emits_def perform_def)

lemma emits_of_result: "emits S (of_result r)"
  by (cases r) (simp_all add: of_result_def emits_returns emits_raises)

lemma emits_and_then:
  assumes m: "emits S m" and k: "\<And>x. emits S (k x)"
  shows "emits S (and_then m k)"
proof (rule emitsI)
  fix h
  obtain es where es: "snd (m h) = h @ es" "fst ` set es \<subseteq> S"
    using emitsD [OF m] by blast
  show "\<exists>es. snd (and_then m k h) = h @ es \<and> fst ` set es \<subseteq> S"
  proof (cases "m h")
    case (Pair r h')
    with es have h': "h' = h @ es" by simp
    show ?thesis
    proof (cases r)
      case (Returns x)
      obtain fs where fs: "snd (k x h') = h' @ fs" "fst ` set fs \<subseteq> S"
        using emitsD [OF k] by blast
      have "snd (and_then m k h) = h @ (es @ fs)"
        using Pair Returns fs h' by (simp add: and_then_def)
      moreover have "fst ` set (es @ fs) \<subseteq> S" using es fs by auto
      ultimately show ?thesis by blast
    next
      case (Raises e)
      then show ?thesis using Pair es h' by (auto simp: and_then_def)
    next
      case StillRunning
      then show ?thesis using Pair es h' by (auto simp: and_then_def)
    qed
  qed
qed

lemma emits_try_finally:
  assumes b: "emits S body" and c: "emits S cleanup"
  shows "emits S (try_finally body cleanup)"
proof (rule emitsI)
  fix h
  obtain es where es: "snd (body h) = h @ es" "fst ` set es \<subseteq> S"
    using emitsD [OF b] by blast
  obtain fs where fs: "snd (cleanup (h @ es)) = (h @ es) @ fs" "fst ` set fs \<subseteq> S"
    using emitsD [OF c] by blast
  have both: "fst ` set (es @ fs) \<subseteq> S" using es fs by auto
  show "\<exists>es. snd (try_finally body cleanup h) = h @ es \<and> fst ` set es \<subseteq> S"
  proof (cases "fst (body h) = StillRunning")
    case True
    then have "snd (try_finally body cleanup h) = h @ es"
      using es by (cases "body h") (simp add: try_finally_def)
    with es show ?thesis by blast
  next
    case False
    then have "snd (try_finally body cleanup h) = h @ (es @ fs)"
      using es fs
      by (cases "body h"; cases "cleanup (h @ es)")
         (auto simp: try_finally_def split: outcome.splits)
    with both show ?thesis by blast
  qed
qed


lemma emits_wait_for_job:
  "GetJob d p r i \<in> S \<Longrightarrow> emits S (wait_for_job fuel env d p r i)"
proof (induction fuel)
  case 0
  show ?case by (simp add: emits_def)
next
  case (Suc fuel)
  show ?case
  proof (rule emitsI)
    fix h
    let ?h' = "h @ [(GetJob d p r i, RJob (get_job_rpc env h d p r i))]"
    obtain es where es: "snd (wait_for_job fuel env d p r i ?h') = ?h' @ es" "fst ` set es \<subseteq> S"
      using emitsD [OF Suc.IH [OF Suc.prems]] by blast
    have one: "fst ` set [(GetJob d p r i, RJob (get_job_rpc env h d p r i))] \<subseteq> S"
      using Suc.prems by simp
    have "snd (wait_for_job (Suc fuel) env d p r i h) = ?h' \<or>
          snd (wait_for_job (Suc fuel) env d p r i h) = snd (wait_for_job fuel env d p r i ?h')"
      by (simp add: get_job_run split: sum.splits)
    then show "\<exists>es. snd (wait_for_job (Suc fuel) env d p r i h) = h @ es \<and> fst ` set es \<subseteq> S"
    proof
      assume "snd (wait_for_job (Suc fuel) env d p r i h) = ?h'"
      with one show ?thesis by blast
    next
      assume "snd (wait_for_job (Suc fuel) env d p r i h) = snd (wait_for_job fuel env d p r i ?h')"
      then have "snd (wait_for_job (Suc fuel) env d p r i h) =
          h @ ((GetJob d p r i, RJob (get_job_rpc env h d p r i)) # es)"
        using es by simp
      moreover have "fst ` set ((GetJob d p r i, RJob (get_job_rpc env h d p r i)) # es) \<subseteq> S"
        using es Suc.prems by simp
      ultimately show ?thesis by blast
    qed
  qed
qed

lemma emits_wait_for_cluster_creation:
  "ListClusters d p r \<in> S \<Longrightarrow> emits S (wait_for_cluster_creation fuel env d p r name)"
proof (induction fuel)
  case 0
  show ?case by (simp add: emits_def)
next
  case (Suc fuel)
  show ?case
  proof (rule emitsI)
    fix h
    let ?h' = "h @ [(ListClusters d p r, RClusters (list_clusters_rpc env h d p r))]"
    obtain es where es: "snd (wait_for_cluster_creation fuel env d p r name ?h') = ?h' @ es" "fst ` set es \<subseteq> S"
      using emitsD [OF Suc.IH [OF Suc.prems]] by blast
    have one: "fst ` set [(ListClusters d p r, RClusters (list_clusters_rpc env h d p r))] \<subseteq> S"
      using Suc.prems by simp
    have "snd (wait_for_cluster_creation (Suc fuel) env d p r name h) = ?h' \<or>
          snd (wait_for_cluster_creation (Suc fuel) env d p r name h) =
            snd (wait_for_cluster_creation fuel env d p r name ?h')"
      by (simp add: list_clusters_run split: sum.splits)
    then show "\<exists>es. snd (wait_for_cluster_creation (Suc fuel) env d p r name h) = h @ es \<and> fst ` set es \<subseteq> S"
    proof
      assume "snd (wait_for_cluster_creation (Suc fuel) env d p r name h) = ?h'"
      with one show ?thesis by blast
    next
      assume "snd (wait_for_cluster_creation (Suc fuel) env d p r name h) =
            snd (wait_for_cluster_creation fuel env d p r name ?h')"
      then have "snd (wait_for_cluster_creation (Suc fuel) env d p r name h) =
          h @ ((ListClusters d p r, RClusters (list_clusters_rpc env h d p r)) # es)"
        using es by simp
      moreover have "fst ` set ((ListClusters d p r, RClusters (list_clusters_rpc env h d p r)) # es) \<subseteq> S"
        using es Suc.prems by simp
      ultimately show ?thesis by blast
    qed
  qed
qed

subsection \<open>The cleanup of main\<close>

lemma and_then_history:
  "fst (m h) = Returns x \<Longrightarrow> and_then m k h = k x (snd (m h))"
  "fst (m h) = Raises e \<Longrightarrow> and_then m k h = (Raises e, snd (m h))"
  "fst (m h) = StillRunning \<Longrightarrow> and_then m k h = (StillRunning, snd (m h))"
  by (cases "m h"; simp add: and_then_def)+

lemma main_run:
  "dataproc_get_client env zone global_region h = (Returns (region, cluster_client, job_client), h0) \<Longrightarrow>
   main fuel env project_id zone name bucket_name pyspark_file create_new_cluster global_region h =
     main_try fuel env cluster_client job_client project_id zone region name bucket_name pyspark_file
       create_new_cluster h0"
  by (simp add: main_def and_then_def)

lemma main_raises_before_try:
  "dataproc_get_client env zone global_region h = (Raises e, h0) \<Longrightarrow>
   main fuel env project_id zone name bucket_name pyspark_file create_new_cluster global_region h =
     (Raises e, h0)"
  by (simp add: main_def and_then_def)

lemma emits_dataproc_get_client: "emits body_calls (dataproc_get_client env zone global_region)"
  unfolding dataproc_get_client_def
  by (auto intro!: emits_and_then emits_invoke emits_returns emits_of_result simp: body_calls_def)

lemma dataproc_get_client_ends: "fst (dataproc_get_client env zone global_region h) \<noteq> StillRunning"
  by (auto simp: dataproc_get_client_def and_then_def invoke_def returns_def raises_def of_result_def
      split: sum.splits prod.splits outcome.splits)

lemma dataproc_get_client_invalid_zone:
  "\<not> global_region \<Longrightarrow> get_region_from_zone zone = Inl e \<Longrightarrow>
   dataproc_get_client env zone global_region h = (Raises e, h)"
  by (simp add: dataproc_get_client_def and_then_def of_result_def raises_def)

lemma dataproc_get_client_no_client:
  "global_region \<Longrightarrow> cluster_client_new env h EmptyString = Inl e \<Longrightarrow>
   dataproc_get_client env zone global_region h =
     (Raises e, h @ [(ClusterControllerClient EmptyString, RClient (Inl e))])"
  by (simp add: dataproc_get_client_def and_then_def returns_def invoke_def)

lemma try_finally_history:
  "fst (try_finally body cleanup h) \<noteq> StillRunning \<Longrightarrow>
   fst (body h) \<noteq> StillRunning \<and> snd (try_finally body cleanup h) = snd (cleanup (snd (body h)))"
  by (cases "body h"; cases "cleanup (snd (body h))")
     (auto simp: try_finally_def split: outcome.splits)

lemma main_finally_history:
  "\<exists>r post. snd (main_finally env t project_id region name True spark_file h) =
       h @ (DeleteCluster t project_id region name, RLongRunning r) # post
     \<and> (post = [] \<or> (\<exists>f. post = [(CloseFile f, RNone (Inr ()))]))"
  by (cases spark_file)
     (auto simp: main_finally_def and_then_def delete_cluster_def invoke_def perform_def raises_def
           split: sum.splits)


lemma emits_open_pyspark_file: "emits body_calls (open_pyspark_file env pyspark_file)"
  by (auto simp: open_pyspark_file_def get_pyspark_file_def get_default_pyspark_file_def body_calls_def
      intro!: emits_and_then emits_invoke emits_returns split: option.splits)

lemma emits_main_body:
  "emits body_calls (main_body fuel env c1 c2 project_id zone region name bucket_name cnc spark_file spark_filename)"
  unfolding main_body_def create_cluster_def upload_pyspark_file_def list_clusters_with_details_def
    get_cluster_id_by_name_def submit_pyspark_job_def download_output_def list_clusters_def Let_def
  by (auto intro!: emits_and_then emits_invoke emits_returns emits_raises emits_wait_for_job
        emits_wait_for_cluster_creation emits_of_result simp: body_calls_def split: option.splits)


lemma main_try_cleanup:
  assumes "fst (main_try fuel env c1 c2 project_id zone region name bucket_name pyspark_file True h) \<noteq> StillRunning"
  shows "\<exists>pre r post.
           snd (main_try fuel env c1 c2 project_id zone region name bucket_name pyspark_file True h) =
             h @ pre @ (DeleteCluster c1 project_id region name, RLongRunning r) # post
         \<and> (post = [] \<or> (\<exists>f. post = [(CloseFile f, RNone (Inr ()))]))
         \<and> fst ` set pre \<subseteq> body_calls"
proof -
  obtain es where es: "snd (open_pyspark_file env pyspark_file h) = h @ es" "fst ` set es \<subseteq> body_calls"
    using emitsD [OF emits_open_pyspark_file] by blast
  show ?thesis
  proof (cases "open_pyspark_file env pyspark_file h")
    case (Pair res h1)
    with es have h1: "h1 = h @ es" by simp
    show ?thesis
    proof (cases res)
      case (Returns fn)
      obtain spark_file spark_filename where fn: "fn = (spark_file, spark_filename)"
        by (cases fn)
      let ?body = "main_body fuel env c1 c2 project_id zone region name bucket_name True spark_file spark_filename"
      let ?fin = "main_finally env c1 project_id region name True (Some spark_file)"
      have eq: "main_try fuel env c1 c2 project_id zone region name bucket_name pyspark_file True h =
          try_finally ?body ?fin h1"
        using Pair Returns fn by (simp add: main_try_def)
      obtain fs where fs: "snd (?body h1) = h1 @ fs" "fst ` set fs \<subseteq> body_calls"
        using emitsD [OF emits_main_body] by blast
      have "snd (try_finally ?body ?fin h1) = snd (?fin (h1 @ fs))"
        using try_finally_history [of ?body ?fin h1] assms eq fs by simp
      moreover obtain r post where
        "snd (?fin (h1 @ fs)) = (h1 @ fs) @ (DeleteCluster c1 project_id region name, RLongRunning r) # post"
        "post = [] \<or> (\<exists>f. post = [(CloseFile f, RNone (Inr ()))])"
        using main_finally_history by blast
      ultimately have "snd (main_try fuel env c1 c2 project_id zone region name bucket_name pyspark_file True h) =
             h @ (es @ fs) @ (DeleteCluster c1 project_id region name, RLongRunning r) # post
         \<and> (post = [] \<or> (\<exists>f. post = [(CloseFile f, RNone (Inr ()))]))
         \<and> fst ` set (es @ fs) \<subseteq> body_calls"
        using eq h1 es fs by auto
      then show ?thesis by blast
    next
      case (Raises e)
      let ?fin = "main_finally env c1 project_id region name True None"
      have eq: "main_try fuel env c1 c2 project_id zone region name bucket_name pyspark_file True h =
          try_finally (raises e :: string prog) ?fin h1"
        using Pair Raises by (simp add: main_try_def)
      have "snd (try_finally (raises e :: string prog) ?fin h1) = snd (?fin h1)"
        using try_finally_history [of "raises e :: string prog" ?fin h1] assms eq by (simp add: raises_def)
      moreover obtain r post where
        "snd (?fin h1) = h1 @ (DeleteCluster c1 project_id region name, RLongRunning r) # post"
        "post = [] \<or> (\<exists>f. post = [(CloseFile f, RNone (Inr ()))])"
        using main_finally_history by blast
      ultimately have "snd (main_try fuel env c1 c2 project_id zone region name bucket_name pyspark_file True h) =
             h @ es @ (DeleteCluster c1 project_id region name, RLongRunning r) # post
         \<and> (post = [] \<or> (\<exists>f. post = [(CloseFile f, RNone (Inr ()))]))
         \<and> fst ` set es \<subseteq> body_calls"
        using eq h1 es by auto
      then show ?thesis by blast
    next
      case StillRunning
      with Pair assms show ?thesis by (simp add: main_try_def)
    qed
  qed
qed

lemma emits_main_try_no_cleanup:
  "emits body_calls (main_try fuel env c1 c2 project_id zone region name bucket_name pyspark_file False)"
proof (rule emitsI)
  fix h
  let ?run = "main_try fuel env c1 c2 project_id zone region name bucket_name pyspark_file False"
  obtain es where es: "snd (open_pyspark_file env pyspark_file h) = h @ es" "fst ` set es \<subseteq> body_calls"
    using emitsD [OF emits_open_pyspark_file] by blast
  have fin: "emits body_calls (main_finally env c1 project_id region name False sf)" for sf
    by (simp add: main_finally_def emits_returns)
  show "\<exists>es. snd (?run h) = h @ es \<and> fst ` set es \<subseteq> body_calls"
  proof (cases "open_pyspark_file env pyspark_file h")
    case (Pair res h1)
    with es have h1: "h1 = h @ es" by simp
    show ?thesis
    proof (cases res)
      case (Returns fn)
      obtain spark_file spark_filename where fn: "fn = (spark_file, spark_filename)"
        by (cases fn)
      let ?body = "main_body fuel env c1 c2 project_id zone region name bucket_name False spark_file spark_filename"
      let ?fin = "main_finally env c1 project_id region name False (Some spark_file)"
      have eq: "?run h = try_finally ?body ?fin h1"
        using Pair Returns fn by (simp add: main_try_def)
      obtain fs where fs: "snd (try_finally ?body ?fin h1) = h1 @ fs" "fst ` set fs \<subseteq> body_calls"
        using emitsD [OF emits_try_finally [OF emits_main_body fin]] by blast
      have "snd (?run h) = h @ (es @ fs) \<and> fst ` set (es @ fs) \<subseteq> body_calls"
        using eq h1 es fs by auto
      then show ?thesis by blast
    next
      case (Raises e)
      let ?fin = "main_finally env c1 project_id region name False None"
      have eq: "?run h = try_finally (raises e :: string prog) ?fin h1"
        using Pair Raises by (simp add: main_try_def)
      obtain fs where fs: "snd (try_finally (raises e :: string prog) ?fin h1) = h1 @ fs" "fst ` set fs \<subseteq> body_calls"
        using emitsD [OF emits_try_finally [OF emits_raises fin, of e]] by blast
      have "snd (?run h) = h @ (es @ fs) \<and> fst ` set (es @ fs) \<subseteq> body_calls"
        using eq h1 es fs by auto
      then show ?thesis by blast
    next
      case StillRunning
      with Pair h1 es show ?thesis by (auto simp: main_try_def)
    qed
  qed
qed

text \<open>
  C10 (as amended). Cleanup in \<open>main\<close> is gated on \<open>create_new_cluster\<close> and on
  reaching the \<open>try\<close> block. When the flag is true and the statements before the
  \<open>try\<close> block returned (the region, the transports and the two clients), every run of
  \<open>main\<close> that ends (by returning or by raising, whatever step of the \<open>try\<close> block
  raised) has called \<open>delete_cluster\<close> for the named cluster exactly once, after every
  other call and followed at most by the \<open>close\<close> of the PySpark file. An exception
  raised before the \<open>try\<close> block (by \<open>get_region_from_zone\<close> on a zone that is not a
  string, or by a transport or client constructor) leaves \<open>main\<close> as it is, with no
  call of \<open>delete_cluster\<close>. When the flag is false, no run calls \<open>delete_cluster\<close> or
  \<open>spark_file.close()\<close>: the file that was opened is never closed on that path. The
  claim as stated has \<open>delete_cluster\<close> on every exit path of \<open>main\<close>.
\<close>

theorem main_cleanup_gated:
  "(create_new_cluster
      \<and> dataproc_get_client env zone global_region h = (Returns (region, cluster_client, job_client), h0)
      \<and> fst (main fuel env project_id zone name bucket_name pyspark_file create_new_cluster global_region h)
            \<noteq> StillRunning \<longrightarrow>
      (\<exists>pre r post.
          snd (main fuel env project_id zone name bucket_name pyspark_file create_new_cluster global_region h) =
            h @ pre @ (DeleteCluster cluster_client project_id region name, RLongRunning r) # post
        \<and> (post = [] \<or> (\<exists>f. post = [(CloseFile f, RNone (Inr ()))]))
        \<and> (\<forall>c \<in> fst ` set pre. \<not> is_DeleteCluster c \<and> \<not> is_CloseFile c)))
   \<and> (dataproc_get_client env zone global_region h = (Raises e, h0) \<longrightarrow>
      main fuel env project_id zone name bucket_name pyspark_file create_new_cluster global_region h =
        (Raises e, h0)
      \<and> (\<exists>es. h0 = h @ es \<and> (\<forall>c \<in> fst ` set es. \<not> is_DeleteCluster c \<and> \<not> is_CloseFile c)))
   \<and> fst (dataproc_get_client env zone global_region h) \<noteq> StillRunning
   \<and> (\<not> global_region \<and> get_region_from_zone zone = Inl e \<longrightarrow>
      main fuel env project_id zone name bucket_name pyspark_file create_new_cluster global_region h =
        (Raises e, h))
   \<and> (global_region \<and> cluster_client_new env h EmptyString = Inl e \<longrightarrow>
      main fuel env project_id zone name bucket_name pyspark_file create_new_cluster global_region h =
        (Raises e, h @ [(ClusterControllerClient EmptyString, RClient (Inl e))]))
   \<and> (\<not> create_new_cluster \<longrightarrow>
      (\<exists>es. snd (main fuel env project_id zone name bucket_name pyspark_file create_new_cluster global_region h) = h @ es
        \<and> (\<forall>c \<in> fst ` set es. \<not> is_DeleteCluster c \<and> \<not> is_CloseFile c)))"
proof -
  let ?run = "main fuel env project_id zone name bucket_name pyspark_file create_new_cluster global_region h"
  let ?pre = "dataproc_get_client env zone global_region"
  have body_calls_D: "\<forall>c \<in> fst ` set es. \<not> is_DeleteCluster c \<and> \<not> is_CloseFile c"
    if "fst ` set es \<subseteq> body_calls" for es :: history
    using that by (auto simp: body_calls_def)
  obtain ps where ps: "snd (?pre h) = h @ ps" "fst ` set ps \<subseteq> body_calls"
    using emitsD [OF emits_dataproc_get_client] by blast
  have a: "\<exists>pre r post.
          snd ?run = h @ pre @ (DeleteCluster cluster_client project_id region name, RLongRunning r) # post
        \<and> (post = [] \<or> (\<exists>f. post = [(CloseFile f, RNone (Inr ()))]))
        \<and> (\<forall>c \<in> fst ` set pre. \<not> is_DeleteCluster c \<and> \<not> is_CloseFile c)"
    if c: "create_new_cluster"
      and got: "?pre h = (Returns (region, cluster_client, job_client), h0)"
      and run: "fst ?run \<noteq> StillRunning"
  proof -
    have eq: "?run = main_try fuel env cluster_client job_client project_id zone region name bucket_name
        pyspark_file True h0"
      using main_run [OF got] c by simp
    have h0: "h0 = h @ ps" using ps(1) got by simp
    have "fst (main_try fuel env cluster_client job_client project_id zone region name bucket_name
        pyspark_file True h0) \<noteq> StillRunning"
      using run eq by simp
    from main_try_cleanup [OF this] obtain pre r post where
      p: "snd (main_try fuel env cluster_client job_client project_id zone region name bucket_name
             pyspark_file True h0) =
             h0 @ pre @ (DeleteCluster cluster_client project_id region name, RLongRunning r) # post"
         "post = [] \<or> (\<exists>f. post = [(CloseFile f, RNone (Inr ()))])"
         "fst ` set pre \<subseteq> body_calls"
      by blast
    have "snd ?run = h @ (ps @ pre) @ (DeleteCluster cluster_client project_id region name, RLongRunning r) # post"
      using p(1) eq h0 by simp
    moreover have "fst ` set (ps @ pre) \<subseteq> body_calls"
      using ps(2) p(3) by auto
    ultimately show ?thesis
      using p(2) body_calls_D by blast
  qed
  have b: "?run = (Raises e, h0)
      \<and> (\<exists>es. h0 = h @ es \<and> (\<forall>c \<in> fst ` set es. \<not> is_DeleteCluster c \<and> \<not> is_CloseFile c))"
    if got: "?pre h = (Raises e, h0)"
  proof -
    have "h0 = h @ ps" using ps(1) got by simp
    then show ?thesis
      using main_raises_before_try [OF got] body_calls_D [OF ps(2)] by blast
  qed
  have z: "?run = (Raises e, h)" if "\<not> global_region" "get_region_from_zone zone = Inl e"
    using main_raises_before_try [OF dataproc_get_client_invalid_zone [OF that]] by simp
  have n: "?run = (Raises e, h @ [(ClusterControllerClient EmptyString, RClient (Inl e))])"
    if "global_region" "cluster_client_new env h EmptyString = Inl e"
    using main_raises_before_try [OF dataproc_get_client_no_client [OF that]] by simp
  have d: "\<exists>es. snd ?run = h @ es \<and> (\<forall>c \<in> fst ` set es. \<not> is_DeleteCluster c \<and> \<not> is_CloseFile c)"
    if c: "\<not> create_new_cluster"
  proof -
    have "emits body_calls (main fuel env project_id zone name bucket_name pyspark_file False global_region)"
      unfolding main_def
      by (intro emits_and_then emits_dataproc_get_client) (auto intro: emits_main_try_no_cleanup)
    then obtain es where "snd ?run = h @ es" "fst ` set es \<subseteq> body_calls"
      using emitsD c by fastforce
    then show ?thesis using body_calls_D by blast
  qed
  show ?thesis
    apply (intro conjI impI)
    subgoal using a by blast
    subgoal using b by blast
    subgoal using b by blast
    subgoal by (rule dataproc_get_client_ends)
    subgoal using z by blast
    subgoal using n by blast
    subgoal using d by blast
    done
qed

lemmas run_defs =
  main_def dataproc_get_client_def main_try_def main_body_def main_finally_def open_pyspark_file_def
  get_default_pyspark_file_def get_pyspark_file_def upload_pyspark_file_def download_output_def
  create_cluster_def list_clusters_def list_clusters_with_details_def get_cluster_id_by_name_def
  submit_pyspark_job_def delete_cluster_def get_job_def
  and_then_def try_finally_def invoke_def perform_def returns_def raises_def of_result_def
  path_join_def path_basename_def DEFAULT_FILENAME_def format_value_def
  get_region_from_zone_def zone_split_def

lemmas env_defs =
  example_env_def example_cluster_def example_job_def count_calls_def
  env_ok_def env_job_error_def env_unavailable_def env_no_file_def env_unnamed_def enum_names

lemma main_no_file_run:
  "main 3 env_no_file ''proj'' (PyStr ''us-central1-a'') ''c1'' ''bkt'' None True True [] =
     (Raises UnboundLocalError,
      [(ClusterControllerClient EmptyString, RClient (Inr (Client ''cluster''))),
       (JobControllerClient EmptyString, RClient (Inr (Client ''job''))),
       (OpenFile ''/samples/dataproc/pyspark_sort.py'', RFile (Inl (OSError ''No such file or directory''))),
       (DeleteCluster (Client ''cluster'') ''proj'' ''global'' ''c1'', RLongRunning (Inr (LongRunning ''delete'')))])"
  by (simp add: run_defs env_defs)

lemma main_no_file_existing_run:
  "main 3 env_no_file ''proj'' (PyStr ''us-central1-a'') ''c1'' ''bkt'' None False True [] =
     (Raises (OSError ''No such file or directory''),
      [(ClusterControllerClient EmptyString, RClient (Inr (Client ''cluster''))),
       (JobControllerClient EmptyString, RClient (Inr (Client ''job''))),
       (OpenFile ''/samples/dataproc/pyspark_sort.py'', RFile (Inl (OSError ''No such file or directory'')))])"
  by (simp add: run_defs env_defs)

lemma dataproc_get_client_global_run:
  "dataproc_get_client env_no_file (PyStr ''us-central1-a'') True [] =
     (Returns (''global'', Client ''cluster'', Client ''job''),
      [(ClusterControllerClient EmptyString, RClient (Inr (Client ''cluster''))),
       (JobControllerClient EmptyString, RClient (Inr (Client ''job'')))])"
  by (simp add: run_defs env_defs)

theorem main_cleanup_gated_witness:
  "fst (main 3 env_no_file ''proj'' (PyStr ''us-central1-a'') ''c1'' ''bkt'' None True True []) =
       Raises UnboundLocalError
   \<and> (\<exists>pre r post.
          snd (main 3 env_no_file ''proj'' (PyStr ''us-central1-a'') ''c1'' ''bkt'' None True True []) =
            [] @ pre @ (DeleteCluster (Client ''cluster'') ''proj'' ''global'' ''c1'', RLongRunning r) # post
        \<and> (post = [] \<or> (\<exists>f. post = [(CloseFile f, RNone (Inr ()))]))
        \<and> (\<forall>c \<in> fst ` set pre. \<not> is_DeleteCluster c \<and> \<not> is_CloseFile c))
   \<and> fst (main 3 env_no_file ''proj'' (PyStr ''us-central1-a'') ''c1'' ''bkt'' None False True []) =
        Raises (OSError ''No such file or directory'')
   \<and> (\<exists>es. snd (main 3 env_no_file ''proj'' (PyStr ''us-central1-a'') ''c1'' ''bkt'' None False True []) = [] @ es
        \<and> (\<forall>c \<in> fst ` set es. \<not> is_DeleteCluster c \<and> \<not> is_CloseFile c))
   \<and> get_region_from_zone PyNone = Inl (ValueError ''Invalid zone provided, please check your input.'')
   \<and> main 3 env_no_file ''proj'' PyNone ''c1'' ''bkt'' None True False [] =
        (Raises (ValueError ''Invalid zone provided, please check your input.''), [])"
proof -
  note t = main_cleanup_gated [where fuel = 3 and env = env_no_file and project_id = "''proj''"
      and name = "''c1''" and bucket_name = "''bkt''" and pyspark_file = None and h = "[]"]
  have r1: "fst (main 3 env_no_file ''proj'' (PyStr ''us-central1-a'') ''c1'' ''bkt'' None True True []) = Raises UnboundLocalError"
    by (simp add: main_no_file_run)
  then have "fst (main 3 env_no_file ''proj'' (PyStr ''us-central1-a'') ''c1'' ''bkt'' None True True []) \<noteq> StillRunning"
    by simp
  then have c1: "\<exists>pre r post.
          snd (main 3 env_no_file ''proj'' (PyStr ''us-central1-a'') ''c1'' ''bkt'' None True True []) =
            [] @ pre @ (DeleteCluster (Client ''cluster'') ''proj'' ''global'' ''c1'', RLongRunning r) # post
        \<and> (post = [] \<or> (\<exists>f. post = [(CloseFile f, RNone (Inr ()))]))
        \<and> (\<forall>c \<in> fst ` set pre. \<not> is_DeleteCluster c \<and> \<not> is_CloseFile c)"
    using t [where create_new_cluster = True and zone = "PyStr ''us-central1-a''" and global_region = True
        and region = "''global''" and cluster_client = "Client ''cluster''" and job_client = "Client ''job''",
        THEN conjunct1] dataproc_get_client_global_run
    by blast
  have r2: "fst (main 3 env_no_file ''proj'' (PyStr ''us-central1-a'') ''c1'' ''bkt'' None False True []) =
        Raises (OSError ''No such file or directory'')"
    by (simp add: main_no_file_existing_run)
  have c2: "\<exists>es. snd (main 3 env_no_file ''proj'' (PyStr ''us-central1-a'') ''c1'' ''bkt'' None False True []) = [] @ es
        \<and> (\<forall>c \<in> fst ` set es. \<not> is_DeleteCluster c \<and> \<not> is_CloseFile c)"
    using t [where create_new_cluster = False and zone = "PyStr ''us-central1-a''" and global_region = True,
        THEN conjunct2, THEN conjunct2, THEN conjunct2, THEN conjunct2, THEN conjunct2]
    by blast
  have z: "get_region_from_zone PyNone = Inl (ValueError ''Invalid zone provided, please check your input.'')"
    by (simp add: get_region_from_zone_def zone_split_def)
  have c3: "main 3 env_no_file ''proj'' PyNone ''c1'' ''bkt'' None True False [] =
        (Raises (ValueError ''Invalid zone provided, please check your input.''), [])"
    using t [where create_new_cluster = True and zone = PyNone and global_region = False
        and e = "ValueError ''Invalid zone provided, please check your input.''",
        THEN conjunct2, THEN conjunct2, THEN conjunct2, THEN conjunct1] z
    by blast
  from r1 c1 r2 c2 z c3 show ?thesis by blast
qed

theorem main_raises_before_try_counterexample:
  "main 3 env_ok ''proj'' PyNone ''c1'' ''bkt'' None True False [] =
     (Raises (ValueError ''Invalid zone provided, please check your input.''), [])
   \<and> \<not> list_ex is_DeleteCluster
         (map fst (snd (main 3 env_ok ''proj'' PyNone ''c1'' ''bkt'' None True False [])))
   \<and> main 3 env_unauthenticated ''proj'' (PyStr ''us-central1-a'') ''c1'' ''bkt'' None True True [] =
     (Raises (DefaultCredentialsError ''Could not automatically determine credentials.''),
      [(ClusterControllerClient EmptyString,
        RClient (Inl (DefaultCredentialsError ''Could not automatically determine credentials.'')))])
   \<and> \<not> list_ex is_DeleteCluster
         (map fst (snd (main 3 env_unauthenticated ''proj'' (PyStr ''us-central1-a'') ''c1'' ''bkt'' None True True [])))"
  by (simp add: run_defs env_defs env_unauthenticated_def)
subsection \<open>get_cluster_id_by_name\<close>

lemma first_cluster_named_none:
  "(\<forall>x \<in> set cs. cluster_name x \<noteq> name) \<Longrightarrow> first_cluster_named name cs = None"
  by (induction cs) auto

lemma first_cluster_named_first:
  "(\<forall>x \<in> set pre. cluster_name x \<noteq> name) \<Longrightarrow> cluster_name c = name \<Longrightarrow>
   first_cluster_named name (pre @ c # post) = Some (cluster_uuid c, config_bucket c)"
  by (induction pre) auto

lemma get_cluster_id_by_name_run:
  "list_clusters_rpc env h d p r = Inr cs \<Longrightarrow>
   get_cluster_id_by_name env d p r name h =
     (Returns (first_cluster_named name cs), h @ [(ListClusters d p r, RClusters (Inr cs))])"
  by (simp add: get_cluster_id_by_name_def and_then_def list_clusters_run returns_def)

lemma main_try_absent:
  assumes opened: "open_pyspark_file env pyspark_file h0 = (Returns (f, fname), h1)"
      and uploaded: "upload_pyspark_file env project_id bucket_name fname f h1 = (Returns (), h2)"
      and listed: "list_clusters_with_details env t project_id region h2 = (Returns (), h3)"
      and looked: "list_clusters_rpc env h3 t project_id region = Inr cs"
      and absent: "\<forall>x \<in> set cs. cluster_name x \<noteq> name"
  shows "main_try fuel env t t2 project_id zone region name bucket_name pyspark_file False h0 =
           (Raises TypeError, h3 @ [(ListClusters t project_id region, RClusters (Inr cs))])"
proof -
  let ?h4 = "h3 @ [(ListClusters t project_id region, RClusters (Inr cs))]"
  have look: "get_cluster_id_by_name env t project_id region name h3 = (Returns None, ?h4)"
    using get_cluster_id_by_name_run [OF looked, of name] first_cluster_named_none [OF absent] by simp
  have body: "main_body fuel env t t2 project_id zone region name bucket_name False f fname h1 =
      (Raises TypeError, ?h4)"
    using uploaded listed look
    by (simp add: main_body_def and_then_def returns_def raises_def)
  show ?thesis
    using opened body
    by (simp add: main_try_def try_finally_def main_finally_def returns_def)
qed


text \<open>
  C9. \<open>get_cluster_id_by_name\<close> returns the pair \<open>(cluster_uuid, config_bucket)\<close> of
  the first cluster of the \<open>list_clusters\<close> result whose \<open>cluster_name\<close> is the given
  name, and None when no listed cluster has that name. Consequently, when \<open>main\<close> uses
  an existing cluster, the steps before the lookup succeed and the listing of the lookup
  has no cluster of that name, the tuple assignment in \<open>main\<close> raises TypeError: \<open>main\<close>
  ends with that exception right after the listing of the lookup, and no job is submitted.
\<close>

theorem get_cluster_id_by_name_first_or_none:
  "(list_clusters_rpc env h d p r = Inr (pre @ c # post)
      \<and> (\<forall>x \<in> set pre. cluster_name x \<noteq> name) \<and> cluster_name c = name \<longrightarrow>
      get_cluster_id_by_name env d p r name h =
        (Returns (Some (cluster_uuid c, config_bucket c)),
         h @ [(ListClusters d p r, RClusters (Inr (pre @ c # post)))]))
   \<and> (list_clusters_rpc env h d p r = Inr cs \<and> (\<forall>x \<in> set cs. cluster_name x \<noteq> name) \<longrightarrow>
      get_cluster_id_by_name env d p r name h =
        (Returns None, h @ [(ListClusters d p r, RClusters (Inr cs))]))
   \<and> (dataproc_get_client env zone global_region h0 = (Returns (region, cluster_client, job_client), h1)
      \<and> open_pyspark_file env pyspark_file h1 = (Returns (f, fname), h2)
      \<and> upload_pyspark_file env project_id bucket_name fname f h2 = (Returns (), h3)
      \<and> list_clusters_with_details env cluster_client project_id region h3 = (Returns (), h4)
      \<and> list_clusters_rpc env h4 cluster_client project_id region = Inr cs
      \<and> (\<forall>x \<in> set cs. cluster_name x \<noteq> name) \<longrightarrow>
      main fuel env project_id zone name bucket_name pyspark_file False global_region h0 =
        (Raises TypeError, h4 @ [(ListClusters cluster_client project_id region, RClusters (Inr cs))]))"
proof -
  have a: "get_cluster_id_by_name env d p r name h =
        (Returns (Some (cluster_uuid c, config_bucket c)),
         h @ [(ListClusters d p r, RClusters (Inr (pre @ c # post)))])"
    if "list_clusters_rpc env h d p r = Inr (pre @ c # post)"
       "\<forall>x \<in> set pre. cluster_name x \<noteq> name" "cluster_name c = name"
    using get_cluster_id_by_name_run [OF that(1), of name] first_cluster_named_first [OF that(2,3)]
    by simp
  have b: "get_cluster_id_by_name env d p r name h =
        (Returns None, h @ [(ListClusters d p r, RClusters (Inr cs))])"
    if "list_clusters_rpc env h d p r = Inr cs" "\<forall>x \<in> set cs. cluster_name x \<noteq> name"
    using get_cluster_id_by_name_run [OF that(1), of name] first_cluster_named_none [OF that(2)]
    by simp
  have c: "main fuel env project_id zone name bucket_name pyspark_file False global_region h0 =
        (Raises TypeError, h4 @ [(ListClusters cluster_client project_id region, RClusters (Inr cs))])"
    if "dataproc_get_client env zone global_region h0 = (Returns (region, cluster_client, job_client), h1)"
       "open_pyspark_file env pyspark_file h1 = (Returns (f, fname), h2)"
       "upload_pyspark_file env project_id bucket_name fname f h2 = (Returns (), h3)"
       "list_clusters_with_details env cluster_client project_id region h3 = (Returns (), h4)"
       "list_clusters_rpc env h4 cluster_client project_id region = Inr cs"
       "\<forall>x \<in> set cs. cluster_name x \<noteq> name"
    using main_run [OF that(1)] main_try_absent [OF that(2-6), of fuel job_client zone] by simp
  from a b c show ?thesis by blast
qed

theorem get_cluster_id_by_name_first_or_none_witness:
  "get_cluster_id_by_name env_ok (Client ''cluster'') ''proj'' ''global'' ''c1'' [] =
     (Returns (Some (''uuid-1'', ''staging'')),
      [(ListClusters (Client ''cluster'') ''proj'' ''global'', RClusters (Inr [example_cluster 1]))])
   \<and> get_cluster_id_by_name env_absent (Client ''cluster'') ''proj'' ''global'' ''c1'' [] =
     (Returns None,
      [(ListClusters (Client ''cluster'') ''proj'' ''global'',
        RClusters (Inr [(example_cluster 2)\<lparr>cluster_name := ''other''\<rparr>]))])
   \<and> main 3 env_absent ''proj'' (PyStr ''us-central1-a'') ''c1'' ''bkt'' None False True [] =
     (Raises TypeError,
      [(ClusterControllerClient EmptyString, RClient (Inr (Client ''cluster''))),
       (JobControllerClient EmptyString, RClient (Inr (Client ''job''))),
       (OpenFile ''/samples/dataproc/pyspark_sort.py'', RFile (Inr (FileObj 3))),
       (StorageClient ''proj'', RStorage (Inr (Storage ''proj''))),
       (GetBucket (Storage ''proj'') ''bkt'', RBucket (Inr (Bucket ''bkt''))),
       (UploadFromFile (Bucket ''bkt'') ''pyspark_sort.py'' (FileObj 3), RNone (Inr ())),
       (ListClusters (Client ''cluster'') ''proj'' ''global'',
        RClusters (Inr [(example_cluster 2)\<lparr>cluster_name := ''other''\<rparr>])),
       (ListClusters (Client ''cluster'') ''proj'' ''global'',
        RClusters (Inr [(example_cluster 2)\<lparr>cluster_name := ''other''\<rparr>]))])"
proof -
  let ?cc = "Client ''cluster''"
  let ?other = "(example_cluster 2)\<lparr>cluster_name := ''other''\<rparr>"
  let ?h1 = "[(ClusterControllerClient EmptyString, RClient (Inr (Client ''cluster''))),
       (JobControllerClient EmptyString, RClient (Inr (Client ''job'')))]"
  let ?h2 = "?h1 @ [(OpenFile ''/samples/dataproc/pyspark_sort.py'', RFile (Inr (FileObj 3)))]"
  let ?h3 = "?h2 @ [(StorageClient ''proj'', RStorage (Inr (Storage ''proj''))),
       (GetBucket (Storage ''proj'') ''bkt'', RBucket (Inr (Bucket ''bkt''))),
       (UploadFromFile (Bucket ''bkt'') ''pyspark_sort.py'' (FileObj 3), RNone (Inr ()))]"
  let ?h4 = "?h3 @ [(ListClusters ?cc ''proj'' ''global'', RClusters (Inr [?other]))]"
  have l1: "list_clusters_rpc env_ok [] ?cc ''proj'' ''global'' = Inr ([] @ example_cluster 1 # [])"
    by (simp add: env_defs)
  have n1: "\<forall>x \<in> set []. cluster_name x \<noteq> ''c1''" by simp
  have m1: "cluster_name (example_cluster 1) = ''c1''" by (simp add: env_defs)
  have l2: "list_clusters_rpc env_absent [] ?cc ''proj'' ''global'' = Inr [?other]"
    by (simp add: env_defs env_absent_def)
  have n2: "\<forall>x \<in> set [?other]. cluster_name x \<noteq> ''c1''" by simp
  have g: "dataproc_get_client env_absent (PyStr ''us-central1-a'') True [] =
      (Returns (''global'', ?cc, Client ''job''), ?h1)"
    by (simp add: run_defs env_defs env_absent_def)
  have o: "open_pyspark_file env_absent None ?h1 = (Returns (FileObj 3, ''pyspark_sort.py''), ?h2)"
    by (simp add: run_defs env_defs env_absent_def)
  have u: "upload_pyspark_file env_absent ''proj'' ''bkt'' ''pyspark_sort.py'' (FileObj 3) ?h2 = (Returns (), ?h3)"
    by (simp add: run_defs env_defs env_absent_def)
  have l3: "list_clusters_with_details env_absent ?cc ''proj'' ''global'' ?h3 = (Returns (), ?h4)"
    by (simp add: run_defs env_defs env_absent_def)
  have l4: "list_clusters_rpc env_absent ?h4 ?cc ''proj'' ''global'' = Inr [?other]"
    by (simp add: env_defs env_absent_def)
  note t = get_cluster_id_by_name_first_or_none
  have "get_cluster_id_by_name env_ok ?cc ''proj'' ''global'' ''c1'' [] =
     (Returns (Some (cluster_uuid (example_cluster 1), config_bucket (example_cluster 1))),
      [] @ [(ListClusters ?cc ''proj'' ''global'', RClusters (Inr ([] @ example_cluster 1 # [])))])"
    using t [THEN conjunct1] l1 n1 m1 by blast
  moreover have "get_cluster_id_by_name env_absent ?cc ''proj'' ''global'' ''c1'' [] =
     (Returns None, [] @ [(ListClusters ?cc ''proj'' ''global'', RClusters (Inr [?other]))])"
    using t [THEN conjunct2, THEN conjunct1] l2 n2 by blast
  moreover have "main 3 env_absent ''proj'' (PyStr ''us-central1-a'') ''c1'' ''bkt'' None False True [] =
     (Raises TypeError, ?h4 @ [(ListClusters ?cc ''proj'' ''global'', RClusters (Inr [?other]))])"
    using t [where global_region = True and region = "''global''" and cluster_client = ?cc
        and job_client = "Client ''job''" and env = env_absent
        and pyspark_file = None and ?h0.0 = "[]" and f = "FileObj 3" and fname = "''pyspark_sort.py''"
        and ?h1.0 = ?h1 and ?h2.0 = ?h2 and ?h3.0 = ?h3 and ?h4.0 = ?h4 and project_id = "''proj''"
        and bucket_name = "''bkt''" and cs = "[?other]" and name = "''c1''" and fuel = 3
        and zone = "PyStr ''us-central1-a''", THEN conjunct2, THEN conjunct2]
      g o u l3 l4 n2
    by simp
  ultimately show ?thesis by (simp add: example_cluster_def)
qed

section \<open>Properties of the Service Directory snippets\<close>

lemma Endpoint_in_range:
  "- 2147483648 \<le> port \<Longrightarrow> port \<le> 2147483647 \<Longrightarrow>
   Endpoint name address port =
     Inr \<lparr>endpoint_name = name, endpoint_address = address, endpoint_port = port\<rparr>"
  by (simp add: Endpoint_def)

lemma Endpoint_out_of_range:
  "port < - 2147483648 \<or> 2147483647 < port \<Longrightarrow>
   Endpoint name address port = Inl (ValueError (''Value out of range: '' @ str_int port))"
  by (auto simp: Endpoint_def)

lemma create_namespace_run:
  assumes "registration_client_new env h = Inr client"
  shows "create_namespace env project_id location_id namespace_id h =
     (let parent = ''projects/'' @ project_id @ ''/locations/'' @ location_id;
          ns = \<lparr>namespace_name = parent @ ''/namespaces/'' @ namespace_id\<rparr>;
          h1 = h @ [(RegistrationServiceClient, RClient (Inr client))];
          r = create_namespace_rpc env h1 client parent ns namespace_id
      in (case r of
            Inl e \<Rightarrow> (Raises e, h1 @ [(CreateNamespace client parent ns namespace_id, RNamespace r)])
          | Inr response \<Rightarrow>
              (Returns response,
               h1 @ [(CreateNamespace client parent ns namespace_id, RNamespace r),
                     (Print (''Created namespace '' @ namespace_name response @ ''.''), RNone (Inr ()))])))"
  using assms
  by (simp add: create_namespace_def Let_def and_then_def invoke_def perform_def returns_def
      split: sum.splits)

lemma create_service_run:
  assumes "registration_client_new env h = Inr client"
  shows "create_service env project_id location_id namespace_id service_id h =
     (let parent = ''projects/'' @ project_id @ ''/locations/'' @ location_id @ ''/namespaces/'' @ namespace_id;
          svc = \<lparr>service_name = parent @ ''/services/'' @ service_id\<rparr>;
          h1 = h @ [(RegistrationServiceClient, RClient (Inr client))];
          r = create_service_rpc env h1 client parent svc service_id
      in (case r of
            Inl e \<Rightarrow> (Raises e, h1 @ [(CreateService client parent svc service_id, RService r)])
          | Inr response \<Rightarrow>
              (Returns response,
               h1 @ [(CreateService client parent svc service_id, RService r),
                     (Print (''Created service '' @ service_name response @ ''.''), RNone (Inr ()))])))"
  using assms
  by (simp add: create_service_def Let_def and_then_def invoke_def perform_def returns_def
      split: sum.splits)

lemma create_endpoint_run:
  assumes "registration_client_new env h = Inr client"
      and "- 2147483648 \<le> port" and "port \<le> 2147483647"
  shows "create_endpoint env project_id location_id namespace_id service_id endpoint_id address port h =
     (let parent = ''projects/'' @ project_id @ ''/locations/'' @ location_id @ ''/namespaces/'' @ namespace_id
                   @ ''/services/'' @ service_id;
          ep = \<lparr>endpoint_name = parent @ ''/endpoints/'' @ endpoint_id,
                endpoint_address = address, endpoint_port = port\<rparr>;
          h1 = h @ [(RegistrationServiceClient, RClient (Inr client))];
          r = create_endpoint_rpc env h1 client parent ep endpoint_id
      in (case r of
            Inl e \<Rightarrow> (Raises e, h1 @ [(CreateEndpoint client parent ep endpoint_id, REndpoint r)])
          | Inr response \<Rightarrow>
              (Returns response,
               h1 @ [(CreateEndpoint client parent ep endpoint_id, REndpoint r),
                     (Print (''Created endpoint '' @ endpoint_name response @ ''.''), RNone (Inr ()))])))"
  using assms(1)
  by (simp add: create_endpoint_def Endpoint_in_range [OF assms(2,3)] Let_def and_then_def invoke_def
      perform_def returns_def of_result_def split: sum.splits)

lemma create_endpoint_out_of_range:
  assumes "registration_client_new env h = Inr client"
      and "port < - 2147483648 \<or> 2147483647 < port"
  shows "create_endpoint env project_id location_id namespace_id service_id endpoint_id address port h =
     (Raises (ValueError (''Value out of range: '' @ str_int port)),
      h @ [(RegistrationServiceClient, RClient (Inr client))])"
  using assms(1)
  by (simp add: create_endpoint_def Endpoint_out_of_range [OF assms(2)] and_then_def invoke_def
      of_result_def raises_def)

lemma create_no_client:
  assumes "registration_client_new env h = Inl e"
  shows "create_namespace env project_id location_id namespace_id h =
           (Raises e, h @ [(RegistrationServiceClient, RClient (Inl e))])"
    and "create_service env project_id location_id namespace_id service_id h =
           (Raises e, h @ [(RegistrationServiceClient, RClient (Inl e))])"
    and "create_endpoint env project_id location_id namespace_id service_id endpoint_id address port h =
           (Raises e, h @ [(RegistrationServiceClient, RClient (Inl e))])"
  using assms
  by (simp_all add: create_namespace_def create_service_def create_endpoint_def and_then_def invoke_def)

text \<open>
  C5 (as amended). Each registration function of \<open>servicedirectory/snippets.py\<close> is a
  thin wrapper around one call. Once its registration client is constructed, and for
  \<open>create_endpoint\<close> when \<open>port\<close> fits a signed 32-bit integer, \<open>create_namespace\<close>,
  \<open>create_service\<close> and \<open>create_endpoint\<close> issue exactly one create RPC on that
  client, with the parent and the resource name built as \<open>projects/{p}/locations/{l}/...\<close>
  from the arguments, and nothing else but a \<open>print\<close>; they return the response of that
  RPC unchanged (and raise what it raises). With a \<open>port\<close> outside that range
  \<open>create_endpoint\<close> raises the ValueError of the \<open>Endpoint\<close> constructor and issues no
  RPC; when the constructor of the client raises, no function issues an RPC. The claim as
  stated has exactly one RPC for every input.
\<close>

theorem create_functions_single_rpc:
  "(registration_client_new env h = Inr client \<longrightarrow>
     (let parent = ''projects/'' @ project_id @ ''/locations/'' @ location_id;
          ns = \<lparr>namespace_name = parent @ ''/namespaces/'' @ namespace_id\<rparr>;
          h1 = h @ [(RegistrationServiceClient, RClient (Inr client))];
          r = create_namespace_rpc env h1 client parent ns namespace_id
      in (\<exists>es. snd (create_namespace env project_id location_id namespace_id h) = h1 @ es
            \<and> sdk_events es = [(CreateNamespace client parent ns namespace_id, RNamespace r)])
         \<and> fst (create_namespace env project_id location_id namespace_id h) =
             (case r of Inl e \<Rightarrow> Raises e | Inr response \<Rightarrow> Returns response)))
   \<and> (registration_client_new env h = Inr client \<longrightarrow>
     (let parent = ''projects/'' @ project_id @ ''/locations/'' @ location_id @ ''/namespaces/'' @ namespace_id;
          svc = \<lparr>service_name = parent @ ''/services/'' @ service_id\<rparr>;
          h1 = h @ [(RegistrationServiceClient, RClient (Inr client))];
          r = create_service_rpc env h1 client parent svc service_id
      in (\<exists>es. snd (create_service env project_id location_id namespace_id service_id h) = h1 @ es
            \<and> sdk_events es = [(CreateService client parent svc service_id, RService r)])
         \<and> fst (create_service env project_id location_id namespace_id service_id h) =
             (case r of Inl e \<Rightarrow> Raises e | Inr response \<Rightarrow> Returns response)))
   \<and> (registration_client_new env h = Inr client \<and> - 2147483648 \<le> port \<and> port \<le> 2147483647 \<longrightarrow>
     (let parent = ''projects/'' @ project_id @ ''/locations/'' @ location_id @ ''/namespaces/'' @ namespace_id
                   @ ''/services/'' @ service_id;
          ep = \<lparr>endpoint_name = parent @ ''/endpoints/'' @ endpoint_id,
                endpoint_address = address, endpoint_port = port\<rparr>;
          h1 = h @ [(RegistrationServiceClient, RClient (Inr client))];
          r = create_endpoint_rpc env h1 client parent ep endpoint_id
      in (\<exists>es. snd (create_endpoint env project_id location_id namespace_id service_id endpoint_id
                       address port h) = h1 @ es
            \<and> sdk_events es = [(CreateEndpoint client parent ep endpoint_id, REndpoint r)])
         \<and> fst (create_endpoint env project_id location_id namespace_id service_id endpoint_id
                   address port h) =
             (case r of Inl e \<Rightarrow> Raises e | Inr response \<Rightarrow> Returns response)))
   \<and> (registration_client_new env h = Inr client \<and> (port < - 2147483648 \<or> 2147483647 < port) \<longrightarrow>
        create_endpoint env project_id location_id namespace_id service_id endpoint_id address port h =
          (Raises (ValueError (''Value out of range: '' @ str_int port)),
           h @ [(RegistrationServiceClient, RClient (Inr client))]))
   \<and> (registration_client_new env h = Inl e \<longrightarrow>
        create_namespace env project_id location_id namespace_id h =
          (Raises e, h @ [(RegistrationServiceClient, RClient (Inl e))])
        \<and> create_service env project_id location_id namespace_id service_id h =
          (Raises e, h @ [(RegistrationServiceClient, RClient (Inl e))])
        \<and> create_endpoint env project_id location_id namespace_id service_id endpoint_id address port h =
          (Raises e, h @ [(RegistrationServiceClient, RClient (Inl e))]))"
proof -
  have n: "(let parent = ''projects/'' @ project_id @ ''/locations/'' @ location_id;
          ns = \<lparr>namespace_name = parent @ ''/namespaces/'' @ namespace_id\<rparr>;
          h1 = h @ [(RegistrationServiceClient, RClient (Inr client))];
          r = create_namespace_rpc env h1 client parent ns namespace_id
      in (\<exists>es. snd (create_namespace env project_id location_id namespace_id h) = h1 @ es
            \<and> sdk_events es = [(CreateNamespace client parent ns namespace_id, RNamespace r)])
         \<and> fst (create_namespace env project_id location_id namespace_id h) =
             (case r of Inl e \<Rightarrow> Raises e | Inr response \<Rightarrow> Returns response))"
    if "registration_client_new env h = Inr client"
    unfolding create_namespace_run [OF that]
    by (simp add: Let_def sdk_events_def split: sum.splits)
  have s: "(let parent = ''projects/'' @ project_id @ ''/locations/'' @ location_id @ ''/namespaces/'' @ namespace_id;
          svc = \<lparr>service_name = parent @ ''/services/'' @ service_id\<rparr>;
          h1 = h @ [(RegistrationServiceClient, RClient (Inr client))];
          r = create_service_rpc env h1 client parent svc service_id
      in (\<exists>es. snd (create_service env project_id location_id namespace_id service_id h) = h1 @ es
            \<and> sdk_events es = [(CreateService client parent svc service_id, RService r)])
         \<and> fst (create_service env project_id location_id namespace_id service_id h) =
             (case r of Inl e \<Rightarrow> Raises e | Inr response \<Rightarrow> Returns response))"
    if "registration_client_new env h = Inr client"
    unfolding create_service_run [OF that]
    by (simp add: Let_def sdk_events_def split: sum.splits)
  have p: "(let parent = ''projects/'' @ project_id @ ''/locations/'' @ location_id @ ''/namespaces/'' @ namespace_id
                   @ ''/services/'' @ service_id;
          ep = \<lparr>endpoint_name = parent @ ''/endpoints/'' @ endpoint_id,
                endpoint_address = address, endpoint_port = port\<rparr>;
          h1 = h @ [(RegistrationServiceClient, RClient (Inr client))];
          r = create_endpoint_rpc env h1 client parent ep endpoint_id
      in (\<exists>es. snd (create_endpoint env project_id location_id namespace_id service_id endpoint_id
                       address port h) = h1 @ es
            \<and> sdk_events es = [(CreateEndpoint client parent ep endpoint_id, REndpoint r)])
         \<and> fst (create_endpoint env project_id location_id namespace_id service_id endpoint_id
                   address port h) =
             (case r of Inl e \<Rightarrow> Raises e | Inr response \<Rightarrow> Returns response))"
    if "registration_client_new env h = Inr client" "- 2147483648 \<le> port" "port \<le> 2147483647"
    unfolding create_endpoint_run [OF that]
    by (simp add: Let_def sdk_events_def split: sum.splits)
  show ?thesis
    apply (intro conjI impI)
    subgoal using n by blast
    subgoal using s by blast
    subgoal using p by blast
    subgoal using create_endpoint_out_of_range by blast
    subgoal using create_no_client(1) by blast
    subgoal using create_no_client(2) by blast
    subgoal using create_no_client(3) by blast
    done
qed

theorem create_functions_single_rpc_witness:
  "create_namespace env_registration ''p'' ''l'' ''n'' [] =
     (Returns \<lparr>namespace_name = ''projects/p/locations/l/namespaces/n''\<rparr>,
      [(RegistrationServiceClient, RClient (Inr (Client ''registration''))),
       (CreateNamespace (Client ''registration'') ''projects/p/locations/l''
          \<lparr>namespace_name = ''projects/p/locations/l/namespaces/n''\<rparr> ''n'',
        RNamespace (Inr \<lparr>namespace_name = ''projects/p/locations/l/namespaces/n''\<rparr>)),
       (Print ''Created namespace projects/p/locations/l/namespaces/n.'', RNone (Inr ()))])
   \<and> fst (create_service env_registration ''p'' ''l'' ''n'' ''s'' []) =
       Raises (GoogleAPICallError ''409 already exists'')
   \<and> fst (create_endpoint env_registration ''p'' ''l'' ''n'' ''s'' ''e'' ''10.0.0.1'' 8080 []) =
       Returns \<lparr>endpoint_name = ''projects/p/locations/l/namespaces/n/services/s/endpoints/e'',
         endpoint_address = ''10.0.0.1'', endpoint_port = 8080\<rparr>
   \<and> create_endpoint env_registration ''p'' ''l'' ''n'' ''s'' ''e'' ''10.0.0.1'' (- 2147483649) [] =
       (Raises (ValueError (''Value out of range: '' @ str_int (- 2147483649))),
        [(RegistrationServiceClient, RClient (Inr (Client ''registration'')))])
   \<and> create_namespace env_no_credentials ''p'' ''l'' ''n'' [] =
       (Raises (DefaultCredentialsError ''Could not automatically determine credentials.''),
        [(RegistrationServiceClient,
          RClient (Inl (DefaultCredentialsError ''Could not automatically determine credentials.'')))])"
proof -
  note t = create_functions_single_rpc [where project_id = "''p''" and location_id = "''l''"
      and namespace_id = "''n''" and h = "[]" and service_id = "''s''" and endpoint_id = "''e''"
      and address = "''10.0.0.1''"]
  have cl: "registration_client_new env_registration [] = Inr (Client ''registration'')"
    by (simp add: env_registration_def)
  have nc: "registration_client_new env_no_credentials [] =
      Inl (DefaultCredentialsError ''Could not automatically determine credentials.'')"
    by (simp add: env_no_credentials_def env_registration_def)
  have a: "create_namespace env_registration ''p'' ''l'' ''n'' [] =
     (Returns \<lparr>namespace_name = ''projects/p/locations/l/namespaces/n''\<rparr>,
      [(RegistrationServiceClient, RClient (Inr (Client ''registration''))),
       (CreateNamespace (Client ''registration'') ''projects/p/locations/l''
          \<lparr>namespace_name = ''projects/p/locations/l/namespaces/n''\<rparr> ''n'',
        RNamespace (Inr \<lparr>namespace_name = ''projects/p/locations/l/namespaces/n''\<rparr>)),
       (Print ''Created namespace projects/p/locations/l/namespaces/n.'', RNone (Inr ()))])"
    by (simp add: create_namespace_def Let_def and_then_def invoke_def perform_def returns_def
        env_registration_def)
  have b: "fst (create_service env_registration ''p'' ''l'' ''n'' ''s'' []) =
       Raises (GoogleAPICallError ''409 already exists'')"
    using t [where env = env_registration and client = "Client ''registration''",
        THEN conjunct2, THEN conjunct1, THEN mp, OF cl]
    by (simp add: Let_def env_registration_def)
  have c: "fst (create_endpoint env_registration ''p'' ''l'' ''n'' ''s'' ''e'' ''10.0.0.1'' 8080 []) =
       Returns \<lparr>endpoint_name = ''projects/p/locations/l/namespaces/n/services/s/endpoints/e'',
         endpoint_address = ''10.0.0.1'', endpoint_port = 8080\<rparr>"
    using t [where env = env_registration and client = "Client ''registration''" and port = 8080,
        THEN conjunct2, THEN conjunct2, THEN conjunct1] cl
    by (simp add: Let_def env_registration_def)
  have d: "create_endpoint env_registration ''p'' ''l'' ''n'' ''s'' ''e'' ''10.0.0.1'' (- 2147483649) [] =
       (Raises (ValueError (''Value out of range: '' @ str_int (- 2147483649))),
        [(RegistrationServiceClient, RClient (Inr (Client ''registration'')))])"
    using t [where env = env_registration and client = "Client ''registration''" and port = "- 2147483649",
        THEN conjunct2, THEN conjunct2, THEN conjunct2, THEN conjunct1] cl
    by simp
  have e: "create_namespace env_no_credentials ''p'' ''l'' ''n'' [] =
       (Raises (DefaultCredentialsError ''Could not automatically determine credentials.''),
        [(RegistrationServiceClient,
          RClient (Inl (DefaultCredentialsError ''Could not automatically determine credentials.'')))])"
    using t [where env = env_no_credentials
        and e = "DefaultCredentialsError ''Could not automatically determine credentials.''",
        THEN conjunct2, THEN conjunct2, THEN conjunct2, THEN conjunct2] nc
    by simp
  from a b c d e show ?thesis by blast
qed

lemma str_int_2147483648: "str_int 2147483648 = ''2147483648''"
  by (simp add: str_int_def str_nat.simps)

theorem create_endpoint_port_counterexample:
  "create_endpoint env_registration ''p'' ''l'' ''n'' ''s'' ''e'' ''10.0.0.1'' 2147483648 [] =
     (Raises (ValueError ''Value out of range: 2147483648''),
      [(RegistrationServiceClient, RClient (Inr (Client ''registration'')))])
   \<and> sdk_events (snd (create_endpoint env_registration ''p'' ''l'' ''n'' ''s'' ''e'' ''10.0.0.1'' 2147483648 [])) =
     [(RegistrationServiceClient, RClient (Inr (Client ''registration'')))]"
  by (simp add: create_endpoint_def Endpoint_def and_then_def invoke_def of_result_def raises_def
      env_registration_def sdk_events_def str_int_2147483648)
section \<open>Properties of poll_operation_sample\<close>







lemma operation_history_shift:
  "get_operation_rpc client h name = Inr operation \<Longrightarrow>
   operation_history client name (h @ poll_round name operation) k = operation_history client name h (Suc k)"
  by simp









section \<open>The run of main\<close>

subsection \<open>The sequence of steps of main\<close>

lemma and_then_Returns:
  assumes "and_then m k h = (Returns y, h')"
  obtains x h1 where "m h = (Returns x, h1)" and "k x h1 = (Returns y, h')"
  using assms by (cases "m h") (auto simp: and_then_def split: outcome.splits)

lemma invoke_Returns:
  assumes "invoke rpc c tag h = (Returns x, h')"
  shows "rpc h = Inr x \<and> h' = h @ [(c, tag (Inr x))]"
  using assms by (auto simp: invoke_def split: sum.splits)

lemma try_finally_Returns:
  assumes "try_finally body cleanup h = (Returns y, h')"
  obtains h1 u where "body h = (Returns y, h1)" and "cleanup h1 = (Returns u, h')"
  using assms
  by (cases "body h"; cases "cleanup (snd (body h))")
     (auto simp: try_finally_def split: outcome.splits)

lemma wait_for_cluster_creation_Returns:
  "wait_for_cluster_creation fuel env d p r name h = (Returns u, h') \<Longrightarrow>
   \<exists>k. map fst h' = map fst h @ replicate (Suc k) (ListClusters d p r)"
proof (induction fuel arbitrary: h)
  case 0
  then show ?case by simp
next
  case (Suc fuel)
  let ?h1 = "h @ [(ListClusters d p r, RClusters (list_clusters_rpc env h d p r))]"
  from Suc.prems have "h' = ?h1 \<or> wait_for_cluster_creation fuel env d p r name ?h1 = (Returns u, h')"
    by (auto simp: list_clusters_run split: sum.splits if_splits)
  then show ?case
  proof
    assume "h' = ?h1"
    then have "map fst h' = map fst h @ replicate (Suc 0) (ListClusters d p r)" by simp
    then show ?thesis by blast
  next
    assume "wait_for_cluster_creation fuel env d p r name ?h1 = (Returns u, h')"
    then obtain k where "map fst h' = map fst ?h1 @ replicate (Suc k) (ListClusters d p r)"
      using Suc.IH by blast
    then have "map fst h' = map fst h @ replicate (Suc (Suc k)) (ListClusters d p r)"
      by simp
    then show ?thesis by blast
  qed
qed

lemma wait_for_job_Returns:
  "wait_for_job fuel env d p r i h = (Returns j, h') \<Longrightarrow>
   \<exists>m. map fst h' = map fst h @ replicate (Suc m) (GetJob d p r i)"
proof (induction fuel arbitrary: h)
  case 0
  then show ?case by simp
next
  case (Suc fuel)
  let ?h1 = "h @ [(GetJob d p r i, RJob (get_job_rpc env h d p r i))]"
  from Suc.prems have "h' = ?h1 \<or> wait_for_job fuel env d p r i ?h1 = (Returns j, h')"
    by (auto simp: get_job_run split: sum.splits if_splits)
  then show ?case
  proof
    assume "h' = ?h1"
    then have "map fst h' = map fst h @ replicate (Suc 0) (GetJob d p r i)" by simp
    then show ?thesis by blast
  next
    assume "wait_for_job fuel env d p r i ?h1 = (Returns j, h')"
    then obtain m where "map fst h' = map fst ?h1 @ replicate (Suc m) (GetJob d p r i)"
      using Suc.IH by blast
    then have "map fst h' = map fst h @ replicate (Suc (Suc m)) (GetJob d p r i)"
      by simp
    then show ?thesis by blast
  qed
qed

lemma open_pyspark_file_Returns:
  "open_pyspark_file env pyspark_file h = (Returns (f, fname), h') \<Longrightarrow>
   \<exists>path. h' = h @ [(OpenFile path, RFile (Inr f))]"
  by (auto simp: open_pyspark_file_def get_pyspark_file_def get_default_pyspark_file_def
      and_then_def invoke_def returns_def split: option.splits if_splits sum.splits)

lemma upload_pyspark_file_Returns:
  "upload_pyspark_file env project bucket_name filename spark_file h = (Returns u, h') \<Longrightarrow>
   \<exists>sc b. map fst h' = map fst h @
     [StorageClient project, GetBucket sc bucket_name, UploadFromFile b filename spark_file]"
  by (auto simp: upload_pyspark_file_def and_then_def invoke_def split: sum.splits)

lemma list_clusters_with_details_Returns:
  "list_clusters_with_details env d p r h = (Returns u, h') \<Longrightarrow>
   map fst h' = map fst h @ [ListClusters d p r]"
  by (auto simp: list_clusters_with_details_def and_then_def list_clusters_run returns_def of_result_def
      raises_def split: sum.splits)

lemma get_cluster_id_by_name_Returns:
  "get_cluster_id_by_name env d p r name h = (Returns found, h') \<Longrightarrow>
   map fst h' = map fst h @ [ListClusters d p r]"
  by (auto simp: get_cluster_id_by_name_def and_then_def list_clusters_run returns_def split: sum.splits)

lemma submit_pyspark_job_Returns:
  "submit_pyspark_job env d p r name bucket_name filename h = (Returns job_id, h') \<Longrightarrow>
   map fst h' = map fst h @
     [SubmitJob d p r \<lparr>placement_cluster_name = name,
        pyspark_job_main_python_file_uri = ''gs://'' @ bucket_name @ ''/'' @ filename\<rparr>]"
  by (auto simp: submit_pyspark_job_def Let_def and_then_def invoke_def returns_def split: sum.splits)

lemma download_output_Returns:
  "download_output env project cluster_id output_bucket job_id h = (Returns output, h') \<Longrightarrow>
   \<exists>sc b. h' = h @ [(StorageClient project, RStorage (Inr sc)),
        (GetBucket sc output_bucket, RBucket (Inr b)),
        (DownloadAsString b (''google-cloud-dataproc-metainfo/'' @ cluster_id @ ''/jobs/'' @ job_id
           @ ''/driveroutput.000000000''), RBytes (Inr output))]"
  by (auto simp: download_output_def Let_def and_then_def invoke_def split: sum.splits)

lemma create_cluster_Returns:
  "create_cluster env d project zone region name h = (Returns created, h') \<Longrightarrow>
   map fst h' = map fst h @
     [CreateCluster d project region
        \<lparr>cd_project_id = project, cd_cluster_name = name,
          cd_config = \<lparr>gce_cluster_config_zone_uri =
              ''https://www.googleapis.com/compute/v1/projects/'' @ project @ ''/zones/'' @ format_value zone,
            master_config = \<lparr>num_instances = 1, machine_type_uri = ''n1-standard-1''\<rparr>,
            worker_config = \<lparr>num_instances = 2, machine_type_uri = ''n1-standard-1''\<rparr>\<rparr>\<rparr>]"
  by (auto simp: create_cluster_def Let_def invoke_def split: sum.splits)

lemma main_finally_Returns:
  "main_finally env d project_id region name create_new_cluster spark_file h = (Returns u, h') \<Longrightarrow>
   map fst h' = map fst h @
     (if create_new_cluster
      then [DeleteCluster d project_id region name] @ (case spark_file of None \<Rightarrow> [] | Some f \<Rightarrow> [CloseFile f])
      else [])"
  by (auto simp: main_finally_def and_then_def delete_cluster_def invoke_def perform_def returns_def
      raises_def split: sum.splits option.splits if_splits)


lemma main_body_Returns:
  assumes "main_body fuel env t t2 project_id zone region name bucket_name cnc f fname h = (Returns output, h')"
  shows "\<exists>data k sc1 b1 jid m cid obucket sc2 b2.
      map fst h' = map fst h
        @ (if cnc then CreateCluster t project_id region data # replicate (Suc k) (ListClusters t project_id region)
           else [])
        @ [StorageClient project_id, GetBucket sc1 bucket_name, UploadFromFile b1 fname f,
           ListClusters t project_id region, ListClusters t project_id region,
           SubmitJob t2 project_id region
             \<lparr>placement_cluster_name = name,
              pyspark_job_main_python_file_uri = ''gs://'' @ bucket_name @ ''/'' @ fname\<rparr>]
        @ replicate (Suc m) (GetJob t2 project_id region jid)
        @ [StorageClient project_id, GetBucket sc2 obucket,
           DownloadAsString b2 (''google-cloud-dataproc-metainfo/'' @ cid @ ''/jobs/'' @ jid
             @ ''/driveroutput.000000000'')]
      \<and> last h' = (DownloadAsString b2 (''google-cloud-dataproc-metainfo/'' @ cid @ ''/jobs/'' @ jid
             @ ''/driveroutput.000000000''), RBytes (Inr output))
      \<and> cd_project_id data = project_id \<and> cd_cluster_name data = name"
proof -
  let ?prep = "if cnc then
          and_then (create_cluster env t project_id zone region name)
            (\<lambda>created. wait_for_cluster_creation fuel env t project_id region name)
        else returns ()"
  from assms obtain u1 h1 where
    prep: "?prep h = (Returns u1, h1)" and
    r1: "and_then (upload_pyspark_file env project_id bucket_name fname f)
          (\<lambda>u. and_then (list_clusters_with_details env t project_id region)
          (\<lambda>u. and_then (get_cluster_id_by_name env t project_id region name)
          (\<lambda>found.
             case found of
               None \<Rightarrow> raises TypeError
             | Some (cluster_id, output_bucket) \<Rightarrow>
                 and_then (submit_pyspark_job env t2 project_id region name bucket_name fname)
                 (\<lambda>job_id. and_then (wait_for_job fuel env t2 project_id region job_id)
                 (\<lambda>finished. download_output env project_id cluster_id output_bucket job_id))))) h1
          = (Returns output, h')"
    unfolding main_body_def by (rule and_then_Returns)
  have p: "\<exists>data k. map fst h1 = map fst h
        @ (if cnc then CreateCluster t project_id region data # replicate (Suc k) (ListClusters t project_id region)
           else [])
        \<and> cd_project_id data = project_id \<and> cd_cluster_name data = name"
  proof (cases cnc)
    case True
    with prep obtain c h0 where
      c: "create_cluster env t project_id zone region name h = (Returns c, h0)" and
      w: "wait_for_cluster_creation fuel env t project_id region name h0 = (Returns u1, h1)"
      by (auto elim: and_then_Returns)
    from wait_for_cluster_creation_Returns [OF w] obtain k where
      "map fst h1 = map fst h0 @ replicate (Suc k) (ListClusters t project_id region)" by blast
    with create_cluster_Returns [OF c] True show ?thesis
      by (intro exI [of _ "\<lparr>cd_project_id = project_id, cd_cluster_name = name,
          cd_config = \<lparr>gce_cluster_config_zone_uri =
              ''https://www.googleapis.com/compute/v1/projects/'' @ project_id @ ''/zones/'' @ format_value zone,
            master_config = \<lparr>num_instances = 1, machine_type_uri = ''n1-standard-1''\<rparr>,
            worker_config = \<lparr>num_instances = 2, machine_type_uri = ''n1-standard-1''\<rparr>\<rparr>\<rparr>"] exI [of _ k])
         simp
  next
    case False
    with prep have "h1 = h" by (simp add: returns_def)
    with False show ?thesis
      by (intro exI [of _ "\<lparr>cd_project_id = project_id, cd_cluster_name = name,
          cd_config = undefined\<rparr>"]) simp
  qed
  from r1 obtain u2 h2 where
    up: "upload_pyspark_file env project_id bucket_name fname f h1 = (Returns u2, h2)" and
    r2: "and_then (list_clusters_with_details env t project_id region)
          (\<lambda>u. and_then (get_cluster_id_by_name env t project_id region name)
          (\<lambda>found.
             case found of
               None \<Rightarrow> raises TypeError
             | Some (cluster_id, output_bucket) \<Rightarrow>
                 and_then (submit_pyspark_job env t2 project_id region name bucket_name fname)
                 (\<lambda>job_id. and_then (wait_for_job fuel env t2 project_id region job_id)
                 (\<lambda>finished. download_output env project_id cluster_id output_bucket job_id)))) h2
          = (Returns output, h')"
    by (rule and_then_Returns)
  from r2 obtain u3 h3 where
    li: "list_clusters_with_details env t project_id region h2 = (Returns u3, h3)" and
    r3: "and_then (get_cluster_id_by_name env t project_id region name)
          (\<lambda>found.
             case found of
               None \<Rightarrow> raises TypeError
             | Some (cluster_id, output_bucket) \<Rightarrow>
                 and_then (submit_pyspark_job env t2 project_id region name bucket_name fname)
                 (\<lambda>job_id. and_then (wait_for_job fuel env t2 project_id region job_id)
                 (\<lambda>finished. download_output env project_id cluster_id output_bucket job_id))) h3
          = (Returns output, h')"
    by (rule and_then_Returns)
  from r3 obtain found h4 where
    lo: "get_cluster_id_by_name env t project_id region name h3 = (Returns found, h4)" and
    r4: "(case found of
               None \<Rightarrow> raises TypeError
             | Some (cluster_id, output_bucket) \<Rightarrow>
                 and_then (submit_pyspark_job env t2 project_id region name bucket_name fname)
                 (\<lambda>job_id. and_then (wait_for_job fuel env t2 project_id region job_id)
                 (\<lambda>finished. download_output env project_id cluster_id output_bucket job_id))) h4
          = (Returns output, h')"
    by (rule and_then_Returns)
  from r4 obtain cid obucket where found: "found = Some (cid, obucket)"
    by (cases found) (auto simp: raises_def)
  from r4 found obtain jid h5 where
    su: "submit_pyspark_job env t2 project_id region name bucket_name fname h4 = (Returns jid, h5)" and
    r5: "and_then (wait_for_job fuel env t2 project_id region jid)
           (\<lambda>finished. download_output env project_id cid obucket jid) h5 = (Returns output, h')"
    by (auto elim: and_then_Returns)
  from r5 obtain j h6 where
    wj: "wait_for_job fuel env t2 project_id region jid h5 = (Returns j, h6)" and
    dl: "download_output env project_id cid obucket jid h6 = (Returns output, h')"
    by (rule and_then_Returns)
  from p obtain data k where
    e1: "map fst h1 = map fst h
        @ (if cnc then CreateCluster t project_id region data # replicate (Suc k) (ListClusters t project_id region)
           else [])" and data: "cd_project_id data = project_id" "cd_cluster_name data = name"
    by blast
  from upload_pyspark_file_Returns [OF up] obtain sc1 b1 where
    e2: "map fst h2 = map fst h1 @ [StorageClient project_id, GetBucket sc1 bucket_name, UploadFromFile b1 fname f]"
    by blast
  note e3 = list_clusters_with_details_Returns [OF li]
  note e4 = get_cluster_id_by_name_Returns [OF lo]
  note e5 = submit_pyspark_job_Returns [OF su]
  from wait_for_job_Returns [OF wj] obtain m where
    e6: "map fst h6 = map fst h5 @ replicate (Suc m) (GetJob t2 project_id region jid)" by blast
  from download_output_Returns [OF dl] obtain sc2 b2 where
    e7: "h' = h6 @ [(StorageClient project_id, RStorage (Inr sc2)),
        (GetBucket sc2 obucket, RBucket (Inr b2)),
        (DownloadAsString b2 (''google-cloud-dataproc-metainfo/'' @ cid @ ''/jobs/'' @ jid
           @ ''/driveroutput.000000000''), RBytes (Inr output))]" by blast
  have calls: "map fst h' = map fst h
        @ (if cnc then CreateCluster t project_id region data # replicate (Suc k) (ListClusters t project_id region)
           else [])
        @ [StorageClient project_id, GetBucket sc1 bucket_name, UploadFromFile b1 fname f,
           ListClusters t project_id region, ListClusters t project_id region,
           SubmitJob t2 project_id region
             \<lparr>placement_cluster_name = name,
              pyspark_job_main_python_file_uri = ''gs://'' @ bucket_name @ ''/'' @ fname\<rparr>]
        @ replicate (Suc m) (GetJob t2 project_id region jid)
        @ [StorageClient project_id, GetBucket sc2 obucket,
           DownloadAsString b2 (''google-cloud-dataproc-metainfo/'' @ cid @ ''/jobs/'' @ jid
             @ ''/driveroutput.000000000'')]"
    unfolding e7 using e1 e2 e3 e4 e5 e6 by (simp del: replicate.simps)
  have lst: "last h' = (DownloadAsString b2 (''google-cloud-dataproc-metainfo/'' @ cid @ ''/jobs/'' @ jid
             @ ''/driveroutput.000000000''), RBytes (Inr output))"
    unfolding e7 by simp
  from calls lst data show ?thesis by blast
qed

lemma main_try_Returns:
  assumes "main_try fuel env t t2 project_id zone region name bucket_name pyspark_file cnc h = (Returns output, h')"
  shows "\<exists>path f fname data k sc1 b1 jid m cid obucket sc2 b2 hb post.
      h' = hb @ post
      \<and> map fst hb = map fst h @ [OpenFile path]
        @ (if cnc then CreateCluster t project_id region data # replicate (Suc k) (ListClusters t project_id region)
           else [])
        @ [StorageClient project_id, GetBucket sc1 bucket_name, UploadFromFile b1 fname f,
           ListClusters t project_id region, ListClusters t project_id region,
           SubmitJob t2 project_id region
             \<lparr>placement_cluster_name = name,
              pyspark_job_main_python_file_uri = ''gs://'' @ bucket_name @ ''/'' @ fname\<rparr>]
        @ replicate (Suc m) (GetJob t2 project_id region jid)
        @ [StorageClient project_id, GetBucket sc2 obucket,
           DownloadAsString b2 (''google-cloud-dataproc-metainfo/'' @ cid @ ''/jobs/'' @ jid
             @ ''/driveroutput.000000000'')]
      \<and> last hb = (DownloadAsString b2 (''google-cloud-dataproc-metainfo/'' @ cid @ ''/jobs/'' @ jid
             @ ''/driveroutput.000000000''), RBytes (Inr output))
      \<and> map fst post = (if cnc then [DeleteCluster t project_id region name, CloseFile f] else [])
      \<and> cd_project_id data = project_id \<and> cd_cluster_name data = name"
proof -
  from assms obtain f fname h1 where
    op: "open_pyspark_file env pyspark_file h = (Returns (f, fname), h1)" and
    tf: "try_finally
            (main_body fuel env t t2 project_id zone region name bucket_name cnc f fname)
            (main_finally env t project_id region name cnc (Some f)) h1 = (Returns output, h')"
    by (cases "open_pyspark_file env pyspark_file h")
       (auto simp: main_try_def try_finally_def raises_def split: outcome.splits prod.splits)
  from tf obtain hb u where
    body: "main_body fuel env t t2 project_id zone region name bucket_name cnc f fname h1 = (Returns output, hb)" and
    fin: "main_finally env t project_id region name cnc (Some f) hb = (Returns u, h')"
    by (rule try_finally_Returns)
  from open_pyspark_file_Returns [OF op] obtain path where h1: "h1 = h @ [(OpenFile path, RFile (Inr f))]"
    by blast
  from main_finally_Returns [OF fin] have
    post: "map fst h' = map fst hb @ (if cnc then [DeleteCluster t project_id region name, CloseFile f] else [])"
    by simp
  have "emits UNIV (main_finally env t project_id region name cnc (Some f))"
    by (auto simp: main_finally_def delete_cluster_def
        intro!: emits_and_then emits_invoke emits_perform emits_returns)
  then obtain es where es: "snd (main_finally env t project_id region name cnc (Some f) hb) = hb @ es"
    using emitsD by blast
  with fin have h': "h' = hb @ es" by simp
  with post have pe: "map fst es = (if cnc then [DeleteCluster t project_id region name, CloseFile f] else [])"
    by simp
  from main_body_Returns [OF body] obtain data k sc1 b1 jid m cid obucket sc2 b2 where
    b: "map fst hb = map fst h1
        @ (if cnc then CreateCluster t project_id region data # replicate (Suc k) (ListClusters t project_id region)
           else [])
        @ [StorageClient project_id, GetBucket sc1 bucket_name, UploadFromFile b1 fname f,
           ListClusters t project_id region, ListClusters t project_id region,
           SubmitJob t2 project_id region
             \<lparr>placement_cluster_name = name,
              pyspark_job_main_python_file_uri = ''gs://'' @ bucket_name @ ''/'' @ fname\<rparr>]
        @ replicate (Suc m) (GetJob t2 project_id region jid)
        @ [StorageClient project_id, GetBucket sc2 obucket,
           DownloadAsString b2 (''google-cloud-dataproc-metainfo/'' @ cid @ ''/jobs/'' @ jid
             @ ''/driveroutput.000000000'')]"
      "last hb = (DownloadAsString b2 (''google-cloud-dataproc-metainfo/'' @ cid @ ''/jobs/'' @ jid
             @ ''/driveroutput.000000000''), RBytes (Inr output))"
      "cd_project_id data = project_id" "cd_cluster_name data = name"
    by blast
  have "map fst hb = map fst h @ [OpenFile path]
        @ (if cnc then CreateCluster t project_id region data # replicate (Suc k) (ListClusters t project_id region)
           else [])
        @ [StorageClient project_id, GetBucket sc1 bucket_name, UploadFromFile b1 fname f,
           ListClusters t project_id region, ListClusters t project_id region,
           SubmitJob t2 project_id region
             \<lparr>placement_cluster_name = name,
              pyspark_job_main_python_file_uri = ''gs://'' @ bucket_name @ ''/'' @ fname\<rparr>]
        @ replicate (Suc m) (GetJob t2 project_id region jid)
        @ [StorageClient project_id, GetBucket sc2 obucket,
           DownloadAsString b2 (''google-cloud-dataproc-metainfo/'' @ cid @ ''/jobs/'' @ jid
             @ ''/driveroutput.000000000'')]"
    using b(1) h1 by (simp del: replicate.simps)
  with h' pe b(2-4) show ?thesis by blast
qed

lemma dataproc_get_client_Returns:
  assumes "dataproc_get_client env zone global_region h = (Returns (region, cluster_client, job_client), h')"
  shows "\<exists>ct jt.
      map fst h' = map fst h @
        (if global_region
         then [ClusterControllerClient EmptyString, JobControllerClient EmptyString]
         else [ClusterControllerGrpcTransport (region @ ''-dataproc.googleapis.com:443''),
               JobControllerGrpcTransport (region @ ''-dataproc.googleapis.com:443''),
               ClusterControllerClient (TransportObject ct), JobControllerClient (TransportObject jt)])
      \<and> (if global_region then region = ''global'' else get_region_from_zone zone = Inr region)"
proof (cases global_region)
  case True
  with assms show ?thesis
    by (auto simp: dataproc_get_client_def and_then_def returns_def invoke_def split: sum.splits)
next
  case False
  with assms show ?thesis
    by (auto simp: dataproc_get_client_def and_then_def returns_def raises_def invoke_def of_result_def
        split: sum.splits)
qed

lemma main_ok_run:
  "main 3 env_ok ''proj'' (PyStr ''us-central1-a'') ''c1'' ''bkt'' None True True [] =
    (Returns ''sorted'',
     [(ClusterControllerClient EmptyString, RClient (Inr (Client ''cluster''))),
      (JobControllerClient EmptyString, RClient (Inr (Client ''job''))),
      (OpenFile ''/samples/dataproc/pyspark_sort.py'', RFile (Inr (FileObj 3))),
      (CreateCluster (Client ''cluster'') ''proj'' ''global''
         \<lparr>cd_project_id = ''proj'', cd_cluster_name = ''c1'',
           cd_config = \<lparr>gce_cluster_config_zone_uri =
               ''https://www.googleapis.com/compute/v1/projects/proj/zones/us-central1-a'',
             master_config = \<lparr>num_instances = 1, machine_type_uri = ''n1-standard-1''\<rparr>,
             worker_config = \<lparr>num_instances = 2, machine_type_uri = ''n1-standard-1''\<rparr>\<rparr>\<rparr>,
       RLongRunning (Inr (LongRunning ''create''))),
      (ListClusters (Client ''cluster'') ''proj'' ''global'', RClusters (Inr [example_cluster 1])),
      (ListClusters (Client ''cluster'') ''proj'' ''global'', RClusters (Inr [example_cluster 2])),
      (StorageClient ''proj'', RStorage (Inr (Storage ''proj''))),
      (GetBucket (Storage ''proj'') ''bkt'', RBucket (Inr (Bucket ''bkt''))),
      (UploadFromFile (Bucket ''bkt'') ''pyspark_sort.py'' (FileObj 3), RNone (Inr ())),
      (ListClusters (Client ''cluster'') ''proj'' ''global'', RClusters (Inr [example_cluster 2])),
      (ListClusters (Client ''cluster'') ''proj'' ''global'', RClusters (Inr [example_cluster 2])),
      (SubmitJob (Client ''job'') ''proj'' ''global''
         \<lparr>placement_cluster_name = ''c1'', pyspark_job_main_python_file_uri = ''gs://bkt/pyspark_sort.py''\<rparr>,
       RJob (Inr \<lparr>reference_job_id = ''job-1'', job_status_state = 1, job_status_details = []\<rparr>)),
      (GetJob (Client ''job'') ''proj'' ''global'' ''job-1'', RJob (Inr (example_job 2))),
      (GetJob (Client ''job'') ''proj'' ''global'' ''job-1'', RJob (Inr (example_job 2))),
      (GetJob (Client ''job'') ''proj'' ''global'' ''job-1'', RJob (Inr (example_job 5))),
      (StorageClient ''proj'', RStorage (Inr (Storage ''proj''))),
      (GetBucket (Storage ''proj'') ''staging'', RBucket (Inr (Bucket ''staging''))),
      (DownloadAsString (Bucket ''staging'')
         ''google-cloud-dataproc-metainfo/uuid-1/jobs/job-1/driveroutput.000000000'', RBytes (Inr ''sorted'')),
      (DeleteCluster (Client ''cluster'') ''proj'' ''global'' ''c1'', RLongRunning (Inr (LongRunning ''delete''))),
      (CloseFile (FileObj 3), RNone (Inr ()))])"
  by (simp add: run_defs env_defs numeral_3_eq_3)

lemma specified_sequence_ok_run:
  "map fst (snd (specified_sequence 3 env_ok (Client ''cluster'') (Client ''job'') ''proj''
      (PyStr ''us-central1-a'') ''global'' ''c1'' ''bkt'' True
      (FileObj 3) ''pyspark_sort.py'' ''uuid-1'' ''staging'' [])) =
     [CreateCluster (Client ''cluster'') ''proj'' ''global''
         \<lparr>cd_project_id = ''proj'', cd_cluster_name = ''c1'',
           cd_config = \<lparr>gce_cluster_config_zone_uri =
               ''https://www.googleapis.com/compute/v1/projects/proj/zones/us-central1-a'',
             master_config = \<lparr>num_instances = 1, machine_type_uri = ''n1-standard-1''\<rparr>,
             worker_config = \<lparr>num_instances = 2, machine_type_uri = ''n1-standard-1''\<rparr>\<rparr>\<rparr>,
      ListClusters (Client ''cluster'') ''proj'' ''global'', ListClusters (Client ''cluster'') ''proj'' ''global'',
      StorageClient ''proj'',
      GetBucket (Storage ''proj'') ''bkt'',
      UploadFromFile (Bucket ''bkt'') ''pyspark_sort.py'' (FileObj 3),
      SubmitJob (Client ''job'') ''proj'' ''global''
         \<lparr>placement_cluster_name = ''c1'', pyspark_job_main_python_file_uri = ''gs://bkt/pyspark_sort.py''\<rparr>,
      GetJob (Client ''job'') ''proj'' ''global'' ''job-1'', GetJob (Client ''job'') ''proj'' ''global'' ''job-1'',
      GetJob (Client ''job'') ''proj'' ''global'' ''job-1'',
      StorageClient ''proj'',
      GetBucket (Storage ''proj'') ''staging'',
      DownloadAsString (Bucket ''staging'')
         ''google-cloud-dataproc-metainfo/uuid-1/jobs/job-1/driveroutput.000000000'']
   \<and> fst (specified_sequence 3 env_ok (Client ''cluster'') (Client ''job'') ''proj''
      (PyStr ''us-central1-a'') ''global'' ''c1'' ''bkt'' True
      (FileObj 3) ''pyspark_sort.py'' ''uuid-1'' ''staging'' []) = Returns ''sorted''"
  by (simp add: specified_sequence_def run_defs env_defs numeral_3_eq_3)

lemma main_try_steps_new_cluster:
  assumes "open_pyspark_file env pyspark_file h = (Returns (f, fname), h1)"
      and "create_cluster env t project_id zone region name h1 = (Returns created, h2)"
      and "wait_for_cluster_creation fuel env t project_id region name h2 = (Returns (), h3)"
      and "upload_pyspark_file env project_id bucket_name fname f h3 = (Returns (), h4)"
      and "list_clusters_with_details env t project_id region h4 = (Returns (), h5)"
      and "get_cluster_id_by_name env t project_id region name h5 = (Returns (Some (cid, obucket)), h6)"
      and "submit_pyspark_job env t2 project_id region name bucket_name fname h6 = (Returns jid, h7)"
      and "wait_for_job fuel env t2 project_id region jid h7 = (Returns j, h8)"
      and "download_output env project_id cid obucket jid h8 = (Returns output, h9)"
      and "delete_cluster env t project_id region name h9 = (Returns deleted, h10)"
  shows "main_try fuel env t t2 project_id zone region name bucket_name pyspark_file True h =
           (Returns output, h10 @ [(CloseFile f, RNone (Inr ()))])"
  using assms
  by (simp add: main_try_def main_body_def main_finally_def try_finally_def and_then_def perform_def)

lemma main_try_steps_existing_cluster:
  assumes "open_pyspark_file env pyspark_file h = (Returns (f, fname), h1)"
      and "upload_pyspark_file env project_id bucket_name fname f h1 = (Returns (), h4)"
      and "list_clusters_with_details env t project_id region h4 = (Returns (), h5)"
      and "get_cluster_id_by_name env t project_id region name h5 = (Returns (Some (cid, obucket)), h6)"
      and "submit_pyspark_job env t2 project_id region name bucket_name fname h6 = (Returns jid, h7)"
      and "wait_for_job fuel env t2 project_id region jid h7 = (Returns j, h8)"
      and "download_output env project_id cid obucket jid h8 = (Returns output, h9)"
  shows "main_try fuel env t t2 project_id zone region name bucket_name pyspark_file False h =
           (Returns output, h9)"
  using assms
  by (simp add: main_try_def main_body_def main_finally_def try_finally_def and_then_def returns_def)

lemma main_Returns:
  assumes "main fuel env project_id zone name bucket_name pyspark_file create_new_cluster global_region h =
      (Returns result, h')"
  obtains region cluster_client job_client h0 where
    "dataproc_get_client env zone global_region h = (Returns (region, cluster_client, job_client), h0)"
    "main_try fuel env cluster_client job_client project_id zone region name bucket_name pyspark_file
       create_new_cluster h0 = (Returns result, h')"
proof -
  from assms obtain x h0 where
    g: "dataproc_get_client env zone global_region h = (Returns x, h0)" and
    t: "(case x of (region, cluster_client, job_client) \<Rightarrow>
           main_try fuel env cluster_client job_client project_id zone region name bucket_name pyspark_file
             create_new_cluster) h0 = (Returns result, h')"
    unfolding main_def by (rule and_then_Returns)
  obtain region cluster_client job_client where x: "x = (region, cluster_client, job_client)"
    by (cases x)
  show ?thesis
    using that [of region cluster_client job_client h0] g t x by simp
qed

text \<open>
  C3 (as amended). \<open>main\<close> only sequences its helpers. When every step returns,
  \<open>main\<close> returns the output of \<open>download_output\<close>, threading the history through:
  the construction of the two clients, the \<open>open\<close> of the PySpark file, then (with
  \<open>create_new_cluster\<close>) \<open>create_cluster\<close> and \<open>wait_for_cluster_creation\<close>, then
  \<open>upload_pyspark_file\<close>, \<open>list_clusters_with_details\<close>, \<open>get_cluster_id_by_name\<close>,
  \<open>submit_pyspark_job\<close>, \<open>wait_for_job\<close>, \<open>download_output\<close> and, with
  \<open>create_new_cluster\<close> again, \<open>delete_cluster\<close> and the \<open>close\<close> of the file.
  Conversely every run of \<open>main\<close> that returns has issued exactly the calls of these
  steps in this order, and its result is the answer to the download. Without
  \<open>create_new_cluster\<close> the create and wait steps and the final delete and close are
  skipped; the rest is unchanged. The claim as stated names six steps only: the two
  listings between the upload and the submission, and the final \<open>delete_cluster\<close>, are
  calls of \<open>main\<close> that it leaves out.
\<close>

theorem main_performs_sequence:
  "(dataproc_get_client env zone global_region h = (Returns (region, cluster_client, job_client), a0)
    \<and> open_pyspark_file env pyspark_file a0 = (Returns (f, fname), a1)
    \<and> create_cluster env cluster_client project_id zone region name a1 = (Returns created, a2)
    \<and> wait_for_cluster_creation fuel env cluster_client project_id region name a2 = (Returns (), a3)
    \<and> upload_pyspark_file env project_id bucket_name fname f a3 = (Returns (), a4)
    \<and> list_clusters_with_details env cluster_client project_id region a4 = (Returns (), a5)
    \<and> get_cluster_id_by_name env cluster_client project_id region name a5 = (Returns (Some (cid, obucket)), a6)
    \<and> submit_pyspark_job env job_client project_id region name bucket_name fname a6 = (Returns jid, a7)
    \<and> wait_for_job fuel env job_client project_id region jid a7 = (Returns j, a8)
    \<and> download_output env project_id cid obucket jid a8 = (Returns output, a9)
    \<and> delete_cluster env cluster_client project_id region name a9 = (Returns deleted, a10)
    \<longrightarrow> main fuel env project_id zone name bucket_name pyspark_file True global_region h =
          (Returns output, a10 @ [(CloseFile f, RNone (Inr ()))]))
   \<and> (dataproc_get_client env zone global_region h = (Returns (region, cluster_client, job_client), b0)
    \<and> open_pyspark_file env pyspark_file b0 = (Returns (f, fname), b1)
    \<and> upload_pyspark_file env project_id bucket_name fname f b1 = (Returns (), b4)
    \<and> list_clusters_with_details env cluster_client project_id region b4 = (Returns (), b5)
    \<and> get_cluster_id_by_name env cluster_client project_id region name b5 = (Returns (Some (cid, obucket)), b6)
    \<and> submit_pyspark_job env job_client project_id region name bucket_name fname b6 = (Returns jid, b7)
    \<and> wait_for_job fuel env job_client project_id region jid b7 = (Returns j, b8)
    \<and> download_output env project_id cid obucket jid b8 = (Returns output, b9)
    \<longrightarrow> main fuel env project_id zone name bucket_name pyspark_file False global_region h =
          (Returns output, b9))
   \<and> (main fuel env project_id zone name bucket_name pyspark_file create_new_cluster global_region h =
          (Returns result, h')
    \<longrightarrow> (\<exists>region cluster_client job_client transport1 transport2 path file filename data k storage1
           bucket1 job_id m cluster_id output_bucket storage2 bucket2 hb post.
          h' = hb @ post
          \<and> (if global_region then region = ''global'' else get_region_from_zone zone = Inr region)
          \<and> map fst hb = map fst h
            @ (if global_region
               then [ClusterControllerClient EmptyString, JobControllerClient EmptyString]
               else [ClusterControllerGrpcTransport (region @ ''-dataproc.googleapis.com:443''),
                     JobControllerGrpcTransport (region @ ''-dataproc.googleapis.com:443''),
                     ClusterControllerClient (TransportObject transport1),
                     JobControllerClient (TransportObject transport2)])
            @ [OpenFile path]
            @ (if create_new_cluster
               then CreateCluster cluster_client project_id region data
                      # replicate (Suc k) (ListClusters cluster_client project_id region)
               else [])
            @ [StorageClient project_id, GetBucket storage1 bucket_name, UploadFromFile bucket1 filename file,
               ListClusters cluster_client project_id region, ListClusters cluster_client project_id region,
               SubmitJob job_client project_id region
                 \<lparr>placement_cluster_name = name,
                  pyspark_job_main_python_file_uri = ''gs://'' @ bucket_name @ ''/'' @ filename\<rparr>]
            @ replicate (Suc m) (GetJob job_client project_id region job_id)
            @ [StorageClient project_id, GetBucket storage2 output_bucket,
               DownloadAsString bucket2 (''google-cloud-dataproc-metainfo/'' @ cluster_id @ ''/jobs/'' @ job_id
                 @ ''/driveroutput.000000000'')]
          \<and> last hb = (DownloadAsString bucket2 (''google-cloud-dataproc-metainfo/'' @ cluster_id
                 @ ''/jobs/'' @ job_id @ ''/driveroutput.000000000''), RBytes (Inr result))
          \<and> map fst post =
              (if create_new_cluster then [DeleteCluster cluster_client project_id region name, CloseFile file]
               else [])
          \<and> cd_project_id data = project_id \<and> cd_cluster_name data = name))"
proof -
  have a: "main fuel env project_id zone name bucket_name pyspark_file True global_region h =
          (Returns output, a10 @ [(CloseFile f, RNone (Inr ()))])"
    if "dataproc_get_client env zone global_region h = (Returns (region, cluster_client, job_client), a0)"
      "open_pyspark_file env pyspark_file a0 = (Returns (f, fname), a1)"
      "create_cluster env cluster_client project_id zone region name a1 = (Returns created, a2)"
      "wait_for_cluster_creation fuel env cluster_client project_id region name a2 = (Returns (), a3)"
      "upload_pyspark_file env project_id bucket_name fname f a3 = (Returns (), a4)"
      "list_clusters_with_details env cluster_client project_id region a4 = (Returns (), a5)"
      "get_cluster_id_by_name env cluster_client project_id region name a5 = (Returns (Some (cid, obucket)), a6)"
      "submit_pyspark_job env job_client project_id region name bucket_name fname a6 = (Returns jid, a7)"
      "wait_for_job fuel env job_client project_id region jid a7 = (Returns j, a8)"
      "download_output env project_id cid obucket jid a8 = (Returns output, a9)"
      "delete_cluster env cluster_client project_id region name a9 = (Returns deleted, a10)"
    using main_run [OF that(1)] main_try_steps_new_cluster [OF that(2-11)] by simp
  have b: "main fuel env project_id zone name bucket_name pyspark_file False global_region h =
          (Returns output, b9)"
    if "dataproc_get_client env zone global_region h = (Returns (region, cluster_client, job_client), b0)"
      "open_pyspark_file env pyspark_file b0 = (Returns (f, fname), b1)"
      "upload_pyspark_file env project_id bucket_name fname f b1 = (Returns (), b4)"
      "list_clusters_with_details env cluster_client project_id region b4 = (Returns (), b5)"
      "get_cluster_id_by_name env cluster_client project_id region name b5 = (Returns (Some (cid, obucket)), b6)"
      "submit_pyspark_job env job_client project_id region name bucket_name fname b6 = (Returns jid, b7)"
      "wait_for_job fuel env job_client project_id region jid b7 = (Returns j, b8)"
      "download_output env project_id cid obucket jid b8 = (Returns output, b9)"
    using main_run [OF that(1)] main_try_steps_existing_cluster [OF that(2-8), where zone = zone] by simp
  have c: "\<exists>region cluster_client job_client transport1 transport2 path file filename data k storage1
           bucket1 job_id m cluster_id output_bucket storage2 bucket2 hb post.
          h' = hb @ post
          \<and> (if global_region then region = ''global'' else get_region_from_zone zone = Inr region)
          \<and> map fst hb = map fst h
            @ (if global_region
               then [ClusterControllerClient EmptyString, JobControllerClient EmptyString]
               else [ClusterControllerGrpcTransport (region @ ''-dataproc.googleapis.com:443''),
                     JobControllerGrpcTransport (region @ ''-dataproc.googleapis.com:443''),
                     ClusterControllerClient (TransportObject transport1),
                     JobControllerClient (TransportObject transport2)])
            @ [OpenFile path]
            @ (if create_new_cluster
               then CreateCluster cluster_client project_id region data
                      # replicate (Suc k) (ListClusters cluster_client project_id region)
               else [])
            @ [StorageClient project_id, GetBucket storage1 bucket_name, UploadFromFile bucket1 filename file,
               ListClusters cluster_client project_id region, ListClusters cluster_client project_id region,
               SubmitJob job_client project_id region
                 \<lparr>placement_cluster_name = name,
                  pyspark_job_main_python_file_uri = ''gs://'' @ bucket_name @ ''/'' @ filename\<rparr>]
            @ replicate (Suc m) (GetJob job_client project_id region job_id)
            @ [StorageClient project_id, GetBucket storage2 output_bucket,
               DownloadAsString bucket2 (''google-cloud-dataproc-metainfo/'' @ cluster_id @ ''/jobs/'' @ job_id
                 @ ''/driveroutput.000000000'')]
          \<and> last hb = (DownloadAsString bucket2 (''google-cloud-dataproc-metainfo/'' @ cluster_id
                 @ ''/jobs/'' @ job_id @ ''/driveroutput.000000000''), RBytes (Inr result))
          \<and> map fst post =
              (if create_new_cluster then [DeleteCluster cluster_client project_id region name, CloseFile file]
               else [])
          \<and> cd_project_id data = project_id \<and> cd_cluster_name data = name"
    if run: "main fuel env project_id zone name bucket_name pyspark_file create_new_cluster global_region h =
          (Returns result, h')"
  proof -
    from run obtain region cc jc h0 where
      g: "dataproc_get_client env zone global_region h = (Returns (region, cc, jc), h0)" and
      t: "main_try fuel env cc jc project_id zone region name bucket_name pyspark_file
            create_new_cluster h0 = (Returns result, h')"
      by (rule main_Returns)
    from dataproc_get_client_Returns [OF g] obtain ct jt where
      p: "map fst h0 = map fst h @
        (if global_region
         then [ClusterControllerClient EmptyString, JobControllerClient EmptyString]
         else [ClusterControllerGrpcTransport (region @ ''-dataproc.googleapis.com:443''),
               JobControllerGrpcTransport (region @ ''-dataproc.googleapis.com:443''),
               ClusterControllerClient (TransportObject ct), JobControllerClient (TransportObject jt)])"
      and rg: "if global_region then region = ''global'' else get_region_from_zone zone = Inr region"
      by blast
    from main_try_Returns [OF t] obtain path f fname data k sc1 b1 jid m cid obucket sc2 b2 hb post where
      q: "h' = hb @ post"
         "map fst hb = map fst h0 @ [OpenFile path]
            @ (if create_new_cluster
               then CreateCluster cc project_id region data # replicate (Suc k) (ListClusters cc project_id region)
               else [])
            @ [StorageClient project_id, GetBucket sc1 bucket_name, UploadFromFile b1 fname f,
               ListClusters cc project_id region, ListClusters cc project_id region,
               SubmitJob jc project_id region
                 \<lparr>placement_cluster_name = name,
                  pyspark_job_main_python_file_uri = ''gs://'' @ bucket_name @ ''/'' @ fname\<rparr>]
            @ replicate (Suc m) (GetJob jc project_id region jid)
            @ [StorageClient project_id, GetBucket sc2 obucket,
               DownloadAsString b2 (''google-cloud-dataproc-metainfo/'' @ cid @ ''/jobs/'' @ jid
                 @ ''/driveroutput.000000000'')]"
         "last hb = (DownloadAsString b2 (''google-cloud-dataproc-metainfo/'' @ cid @ ''/jobs/'' @ jid
                 @ ''/driveroutput.000000000''), RBytes (Inr result))"
         "map fst post = (if create_new_cluster then [DeleteCluster cc project_id region name, CloseFile f] else [])"
         "cd_project_id data = project_id" "cd_cluster_name data = name"
      by blast
    have calls: "map fst hb = map fst h
            @ (if global_region
               then [ClusterControllerClient EmptyString, JobControllerClient EmptyString]
               else [ClusterControllerGrpcTransport (region @ ''-dataproc.googleapis.com:443''),
                     JobControllerGrpcTransport (region @ ''-dataproc.googleapis.com:443''),
                     ClusterControllerClient (TransportObject ct),
                     JobControllerClient (TransportObject jt)])
            @ [OpenFile path]
            @ (if create_new_cluster
               then CreateCluster cc project_id region data # replicate (Suc k) (ListClusters cc project_id region)
               else [])
            @ [StorageClient project_id, GetBucket sc1 bucket_name, UploadFromFile b1 fname f,
               ListClusters cc project_id region, ListClusters cc project_id region,
               SubmitJob jc project_id region
                 \<lparr>placement_cluster_name = name,
                  pyspark_job_main_python_file_uri = ''gs://'' @ bucket_name @ ''/'' @ fname\<rparr>]
            @ replicate (Suc m) (GetJob jc project_id region jid)
            @ [StorageClient project_id, GetBucket sc2 obucket,
               DownloadAsString b2 (''google-cloud-dataproc-metainfo/'' @ cid @ ''/jobs/'' @ jid
                 @ ''/driveroutput.000000000'')]"
      unfolding q(2) p by (simp only: append_assoc)
    from q(1) rg calls q(3-6) show ?thesis by blast
  qed
  show ?thesis
    apply (intro conjI impI)
    subgoal using a by blast
    subgoal using b by blast
    subgoal using c by blast
    done
qed

theorem main_performs_sequence_witness:
  "main 3 env_ok ''proj'' (PyStr ''us-central1-a'') ''c1'' ''bkt'' None True True [] =
     (Returns ''sorted'',
      [(ClusterControllerClient EmptyString, RClient (Inr (Client ''cluster''))),
       (JobControllerClient EmptyString, RClient (Inr (Client ''job''))),
       (OpenFile ''/samples/dataproc/pyspark_sort.py'', RFile (Inr (FileObj 3))),
       (CreateCluster (Client ''cluster'') ''proj'' ''global''
         \<lparr>cd_project_id = ''proj'', cd_cluster_name = ''c1'',
           cd_config = \<lparr>gce_cluster_config_zone_uri =
               ''https://www.googleapis.com/compute/v1/projects/proj/zones/us-central1-a'',
             master_config = \<lparr>num_instances = 1, machine_type_uri = ''n1-standard-1''\<rparr>,
             worker_config = \<lparr>num_instances = 2, machine_type_uri = ''n1-standard-1''\<rparr>\<rparr>\<rparr>,
        RLongRunning (Inr (LongRunning ''create''))),
       (ListClusters (Client ''cluster'') ''proj'' ''global'', RClusters (Inr [example_cluster 1])),
       (ListClusters (Client ''cluster'') ''proj'' ''global'', RClusters (Inr [example_cluster 2])),
       (StorageClient ''proj'', RStorage (Inr (Storage ''proj''))),
       (GetBucket (Storage ''proj'') ''bkt'', RBucket (Inr (Bucket ''bkt''))),
       (UploadFromFile (Bucket ''bkt'') ''pyspark_sort.py'' (FileObj 3), RNone (Inr ())),
       (ListClusters (Client ''cluster'') ''proj'' ''global'', RClusters (Inr [example_cluster 2])),
       (ListClusters (Client ''cluster'') ''proj'' ''global'', RClusters (Inr [example_cluster 2])),
       (SubmitJob (Client ''job'') ''proj'' ''global''
          \<lparr>placement_cluster_name = ''c1'', pyspark_job_main_python_file_uri = ''gs://bkt/pyspark_sort.py''\<rparr>,
        RJob (Inr \<lparr>reference_job_id = ''job-1'', job_status_state = 1, job_status_details = []\<rparr>)),
       (GetJob (Client ''job'') ''proj'' ''global'' ''job-1'', RJob (Inr (example_job 2))),
       (GetJob (Client ''job'') ''proj'' ''global'' ''job-1'', RJob (Inr (example_job 2))),
       (GetJob (Client ''job'') ''proj'' ''global'' ''job-1'', RJob (Inr (example_job 5))),
       (StorageClient ''proj'', RStorage (Inr (Storage ''proj''))),
       (GetBucket (Storage ''proj'') ''staging'', RBucket (Inr (Bucket ''staging''))),
       (DownloadAsString (Bucket ''staging'')
          ''google-cloud-dataproc-metainfo/uuid-1/jobs/job-1/driveroutput.000000000'', RBytes (Inr ''sorted'')),
       (DeleteCluster (Client ''cluster'') ''proj'' ''global'' ''c1'', RLongRunning (Inr (LongRunning ''delete''))),
       (CloseFile (FileObj 3), RNone (Inr ()))])
   \<and> main 3 env_ok ''proj'' (PyStr ''us-central1-a'') ''c1'' ''bkt'' None False True [] =
     (Returns ''sorted'',
      [(ClusterControllerClient EmptyString, RClient (Inr (Client ''cluster''))),
       (JobControllerClient EmptyString, RClient (Inr (Client ''job''))),
       (OpenFile ''/samples/dataproc/pyspark_sort.py'', RFile (Inr (FileObj 3))),
       (StorageClient ''proj'', RStorage (Inr (Storage ''proj''))),
       (GetBucket (Storage ''proj'') ''bkt'', RBucket (Inr (Bucket ''bkt''))),
       (UploadFromFile (Bucket ''bkt'') ''pyspark_sort.py'' (FileObj 3), RNone (Inr ())),
       (ListClusters (Client ''cluster'') ''proj'' ''global'', RClusters (Inr [example_cluster 1])),
       (ListClusters (Client ''cluster'') ''proj'' ''global'', RClusters (Inr [example_cluster 2])),
       (SubmitJob (Client ''job'') ''proj'' ''global''
          \<lparr>placement_cluster_name = ''c1'', pyspark_job_main_python_file_uri = ''gs://bkt/pyspark_sort.py''\<rparr>,
        RJob (Inr \<lparr>reference_job_id = ''job-1'', job_status_state = 1, job_status_details = []\<rparr>)),
       (GetJob (Client ''job'') ''proj'' ''global'' ''job-1'', RJob (Inr (example_job 2))),
       (GetJob (Client ''job'') ''proj'' ''global'' ''job-1'', RJob (Inr (example_job 2))),
       (GetJob (Client ''job'') ''proj'' ''global'' ''job-1'', RJob (Inr (example_job 5))),
       (StorageClient ''proj'', RStorage (Inr (Storage ''proj''))),
       (GetBucket (Storage ''proj'') ''staging'', RBucket (Inr (Bucket ''staging''))),
       (DownloadAsString (Bucket ''staging'')
          ''google-cloud-dataproc-metainfo/uuid-1/jobs/job-1/driveroutput.000000000'', RBytes (Inr ''sorted''))])
   \<and> (\<exists>region cluster_client job_client transport1 transport2 path file filename data k storage1
           bucket1 job_id m cluster_id output_bucket storage2 bucket2 hb post.
          snd (main 3 env_ok ''proj'' (PyStr ''us-central1-a'') ''c1'' ''bkt'' None True True []) = hb @ post
          \<and> (if True then region = ''global'' else get_region_from_zone (PyStr ''us-central1-a'') = Inr region)
          \<and> map fst hb = map fst ([] :: history)
            @ (if True
               then [ClusterControllerClient EmptyString, JobControllerClient EmptyString]
               else [ClusterControllerGrpcTransport (region @ ''-dataproc.googleapis.com:443''),
                     JobControllerGrpcTransport (region @ ''-dataproc.googleapis.com:443''),
                     ClusterControllerClient (TransportObject transport1),
                     JobControllerClient (TransportObject transport2)])
            @ [OpenFile path]
            @ (if True
               then CreateCluster cluster_client ''proj'' region data
                      # replicate (Suc k) (ListClusters cluster_client ''proj'' region)
               else [])
            @ [StorageClient ''proj'', GetBucket storage1 ''bkt'', UploadFromFile bucket1 filename file,
               ListClusters cluster_client ''proj'' region, ListClusters cluster_client ''proj'' region,
               SubmitJob job_client ''proj'' region
                 \<lparr>placement_cluster_name = ''c1'',
                  pyspark_job_main_python_file_uri = ''gs://'' @ ''bkt'' @ ''/'' @ filename\<rparr>]
            @ replicate (Suc m) (GetJob job_client ''proj'' region job_id)
            @ [StorageClient ''proj'', GetBucket storage2 output_bucket,
               DownloadAsString bucket2 (''google-cloud-dataproc-metainfo/'' @ cluster_id @ ''/jobs/'' @ job_id
                 @ ''/driveroutput.000000000'')]
          \<and> last hb = (DownloadAsString bucket2 (''google-cloud-dataproc-metainfo/'' @ cluster_id
                 @ ''/jobs/'' @ job_id @ ''/driveroutput.000000000''), RBytes (Inr ''sorted''))
          \<and> map fst post =
              (if True then [DeleteCluster cluster_client ''proj'' region ''c1'', CloseFile file]
               else [])
          \<and> cd_project_id data = ''proj'' \<and> cd_cluster_name data = ''c1'')"
proof -
  let ?cc = "Client ''cluster''"
  let ?jc = "Client ''job''"
  let ?zone = "PyStr ''us-central1-a''"
  let ?data = "\<lparr>cd_project_id = ''proj'', cd_cluster_name = ''c1'',
           cd_config = \<lparr>gce_cluster_config_zone_uri =
               ''https://www.googleapis.com/compute/v1/projects/proj/zones/us-central1-a'',
             master_config = \<lparr>num_instances = 1, machine_type_uri = ''n1-standard-1''\<rparr>,
             worker_config = \<lparr>num_instances = 2, machine_type_uri = ''n1-standard-1''\<rparr>\<rparr>\<rparr>"
  let ?details = "\<lparr>placement_cluster_name = ''c1'', pyspark_job_main_python_file_uri = ''gs://bkt/pyspark_sort.py''\<rparr>"
  let ?submitted = "\<lparr>reference_job_id = ''job-1'', job_status_state = 1, job_status_details = []\<rparr>"
  let ?blob = "''google-cloud-dataproc-metainfo/uuid-1/jobs/job-1/driveroutput.000000000''"
  let ?a0 = "[(ClusterControllerClient EmptyString, RClient (Inr ?cc)),
       (JobControllerClient EmptyString, RClient (Inr ?jc))]"
  let ?a1 = "?a0 @ [(OpenFile ''/samples/dataproc/pyspark_sort.py'', RFile (Inr (FileObj 3)))]"
  let ?a2 = "?a1 @ [(CreateCluster ?cc ''proj'' ''global'' ?data, RLongRunning (Inr (LongRunning ''create'')))]"
  let ?a3 = "?a2 @ [(ListClusters ?cc ''proj'' ''global'', RClusters (Inr [example_cluster 1])),
       (ListClusters ?cc ''proj'' ''global'', RClusters (Inr [example_cluster 2]))]"
  let ?a4 = "?a3 @ [(StorageClient ''proj'', RStorage (Inr (Storage ''proj''))),
       (GetBucket (Storage ''proj'') ''bkt'', RBucket (Inr (Bucket ''bkt''))),
       (UploadFromFile (Bucket ''bkt'') ''pyspark_sort.py'' (FileObj 3), RNone (Inr ()))]"
  let ?a5 = "?a4 @ [(ListClusters ?cc ''proj'' ''global'', RClusters (Inr [example_cluster 2]))]"
  let ?a6 = "?a5 @ [(ListClusters ?cc ''proj'' ''global'', RClusters (Inr [example_cluster 2]))]"
  let ?a7 = "?a6 @ [(SubmitJob ?jc ''proj'' ''global'' ?details, RJob (Inr ?submitted))]"
  let ?a8 = "?a7 @ [(GetJob ?jc ''proj'' ''global'' ''job-1'', RJob (Inr (example_job 2))),
       (GetJob ?jc ''proj'' ''global'' ''job-1'', RJob (Inr (example_job 2))),
       (GetJob ?jc ''proj'' ''global'' ''job-1'', RJob (Inr (example_job 5)))]"
  let ?a9 = "?a8 @ [(StorageClient ''proj'', RStorage (Inr (Storage ''proj''))),
       (GetBucket (Storage ''proj'') ''staging'', RBucket (Inr (Bucket ''staging''))),
       (DownloadAsString (Bucket ''staging'') ?blob, RBytes (Inr ''sorted''))]"
  let ?a10 = "?a9 @ [(DeleteCluster ?cc ''proj'' ''global'' ''c1'', RLongRunning (Inr (LongRunning ''delete'')))]"
  let ?b4 = "?a1 @ [(StorageClient ''proj'', RStorage (Inr (Storage ''proj''))),
       (GetBucket (Storage ''proj'') ''bkt'', RBucket (Inr (Bucket ''bkt''))),
       (UploadFromFile (Bucket ''bkt'') ''pyspark_sort.py'' (FileObj 3), RNone (Inr ()))]"
  let ?b5 = "?b4 @ [(ListClusters ?cc ''proj'' ''global'', RClusters (Inr [example_cluster 1]))]"
  let ?b6 = "?b5 @ [(ListClusters ?cc ''proj'' ''global'', RClusters (Inr [example_cluster 2]))]"
  let ?b7 = "?b6 @ [(SubmitJob ?jc ''proj'' ''global'' ?details, RJob (Inr ?submitted))]"
  let ?b8 = "?b7 @ [(GetJob ?jc ''proj'' ''global'' ''job-1'', RJob (Inr (example_job 2))),
       (GetJob ?jc ''proj'' ''global'' ''job-1'', RJob (Inr (example_job 2))),
       (GetJob ?jc ''proj'' ''global'' ''job-1'', RJob (Inr (example_job 5)))]"
  let ?b9 = "?b8 @ [(StorageClient ''proj'', RStorage (Inr (Storage ''proj''))),
       (GetBucket (Storage ''proj'') ''staging'', RBucket (Inr (Bucket ''staging''))),
       (DownloadAsString (Bucket ''staging'') ?blob, RBytes (Inr ''sorted''))]"
  have s0: "dataproc_get_client env_ok ?zone True [] = (Returns (''global'', ?cc, ?jc), ?a0)"
    by (simp add: run_defs env_defs)
  have s1: "open_pyspark_file env_ok None ?a0 = (Returns (FileObj 3, ''pyspark_sort.py''), ?a1)"
    by (simp add: run_defs env_defs)
  have s2: "create_cluster env_ok ?cc ''proj'' ?zone ''global'' ''c1'' ?a1 =
      (Returns (LongRunning ''create''), ?a2)"
    by (simp add: run_defs env_defs)
  have s3: "wait_for_cluster_creation 3 env_ok ?cc ''proj'' ''global'' ''c1'' ?a2 = (Returns (), ?a3)"
    by (simp add: run_defs env_defs numeral_3_eq_3)
  have s4: "upload_pyspark_file env_ok ''proj'' ''bkt'' ''pyspark_sort.py'' (FileObj 3) ?a3 = (Returns (), ?a4)"
    by (simp add: run_defs env_defs)
  have s5: "list_clusters_with_details env_ok ?cc ''proj'' ''global'' ?a4 = (Returns (), ?a5)"
    by (simp add: run_defs env_defs)
  have s6: "get_cluster_id_by_name env_ok ?cc ''proj'' ''global'' ''c1'' ?a5 =
      (Returns (Some (''uuid-1'', ''staging'')), ?a6)"
    by (simp add: run_defs env_defs)
  have s7: "submit_pyspark_job env_ok ?jc ''proj'' ''global'' ''c1'' ''bkt'' ''pyspark_sort.py'' ?a6 =
      (Returns ''job-1'', ?a7)"
    by (simp add: run_defs env_defs)
  have s8: "wait_for_job 3 env_ok ?jc ''proj'' ''global'' ''job-1'' ?a7 = (Returns (example_job 5), ?a8)"
    by (simp add: run_defs env_defs numeral_3_eq_3)
  have s9: "download_output env_ok ''proj'' ''uuid-1'' ''staging'' ''job-1'' ?a8 = (Returns ''sorted'', ?a9)"
    by (simp add: run_defs env_defs)
  have s10: "delete_cluster env_ok ?cc ''proj'' ''global'' ''c1'' ?a9 = (Returns (LongRunning ''delete''), ?a10)"
    by (simp add: run_defs env_defs)
  have u4: "upload_pyspark_file env_ok ''proj'' ''bkt'' ''pyspark_sort.py'' (FileObj 3) ?a1 = (Returns (), ?b4)"
    by (simp add: run_defs env_defs)
  have u5: "list_clusters_with_details env_ok ?cc ''proj'' ''global'' ?b4 = (Returns (), ?b5)"
    by (simp add: run_defs env_defs)
  have u6: "get_cluster_id_by_name env_ok ?cc ''proj'' ''global'' ''c1'' ?b5 =
      (Returns (Some (''uuid-1'', ''staging'')), ?b6)"
    by (simp add: run_defs env_defs)
  have u7: "submit_pyspark_job env_ok ?jc ''proj'' ''global'' ''c1'' ''bkt'' ''pyspark_sort.py'' ?b6 =
      (Returns ''job-1'', ?b7)"
    by (simp add: run_defs env_defs)
  have u8: "wait_for_job 3 env_ok ?jc ''proj'' ''global'' ''job-1'' ?b7 = (Returns (example_job 5), ?b8)"
    by (simp add: run_defs env_defs numeral_3_eq_3)
  have u9: "download_output env_ok ''proj'' ''uuid-1'' ''staging'' ''job-1'' ?b8 = (Returns ''sorted'', ?b9)"
    by (simp add: run_defs env_defs)
  note t = main_performs_sequence [where global_region = True and region = "''global''"
      and cluster_client = ?cc and job_client = ?jc
      and env = env_ok and pyspark_file = None and h = "[]" and zone = ?zone
      and project_id = "''proj''" and name = "''c1''" and bucket_name = "''bkt''" and fuel = 3]
  have r1: "main 3 env_ok ''proj'' ?zone ''c1'' ''bkt'' None True True [] =
      (Returns ''sorted'', ?a10 @ [(CloseFile (FileObj 3), RNone (Inr ()))])"
    using t [THEN conjunct1] s0 s1 s2 s3 s4 s5 s6 s7 s8 s9 s10 by blast
  have r2: "main 3 env_ok ''proj'' ?zone ''c1'' ''bkt'' None False True [] =
      (Returns ''sorted'', ?b9)"
    using t [THEN conjunct2, THEN conjunct1] s0 s1 u4 u5 u6 u7 u8 u9 by blast
  have r3: "\<exists>region cluster_client job_client transport1 transport2 path file filename data k storage1
           bucket1 job_id m cluster_id output_bucket storage2 bucket2 hb post.
          ?a10 @ [(CloseFile (FileObj 3), RNone (Inr ()))] = hb @ post
          \<and> (if True then region = ''global'' else get_region_from_zone (PyStr ''us-central1-a'') = Inr region)
          \<and> map fst hb = map fst ([] :: history)
            @ (if True
               then [ClusterControllerClient EmptyString, JobControllerClient EmptyString]
               else [ClusterControllerGrpcTransport (region @ ''-dataproc.googleapis.com:443''),
                     JobControllerGrpcTransport (region @ ''-dataproc.googleapis.com:443''),
                     ClusterControllerClient (TransportObject transport1),
                     JobControllerClient (TransportObject transport2)])
            @ [OpenFile path]
            @ (if True
               then CreateCluster cluster_client ''proj'' region data
                      # replicate (Suc k) (ListClusters cluster_client ''proj'' region)
               else [])
            @ [StorageClient ''proj'', GetBucket storage1 ''bkt'', UploadFromFile bucket1 filename file,
               ListClusters cluster_client ''proj'' region, ListClusters cluster_client ''proj'' region,
               SubmitJob job_client ''proj'' region
                 \<lparr>placement_cluster_name = ''c1'',
                  pyspark_job_main_python_file_uri = ''gs://'' @ ''bkt'' @ ''/'' @ filename\<rparr>]
            @ replicate (Suc m) (GetJob job_client ''proj'' region job_id)
            @ [StorageClient ''proj'', GetBucket storage2 output_bucket,
               DownloadAsString bucket2 (''google-cloud-dataproc-metainfo/'' @ cluster_id @ ''/jobs/'' @ job_id
                 @ ''/driveroutput.000000000'')]
          \<and> last hb = (DownloadAsString bucket2 (''google-cloud-dataproc-metainfo/'' @ cluster_id
                 @ ''/jobs/'' @ job_id @ ''/driveroutput.000000000''), RBytes (Inr ''sorted''))
          \<and> map fst post =
              (if True then [DeleteCluster cluster_client ''proj'' region ''c1'', CloseFile file]
               else [])
          \<and> cd_project_id data = ''proj'' \<and> cd_cluster_name data = ''c1''"
    by (rule t [where create_new_cluster = True and result = "''sorted''"
          and h' = "?a10 @ [(CloseFile (FileObj 3), RNone (Inr ()))]",
          THEN conjunct2, THEN conjunct2, THEN mp])
       (rule r1)
  have e1: "snd (main 3 env_ok ''proj'' ?zone ''c1'' ''bkt'' None True True []) =
      ?a10 @ [(CloseFile (FileObj 3), RNone (Inr ()))]"
    using r1 by simp
  show ?thesis
    apply (intro conjI)
    subgoal using r1 by simp
    subgoal using r2 by simp
    subgoal unfolding e1 by (rule r3)
    done
qed

theorem main_performs_sequence_counterexample:
  "fst (main 3 env_ok ''proj'' (PyStr ''us-central1-a'') ''c1'' ''bkt'' None True True []) = Returns ''sorted''
   \<and> fst (specified_sequence 3 env_ok (Client ''cluster'') (Client ''job'') ''proj''
        (PyStr ''us-central1-a'') ''global'' ''c1'' ''bkt'' True
        (FileObj 3) ''pyspark_sort.py'' ''uuid-1'' ''staging'' []) = Returns ''sorted''
   \<and> map fst (snd (main 3 env_ok ''proj'' (PyStr ''us-central1-a'') ''c1'' ''bkt'' None True True [])) \<noteq>
       map fst (snd (specified_sequence 3 env_ok (Client ''cluster'') (Client ''job'') ''proj''
        (PyStr ''us-central1-a'') ''global'' ''c1'' ''bkt'' True
        (FileObj 3) ''pyspark_sort.py'' ''uuid-1'' ''staging'' []))
   \<and> length (filter is_ListClusters
         (map fst (snd (main 3 env_ok ''proj'' (PyStr ''us-central1-a'') ''c1'' ''bkt'' None True True [])))) = 4
   \<and> length (filter is_ListClusters
         (map fst (snd (specified_sequence 3 env_ok (Client ''cluster'') (Client ''job'') ''proj''
        (PyStr ''us-central1-a'') ''global'' ''c1'' ''bkt'' True
        (FileObj 3) ''pyspark_sort.py'' ''uuid-1'' ''staging'' [])))) = 2
   \<and> DeleteCluster (Client ''cluster'') ''proj'' ''global'' ''c1'' \<in>
       set (map fst (snd (main 3 env_ok ''proj'' (PyStr ''us-central1-a'') ''c1'' ''bkt'' None True True [])))
   \<and> \<not> list_ex is_DeleteCluster
       (map fst (snd (specified_sequence 3 env_ok (Client ''cluster'') (Client ''job'') ''proj''
        (PyStr ''us-central1-a'') ''global'' ''c1'' ''bkt'' True
        (FileObj 3) ''pyspark_sort.py'' ''uuid-1'' ''staging'' [])))"
  using specified_sequence_ok_run by (simp add: main_ok_run)

subsection \<open>Two runs of main\<close>
















































section \<open>The samples and the modules next to them\<close>















end
